theory Spec2Isabelle
  imports Main "HOL-Library.Char_ord" "HOL-Library.List_Lexorder"
    "HOL-Library.Product_Lexorder" "HOL-Library.Option_ord"
begin

section \<open>Errors and wire values\<close>

text \<open>
  \<^verbatim>\<open>kafka.errors\<close> is imported by the admin client but is not part of the sources at hand.
  The classes the client compares by identity (\<^verbatim>\<open>Errors.NoError\<close>,
  \<^verbatim>\<open>Errors.NotControllerError\<close>, \<^verbatim>\<open>Errors.ElectionNotNeededError\<close>) are constructors;
  every other class that \<^verbatim>\<open>Errors.for_code\<close> may return is \<open>OtherError\<close> of its code.
  \<^verbatim>\<open>Errors.for_code\<close> itself is a field of the client record below, so every theorem holds
  for every code table.
\<close>

datatype error_type = NoError | NotControllerError | ElectionNotNeededError | OtherError int

text \<open>A \<^verbatim>\<open>TopicPartition\<close> is a named tuple \<^verbatim>\<open>(topic, partition)\<close>.\<close>

type_synonym TopicPartition = "string \<times> int"

text \<open>
  Exceptions are values. Where a claim speaks about a message, the constructor carries the
  values the source interpolates into it, in the order of the format string.
\<close>

datatype error =
    BrokerError error_type
  | DeleteRecordsError error_type string int
  | BrokerResponseError "(string \<times> int \<times> error_type) list"
  | UnknownTopicOrPartitionError "TopicPartition set"
  | IncompatibleBrokerVersion string "nat list"
  | UnrecognizedBrokerVersion nat
  | NodeNotReadyError string
  | KafkaConnectionError int
  | ValueError string "nat list"
  | NotImplementedError string nat
  | AttributeError
  | KeyError
  | StopIteration
  | RuntimeError string

datatype ElectionType = PREFERRED | UNCLEAN

datatype ConfigResourceType = BROKER | TOPIC

datatype api =
    Metadata | OffsetFetch | FindCoordinator | CreateTopics | DeleteTopics | DeleteRecords
  | DescribeConfigs | CreatePartitions | ListGroups | ElectLeaders

text \<open>
  A request \<^verbatim>\<open>XRequest[version](...)\<close> is the constructor \<open>XReq version ...\<close>: the index
  into the registry list and the keyword arguments the client passes. An argument the
  chosen version does not take is \<open>None\<close>.
\<close>

type_synonym create_topic_request =
  "string \<times> int \<times> int \<times> (int \<times> int list) list \<times> (string \<times> string) list"

type_synonym describe_config_resource = "ConfigResourceType \<times> string \<times> string list option"

datatype request =
    MetadataReq nat "string set option" "bool option" "(bool \<times> bool) option"
  | FindCoordinatorReq nat string "int option"
  | CreateTopicsReq nat "create_topic_request list" int "bool option"
  | DeleteTopicsReq nat "string list" int
  | CreatePartitionsReq nat "(string \<times> int \<times> int list list) list" int bool
  | ElectLeadersReq nat ElectionType "(string \<times> int list) list" int
  | DescribeConfigsReq nat "describe_config_resource list" "bool option"
  | ListGroupsReq nat
  | OffsetFetchReq nat string "(string \<times> int set) list option"
  | DeleteRecordsReq nat "(string \<times> (int \<times> int) list) list" int

text \<open>
  Responses carry the attributes the client reads. \<open>TopicErrorsResp\<close> stands for the
  responses with an attribute \<^verbatim>\<open>topic_errors\<close> or \<^verbatim>\<open>topic_error_codes\<close> (CreateTopics,
  CreatePartitions, DeleteTopics), its entries cut to \<^verbatim>\<open>(topic, error_code)\<close> as
  \<^verbatim>\<open>e[:2]\<close> does; \<open>ElectLeadersResp\<close> carries \<^verbatim>\<open>replication_election_results\<close> with
  entries \<^verbatim>\<open>(partition_id, error_code)\<close>. A metadata topic is
  \<^verbatim>\<open>(topic, [(partition, leader)])\<close>; a DeleteRecords partition is
  \<^verbatim>\<open>(partition_index, low_watermark, error_code)\<close>; an OffsetFetch partition is
  \<^verbatim>\<open>(partition, offset, leader_epoch, metadata, error_code)\<close>.
\<close>

type_synonym partition_result = "int \<times> int \<times> int"

datatype response =
    MetadataResp int "(string \<times> (int \<times> int) list) list"
  | FindCoordinatorResp int int
  | TopicErrorsResp "(string \<times> int) list"
  | ElectLeadersResp "(string \<times> (int \<times> int) list) list"
  | DescribeConfigsResp "describe_config_resource list"
  | ListGroupsResp nat int "(string \<times> string) list"
  | OffsetFetchResp nat int "(string \<times> (int \<times> int \<times> int option \<times> string \<times> int) list) list"
  | DeleteRecordsResp "(string \<times> partition_result list) list"

section \<open>The admin client and the broker client it drives\<close>

datatype future = Pending | Succeeded response | Failed error

text \<open>
  The record holds what \<^verbatim>\<open>KafkaAdminClient\<close> keeps (\<^verbatim>\<open>config\<close>, \<^verbatim>\<open>_controller_id\<close>) and
  the broker client \<^verbatim>\<open>self._client\<close> it talks to. \<^verbatim>\<open>kafka.client_async\<close> is not among the
  sources; its behaviour is the environment of the model:
  \<^item> \<open>inflight\<close>: every request sent so far with its target node and its future, in
    sending order. A future is the index of its entry.
  \<^item> \<open>reply\<close>: the outcome of the \<open>i\<close>-th send (a response, or the exception the future
    fails with).
  \<^item> \<open>arrivals\<close>: the order in which outcomes reach the client, as indices of sends.
  \<^item> \<open>least_loaded\<close>: the node \<^verbatim>\<open>least_loaded_node()\<close> returns after \<open>n\<close> sends.
  \<^item> \<open>unreachable\<close>: the nodes for which \<^verbatim>\<open>await_ready\<close> raises.
  \<^item> \<open>broker_max\<close>: the highest version of each API the broker supports.
  \<^item> \<open>check_version\<close>: the broker version \<^verbatim>\<open>check_version(node_id)\<close> reports.
  \<^item> \<open>refresh_rounds\<close>: how many Metadata round trips fit before the deadline of
    \<^verbatim>\<open>_refresh_controller_id\<close> (wall-clock time is not modelled).
  \<^item> \<open>cluster_brokers\<close>, \<open>cluster_partitions\<close>: the client's cluster view.
  \<^item> \<open>py_int\<close>: Python's builtin \<^verbatim>\<open>int()\<close> on a resource name; \<open>None\<close> where it raises
    \<^verbatim>\<open>ValueError\<close>.
  \<^item> \<open>set_rank\<close>: the place Python's hashing gives an element when a \<^verbatim>\<open>set\<close> is iterated
    (see \<open>set_items\<close> below).
\<close>

record client =
  request_timeout_ms :: int
  config_api_version :: "nat list"
  controller_id :: int
  for_code :: "int \<Rightarrow> error_type"
  inflight :: "(int \<times> request \<times> future) list"
  reply :: "nat \<Rightarrow> int \<Rightarrow> request \<Rightarrow> error + response"
  arrivals :: "nat list"
  least_loaded :: "nat \<Rightarrow> int"
  unreachable :: "int \<Rightarrow> bool"
  broker_max :: "api \<Rightarrow> nat"
  check_version :: "int \<Rightarrow> nat list"
  refresh_rounds :: nat
  cluster_brokers :: "int list"
  cluster_partitions :: "(string \<times> int list) list"
  py_int :: "string \<Rightarrow> int option"
  set_rank :: "TopicPartition \<Rightarrow> nat"

type_synonym 'a result = "(error + 'a) \<times> client"

text \<open>
  A Python \<^verbatim>\<open>dict\<close> is the list of its items in insertion order, with distinct keys:
  \<^verbatim>\<open>d[k] = v\<close> overwrites the value of a key that is present and appends a new key.
  \<^verbatim>\<open>dict(items)\<close> stores the items one after the other.
\<close>

fun dict_set :: "('k \<times> 'v) list \<Rightarrow> 'k \<Rightarrow> 'v \<Rightarrow> ('k \<times> 'v) list" where
  "dict_set [] k v = [(k, v)]"
| "dict_set ((k', v') # d) k v =
     (if k' = k then (k, v) # d else (k', v') # dict_set d k v)"

definition dict_of :: "('k \<times> 'v) list \<Rightarrow> ('k \<times> 'v) list" where
  "dict_of items = foldl (\<lambda>d (k, v). dict_set d k v) [] items"

text \<open>
  Iterating a Python \<^verbatim>\<open>set\<close> yields every element once, in an order the language leaves
  open (it follows the hashes). \<open>set_items self keys\<close> is the iteration of \<^verbatim>\<open>set(keys)\<close>:
  the distinct elements by ascending \<open>set_rank\<close>, so every order is that of some client.
\<close>

definition set_items :: "client \<Rightarrow> TopicPartition list \<Rightarrow> TopicPartition list" where
  "set_items self keys = sort_key (set_rank self) (remdups keys)"

text \<open>\<^verbatim>\<open>d.get(k, [])\<close>, which is also what a \<^verbatim>\<open>defaultdict(list)\<close> reads at \<open>k\<close>.\<close>

definition dict_get_list :: "('k \<times> 'v list) list \<Rightarrow> 'k \<Rightarrow> 'v list" where
  "dict_get_list d k = (case map_of d k of None \<Rightarrow> [] | Some v \<Rightarrow> v)"

text \<open>\<^verbatim>\<open>_validate_timeout\<close>: \<^verbatim>\<open>timeout_ms or self.config['request_timeout_ms']\<close>. The
  argument is \<^verbatim>\<open>None\<close> or a number; \<^verbatim>\<open>None\<close> and \<^verbatim>\<open>0\<close> are the falsy ones.\<close>

fun truthy :: "int option \<Rightarrow> bool" where
  "truthy None = False"
| "truthy (Some t) = (t \<noteq> 0)"

definition validate_timeout :: "client \<Rightarrow> int option \<Rightarrow> int" where
  "validate_timeout self timeout_ms =
     (if truthy timeout_ms then the timeout_ms else request_timeout_ms self)"

text \<open>
  Modelled from the spec: \<^verbatim>\<open>KafkaClient.api_version\<close> (kafka/client_async.py, not among the
  sources) picks \<open>min(clientMaxForKey, brokerMaxForKey)\<close>.
\<close>

definition api_version :: "client \<Rightarrow> api \<Rightarrow> nat \<Rightarrow> nat" where
  "api_version self operation max_version = min max_version (broker_max self operation)"

text \<open>The state of a future; a handle that names no request sent is a failed future.\<close>

definition future_state :: "client \<Rightarrow> nat \<Rightarrow> future" where
  "future_state c f =
     (if f < length (inflight c) then snd (snd (inflight c ! f))
      else Failed (RuntimeError ''no such future''))"

definition succeeded :: "client \<Rightarrow> nat \<Rightarrow> bool" where
  "succeeded c f = (case future_state c f of Succeeded r \<Rightarrow> True | _ \<Rightarrow> False)"

text \<open>The outcome of send \<open>i\<close> reaches the client: a pending future is completed with it.\<close>

definition deliver :: "nat \<Rightarrow> client \<Rightarrow> client" where
  "deliver i c =
     (if i < length (inflight c) then
        (case inflight c ! i of
           (node, request, Pending) \<Rightarrow>
             c\<lparr>inflight := (inflight c)[i := (node, request,
                  (case reply c i node request of Inl e \<Rightarrow> Failed e | Inr r \<Rightarrow> Succeeded r))]\<rparr>
         | _ \<Rightarrow> c)
      else c)"

text \<open>
  Modelled from the spec: \<^verbatim>\<open>self._client.poll(future=future)\<close> runs the I/O loop until the
  future is done. Outcomes are taken in the order of \<open>arrivals\<close>; when nothing else is
  due, the outcome of the awaited request itself arrives.
\<close>

fun poll_loop :: "nat \<Rightarrow> nat list \<Rightarrow> client \<Rightarrow> client" where
  "poll_loop f [] c = deliver f (c\<lparr>arrivals := []\<rparr>)"
| "poll_loop f (i # rest) c =
     (if future_state c f \<noteq> Pending then c\<lparr>arrivals := i # rest\<rparr>
      else poll_loop f rest (deliver i c))"

definition poll :: "nat \<Rightarrow> client \<Rightarrow> client" where
  "poll f c = poll_loop f (arrivals c) c"

text \<open>\<^verbatim>\<open>self._client.await_ready(node_id)\<close> and \<^verbatim>\<open>self._client.send(node_id, request)\<close>.\<close>

definition await_ready :: "client \<Rightarrow> int \<Rightarrow> error + unit" where
  "await_ready c node_id = (if unreachable c node_id then Inl (KafkaConnectionError node_id) else Inr ())"

definition send :: "int \<Rightarrow> request \<Rightarrow> client \<Rightarrow> nat \<times> client" where
  "send node_id request c =
     (length (inflight c), c\<lparr>inflight := inflight c @ [(node_id, request, Pending)]\<rparr>)"

definition least_loaded_node :: "client \<Rightarrow> int" where
  "least_loaded_node c = least_loaded c (length (inflight c))"

text \<open>The body of the \<^verbatim>\<open>for\<close> loop of \<^verbatim>\<open>_wait_for_futures\<close>: poll each future, raise the
  exception of the first that failed.\<close>

fun wait_pass :: "nat list \<Rightarrow> client \<Rightarrow> unit result" where
  "wait_pass [] c = (Inr (), c)"
| "wait_pass (f # fs) c =
     (let c' = poll f c in
      case future_state c' f of
        Failed e \<Rightarrow> (Inl e, c')
      | _ \<Rightarrow> wait_pass fs c')"

text \<open>A future that is done stays as it is, and a polled future is done; so one pass over
  the futures that raises nothing leaves all of them succeeded.\<close>

lemma future_state_deliver_done:
  "future_state c f \<noteq> Pending \<Longrightarrow> future_state (deliver i c) f = future_state c f"
  by (auto simp: future_state_def deliver_def nth_list_update split: prod.splits future.splits)

lemma future_state_deliver_self: "future_state (deliver f c) f \<noteq> Pending"
  by (auto simp: future_state_def deliver_def split: prod.splits future.splits sum.splits)

lemma future_state_arrivals [simp]: "future_state (c\<lparr>arrivals := a\<rparr>) f = future_state c f"
  by (simp add: future_state_def)

lemma poll_loop_keeps:
  "future_state c g \<noteq> Pending \<Longrightarrow> future_state (poll_loop f arrs c) g = future_state c g"
  by (induction arrs arbitrary: c) (auto simp: future_state_deliver_done)

lemma poll_loop_done: "future_state (poll_loop f arrs c) f \<noteq> Pending"
  by (induction arrs arbitrary: c) (auto simp: future_state_deliver_self)

lemma succeeded_poll: "succeeded c g \<Longrightarrow> succeeded (poll f c) g"
  by (auto simp: succeeded_def poll_def poll_loop_keeps split: future.splits)

lemma wait_pass_keeps: "succeeded c g \<Longrightarrow> succeeded (snd (wait_pass fs c)) g"
  by (induction fs arbitrary: c) (auto simp: Let_def succeeded_poll split: future.splits)

lemma wait_pass_succeeded:
  "wait_pass fs c = (Inr u, c') \<Longrightarrow> list_all (succeeded c') fs"
proof (induction fs arbitrary: c)
  case Nil
  then show ?case by simp
next
  case (Cons f fs)
  let ?c1 = "poll f c"
  from Cons.prems have nf: "\<forall>e. future_state ?c1 f \<noteq> Failed e"
    and rest: "wait_pass fs ?c1 = (Inr u, c')"
    by (auto simp: Let_def split: future.splits)
  have "future_state ?c1 f \<noteq> Pending" by (simp add: poll_def poll_loop_done)
  with nf have "succeeded ?c1 f" by (cases "future_state ?c1 f") (auto simp: succeeded_def)
  then have "succeeded (snd (wait_pass fs ?c1)) f" by (rule wait_pass_keeps)
  with rest Cons.IH[OF rest] show ?case by simp
qed

text \<open>\<^verbatim>\<open>_wait_for_futures\<close>: \<^verbatim>\<open>while not all(future.succeeded() for future in futures)\<close>
  around the pass.\<close>

function wait_for_futures :: "nat list \<Rightarrow> client \<Rightarrow> unit result" where
  "wait_for_futures fs c =
     (if list_all (succeeded c) fs then (Inr (), c)
      else case wait_pass fs c of
        (Inl e, c') \<Rightarrow> (Inl e, c')
      | (Inr u, c') \<Rightarrow> wait_for_futures fs c')"
  by pat_completeness auto
termination
  by (relation "measure (\<lambda>(fs, c). if list_all (succeeded c) fs then 0 else 1)")
     (auto dest: wait_pass_succeeded[OF sym])

declare wait_for_futures.simps [simp del]

text \<open>\<^verbatim>\<open>future.value\<close> of a future the wait has left succeeded.\<close>

definition future_value :: "client \<Rightarrow> nat \<Rightarrow> error + response" where
  "future_value c f =
     (case future_state c f of Succeeded r \<Rightarrow> Inr r | _ \<Rightarrow> Inl AttributeError)"

definition send_request :: "request \<Rightarrow> int option \<Rightarrow> client \<Rightarrow> response result" where
  "send_request request node_id self =
     (let node_id = (case node_id of None \<Rightarrow> least_loaded_node self | Some n \<Rightarrow> n) in
      case await_ready self node_id of
        Inl e \<Rightarrow> (Inl e, self)
      | Inr _ \<Rightarrow>
          (let (future, c1) = send node_id request self in
           case wait_for_futures [future] c1 of
             (Inl e, c2) \<Rightarrow> (Inl e, c2)
           | (Inr _, c2) \<Rightarrow> (future_value c2 future, c2)))"

text \<open>\<^verbatim>\<open>send_requests\<close>: the loop that submits every request, the wait, and the list
  comprehension \<^verbatim>\<open>[response_fn(future.value) for future in futures]\<close>, which stops at the
  first \<^verbatim>\<open>response_fn\<close> that raises.\<close>

fun submit_all :: "(request \<times> int option) list \<Rightarrow> client \<Rightarrow> nat list result" where
  "submit_all [] c = (Inr [], c)"
| "submit_all ((request, node_id) # rest) c =
     (let node_id = (case node_id of None \<Rightarrow> least_loaded_node c | Some n \<Rightarrow> n) in
      case await_ready c node_id of
        Inl e \<Rightarrow> (Inl e, c)
      | Inr _ \<Rightarrow>
          (let (future, c1) = send node_id request c in
           case submit_all rest c1 of
             (Inl e, c2) \<Rightarrow> (Inl e, c2)
           | (Inr futures, c2) \<Rightarrow> (Inr (future # futures), c2)))"

fun map_raise :: "('a \<Rightarrow> error + 'b) \<Rightarrow> 'a list \<Rightarrow> error + 'b list" where
  "map_raise f [] = Inr []"
| "map_raise f (x # xs) =
     (case f x of
        Inl e \<Rightarrow> Inl e
      | Inr y \<Rightarrow> (case map_raise f xs of Inl e \<Rightarrow> Inl e | Inr ys \<Rightarrow> Inr (y # ys)))"

definition send_requests ::
  "(request \<times> int option) list \<Rightarrow> (response \<Rightarrow> error + 'a) \<Rightarrow> client \<Rightarrow> 'a list result" where
  "send_requests requests_and_node_ids response_fn self =
     (case submit_all requests_and_node_ids self of
        (Inl e, c1) \<Rightarrow> (Inl e, c1)
      | (Inr futures, c1) \<Rightarrow>
          (case wait_for_futures futures c1 of
             (Inl e, c2) \<Rightarrow> (Inl e, c2)
           | (Inr _, c2) \<Rightarrow>
               (map_raise (\<lambda>future. case future_value c2 future of
                                       Inl e \<Rightarrow> Inl e
                                     | Inr r \<Rightarrow> response_fn r) futures, c2)))"

section \<open>Controller-bound requests\<close>

text \<open>\<^verbatim>\<open>_refresh_controller_id\<close>. The loop \<^verbatim>\<open>while time.time() < timeout_at\<close> runs for as
  many rounds as fit before the deadline; its \<^verbatim>\<open>else\<close> branch raises
  \<^verbatim>\<open>NodeNotReadyError('controller')\<close>.\<close>

fun refresh_loop :: "nat \<Rightarrow> request \<Rightarrow> client \<Rightarrow> unit result" where
  "refresh_loop 0 request self = (Inl (NodeNotReadyError ''controller''), self)"
| "refresh_loop (Suc rounds) request self =
     (case send_request request None self of
        (Inl e, c1) \<Rightarrow> (Inl e, c1)
      | (Inr response, c1) \<Rightarrow>
          (case response of
             MetadataResp cid topics \<Rightarrow>
               if cid = - 1 then refresh_loop rounds request c1
               else
                 (let controller_version = check_version c1 cid in
                  if controller_version < [0, 10, 0] then
                    (Inl (IncompatibleBrokerVersion
                       ''The controller appears to be running Kafka {}. KafkaAdminClient requires brokers >= 0.10.0.0.''
                       controller_version), c1)
                  else (Inr (), c1\<lparr>controller_id := cid\<rparr>))
           | _ \<Rightarrow> (Inl AttributeError, c1)))"

definition refresh_controller_id :: "client \<Rightarrow> unit result" where
  "refresh_controller_id self =
     (let version = api_version self Metadata 8 in
      if version = 0 then (Inl (UnrecognizedBrokerVersion version), self)
      else refresh_loop (refresh_rounds self) (MetadataReq version None None None) self)"

text \<open>\<^verbatim>\<open>_parse_topic_request_response\<close>: \<open>tries\<close> is the number of tries left after this
  send. The result \<open>False\<close> asks for a resend.\<close>

fun parse_topic_request_response :: "(string \<times> int) list \<Rightarrow> nat \<Rightarrow> client \<Rightarrow> bool result" where
  "parse_topic_request_response [] tries self = (Inr True, self)"
| "parse_topic_request_response ((topic, error_code) # rest) tries self =
     (let error_type = for_code self error_code in
      if tries \<noteq> 0 \<and> error_type = NotControllerError then
        (case refresh_controller_id self of
           (Inl e, c) \<Rightarrow> (Inl e, c)
         | (Inr _, c) \<Rightarrow> (Inr False, c))
      else if error_type \<noteq> NoError then (Inl (BrokerError error_type), self)
      else parse_topic_request_response rest tries self)"

text \<open>\<^verbatim>\<open>_parse_topic_partition_request_response\<close>: the inner loop over the partitions of
  one topic either goes on (\<open>None\<close>) or returns from the function.\<close>

fun parse_partition_results :: "(int \<times> int) list \<Rightarrow> nat \<Rightarrow> client \<Rightarrow> bool option result" where
  "parse_partition_results [] tries self = (Inr None, self)"
| "parse_partition_results ((partition_id, error_code) # rest) tries self =
     (let error_type = for_code self error_code in
      if tries \<noteq> 0 \<and> error_type = NotControllerError then
        (case refresh_controller_id self of
           (Inl e, c) \<Rightarrow> (Inl e, c)
         | (Inr _, c) \<Rightarrow> (Inr (Some False), c))
      else if error_type \<noteq> NoError \<and> error_type \<noteq> ElectionNotNeededError then
        (Inl (BrokerError error_type), self)
      else parse_partition_results rest tries self)"

fun parse_election_results ::
  "(string \<times> (int \<times> int) list) list \<Rightarrow> nat \<Rightarrow> client \<Rightarrow> bool result" where
  "parse_election_results [] tries self = (Inr True, self)"
| "parse_election_results ((topic, partition_results) # rest) tries self =
     (case parse_partition_results partition_results tries self of
        (Inl e, c) \<Rightarrow> (Inl e, c)
      | (Inr (Some returned), c) \<Rightarrow> (Inr returned, c)
      | (Inr None, c) \<Rightarrow> parse_election_results rest tries c)"

definition parse_topic_partition_request_response ::
  "response \<Rightarrow> nat \<Rightarrow> client \<Rightarrow> bool result" where
  "parse_topic_partition_request_response response tries self =
     (case response of
        ElectLeadersResp replication_election_results \<Rightarrow>
          parse_election_results replication_election_results tries self
      | _ \<Rightarrow> (Inl AttributeError, self))"

text \<open>\<^verbatim>\<open>getattr(response, 'topic_errors', getattr(response, 'topic_error_codes', None))\<close>.\<close>

definition topic_error_tuples :: "response \<Rightarrow> (string \<times> int) list option" where
  "topic_error_tuples response =
     (case response of TopicErrorsResp tuples \<Rightarrow> Some tuples | _ \<Rightarrow> None)"

text \<open>\<^verbatim>\<open>_send_request_to_controller\<close>: \<^verbatim>\<open>tries = 2; while tries: tries -= 1; ...\<close>, and the
  \<^verbatim>\<open>raise RuntimeError\<close> behind the loop.\<close>

fun send_to_controller_loop :: "nat \<Rightarrow> request \<Rightarrow> client \<Rightarrow> response result" where
  "send_to_controller_loop 0 request self =
     (Inl (RuntimeError ''This should never happen, please file a bug with full stacktrace if encountered''), self)"
| "send_to_controller_loop (Suc tries) request self =
     (case send_request request (Some (controller_id self)) self of
        (Inl e, c1) \<Rightarrow> (Inl e, c1)
      | (Inr response, c1) \<Rightarrow>
          (case (case topic_error_tuples response of
                   Some tuples \<Rightarrow> parse_topic_request_response tuples tries c1
                 | None \<Rightarrow> parse_topic_partition_request_response response tries c1) of
             (Inl e, c2) \<Rightarrow> (Inl e, c2)
           | (Inr success, c2) \<Rightarrow>
               if success then (Inr response, c2)
               else send_to_controller_loop tries request c2))"

definition send_request_to_controller :: "request \<Rightarrow> client \<Rightarrow> response result" where
  "send_request_to_controller request self = send_to_controller_loop 2 request self"

section \<open>The controller-bound calls\<close>

text \<open>\<^verbatim>\<open>NewTopic\<close> and \<^verbatim>\<open>NewPartitions\<close> (kafka.admin, not among the sources) are the records
  of the attributes the converters read; a dict is the list of its items.\<close>

record NewTopic =
  name :: string
  num_partitions :: int
  replication_factor :: int
  replica_assignments :: "(int \<times> int list) list"
  topic_configs :: "(string \<times> string) list"

record NewPartitions =
  total_count :: int
  new_assignments :: "int list list"

definition convert_new_topic_request :: "NewTopic \<Rightarrow> create_topic_request" where
  "convert_new_topic_request new_topic =
     (NewTopic.name new_topic, num_partitions new_topic, replication_factor new_topic,
      replica_assignments new_topic, topic_configs new_topic)"

definition create_topics ::
  "NewTopic list \<Rightarrow> int option \<Rightarrow> bool \<Rightarrow> client \<Rightarrow> response result" where
  "create_topics new_topics timeout_ms validate_only self =
     (let version = api_version self CreateTopics 3;
          timeout_ms = validate_timeout self timeout_ms in
      if version = 0 then
        if validate_only then
          (Inl (IncompatibleBrokerVersion
             ''validate_only requires CreateTopicsRequest >= v1, which is not supported by Kafka {}.''
             (config_api_version self)), self)
        else
          send_request_to_controller
            (CreateTopicsReq version (map convert_new_topic_request new_topics) timeout_ms None) self
      else if version \<le> 3 then
        send_request_to_controller
          (CreateTopicsReq version (map convert_new_topic_request new_topics) timeout_ms
             (Some validate_only)) self
      else (Inl (RuntimeError ''UnboundLocalError: request''), self))"

definition delete_topics :: "string list \<Rightarrow> int option \<Rightarrow> client \<Rightarrow> response result" where
  "delete_topics topics timeout_ms self =
     (let version = api_version self DeleteTopics 3;
          timeout_ms = validate_timeout self timeout_ms in
      send_request_to_controller (DeleteTopicsReq version topics timeout_ms) self)"

definition convert_create_partitions_request ::
  "string \<Rightarrow> NewPartitions \<Rightarrow> string \<times> int \<times> int list list" where
  "convert_create_partitions_request topic_name new_partitions =
     (topic_name, (total_count new_partitions, new_assignments new_partitions))"

definition create_partitions ::
  "(string \<times> NewPartitions) list \<Rightarrow> int option \<Rightarrow> bool \<Rightarrow> client \<Rightarrow> response result" where
  "create_partitions topic_partitions timeout_ms validate_only self =
     (let version = api_version self CreatePartitions 1;
          timeout_ms = validate_timeout self timeout_ms in
      send_request_to_controller
        (CreatePartitionsReq version
           (map (\<lambda>(topic_name, new_partitions).
                   convert_create_partitions_request topic_name new_partitions) topic_partitions)
           timeout_ms validate_only) self)"

text \<open>\<^verbatim>\<open>ElectionType(election_type)\<close> raises \<^verbatim>\<open>ValueError\<close> for a value that is no member.\<close>

definition election_type_of :: "int \<Rightarrow> error + ElectionType" where
  "election_type_of election_type =
     (if election_type = 0 then Inr PREFERRED
      else if election_type = 1 then Inr UNCLEAN
      else Inl (ValueError ''{} is not a valid ElectionType'' []))"

definition convert_topic_partitions :: "(string \<times> int list) list \<Rightarrow> (string \<times> int list) list" where
  "convert_topic_partitions topic_partitions =
     map (\<lambda>(topic, partition_ids). (topic, partition_ids)) topic_partitions"

definition get_all_topic_partitions :: "client \<Rightarrow> (string \<times> int list) list" where
  "get_all_topic_partitions self = cluster_partitions self"

definition get_topic_partitions ::
  "client \<Rightarrow> (string \<times> int list) list option \<Rightarrow> (string \<times> int list) list" where
  "get_topic_partitions self topic_partitions =
     (case topic_partitions of
        None \<Rightarrow> get_all_topic_partitions self
      | Some given \<Rightarrow> convert_topic_partitions given)"

definition perform_leader_election ::
  "int \<Rightarrow> (string \<times> int list) list option \<Rightarrow> int option \<Rightarrow> client \<Rightarrow> response result" where
  "perform_leader_election election_type topic_partitions timeout_ms self =
     (let version = api_version self ElectLeaders 1;
          timeout_ms = validate_timeout self timeout_ms in
      case election_type_of election_type of
        Inl e \<Rightarrow> (Inl e, self)
      | Inr election \<Rightarrow>
          send_request_to_controller
            (ElectLeadersReq version election (get_topic_partitions self topic_partitions)
               timeout_ms) self)"

section \<open>Coordinator lookup and consumer groups\<close>

text \<open>\<^verbatim>\<open>_find_coordinator_id_request\<close>. \<^verbatim>\<open>api_version\<close> never exceeds its \<^verbatim>\<open>max_version\<close>,
  so the \<^verbatim>\<open>elif version <= 2\<close> is the \<open>else\<close>.\<close>

definition find_coordinator_id_request :: "client \<Rightarrow> string \<Rightarrow> request" where
  "find_coordinator_id_request self group_id =
     (let version = api_version self FindCoordinator 2 in
      if version \<le> 0 then FindCoordinatorReq version group_id None
      else FindCoordinatorReq version group_id (Some 0))"

definition find_coordinator_id_process_response :: "client \<Rightarrow> response \<Rightarrow> error + int" where
  "find_coordinator_id_process_response self response =
     (case response of
        FindCoordinatorResp error_code coordinator_id \<Rightarrow>
          (let error_type = for_code self error_code in
           if error_type \<noteq> NoError then Inl (BrokerError error_type)
           else Inr coordinator_id)
      | _ \<Rightarrow> Inl AttributeError)"

definition find_coordinator_ids :: "string list \<Rightarrow> client \<Rightarrow> (string \<times> int) list result" where
  "find_coordinator_ids group_ids self =
     (let requests = map (\<lambda>group_id. (find_coordinator_id_request self group_id, None)) group_ids in
      case send_requests requests (find_coordinator_id_process_response self) self of
        (Inl e, c) \<Rightarrow> (Inl e, c)
      | (Inr coordinator_ids, c) \<Rightarrow> (Inr (dict_of (zip group_ids coordinator_ids)), c))"

text \<open>\<^verbatim>\<open>list_consumer_groups\<close> and its helpers. \<^verbatim>\<open>list(set().union(*consumer_groups))\<close> lists
  every element of the union once; the order of a Python set is unspecified, the model
  lists the elements in the order of their first report.\<close>

definition list_consumer_groups_request :: "client \<Rightarrow> request" where
  "list_consumer_groups_request self =
     (let version = api_version self ListGroups 2 in ListGroupsReq version)"

definition list_consumer_groups_process_response ::
  "client \<Rightarrow> response \<Rightarrow> error + (string \<times> string) list" where
  "list_consumer_groups_process_response self response =
     (case response of
        ListGroupsResp API_VERSION error_code groups \<Rightarrow>
          if API_VERSION \<le> 2 then
            (let error_type = for_code self error_code in
             if error_type \<noteq> NoError then Inl (BrokerError error_type)
             else Inr groups)
          else
            Inl (NotImplementedError
              ''Support for ListGroupsResponse_v{} has not yet been added to KafkaAdminClient.''
              API_VERSION)
      | _ \<Rightarrow> Inl AttributeError)"

definition list_consumer_groups ::
  "int list option \<Rightarrow> client \<Rightarrow> (string \<times> string) list result" where
  "list_consumer_groups broker_ids self =
     (let broker_ids = (case broker_ids of None \<Rightarrow> cluster_brokers self | Some ids \<Rightarrow> ids);
          requests = map (\<lambda>broker_id. (list_consumer_groups_request self, Some broker_id)) broker_ids in
      case send_requests requests (list_consumer_groups_process_response self) self of
        (Inl e, c) \<Rightarrow> (Inl e, c)
      | (Inr consumer_groups, c) \<Rightarrow> (Inr (remdups (concat consumer_groups)), c))"

text \<open>\<^verbatim>\<open>_list_consumer_group_offsets_request\<close>: \<^verbatim>\<open>partitions\<close> is \<^verbatim>\<open>None\<close> or a list of
  \<^verbatim>\<open>TopicPartition\<close>s, grouped by topic in a \<^verbatim>\<open>defaultdict(set)\<close>.\<close>

definition topics_partitions_dict :: "TopicPartition list \<Rightarrow> (string \<times> int set) list" where
  "topics_partitions_dict partitions =
     foldl (\<lambda>d (topic, partition).
              dict_set d topic (insert partition (case map_of d topic of None \<Rightarrow> {} | Some s \<Rightarrow> s)))
       [] partitions"

definition list_consumer_group_offsets_request ::
  "client \<Rightarrow> string \<Rightarrow> TopicPartition list option \<Rightarrow> error + request" where
  "list_consumer_group_offsets_request self group_id partitions =
     (let version = api_version self OffsetFetch 5 in
      case partitions of
        None \<Rightarrow>
          if version \<le> 1 then
            Inl (ValueError
              ''OffsetFetchRequest_v{} requires specifying the partitions for which to fetch offsets. Omitting the partitions is only supported on brokers >= 0.10.2. For details, see KIP-88.''
              [version])
          else Inr (OffsetFetchReq version group_id None)
      | Some given \<Rightarrow> Inr (OffsetFetchReq version group_id (Some (topics_partitions_dict given))))"

text \<open>\<^verbatim>\<open>_list_consumer_group_offsets_process_response\<close>: the result maps a
  \<^verbatim>\<open>TopicPartition\<close> to \<^verbatim>\<open>OffsetAndMetadata(offset, metadata, leader_epoch)\<close>.\<close>

type_synonym OffsetAndMetadata = "int \<times> string \<times> int"

fun offsets_of_partitions ::
  "client \<Rightarrow> nat \<Rightarrow> string \<Rightarrow> (int \<times> int \<times> int option \<times> string \<times> int) list \<Rightarrow>
   (TopicPartition \<times> OffsetAndMetadata) list \<Rightarrow> error + (TopicPartition \<times> OffsetAndMetadata) list" where
  "offsets_of_partitions self API_VERSION topic [] offsets = Inr offsets"
| "offsets_of_partitions self API_VERSION topic ((partition_id, offset, epoch, metadata, error_code) # rest) offsets =
     (let leader_epoch = (if API_VERSION \<le> 4 then - 1 else (case epoch of None \<Rightarrow> - 1 | Some e \<Rightarrow> e));
          error_type = for_code self error_code in
      if error_type \<noteq> NoError then Inl (BrokerError error_type)
      else offsets_of_partitions self API_VERSION topic rest
             (dict_set offsets (topic, partition_id) (offset, metadata, leader_epoch)))"

fun offsets_of_topics ::
  "client \<Rightarrow> nat \<Rightarrow> (string \<times> (int \<times> int \<times> int option \<times> string \<times> int) list) list \<Rightarrow>
   (TopicPartition \<times> OffsetAndMetadata) list \<Rightarrow> error + (TopicPartition \<times> OffsetAndMetadata) list" where
  "offsets_of_topics self API_VERSION [] offsets = Inr offsets"
| "offsets_of_topics self API_VERSION ((topic, partitions) # rest) offsets =
     (case offsets_of_partitions self API_VERSION topic partitions offsets of
        Inl e \<Rightarrow> Inl e
      | Inr offsets' \<Rightarrow> offsets_of_topics self API_VERSION rest offsets')"

definition list_consumer_group_offsets_process_response ::
  "client \<Rightarrow> response \<Rightarrow> error + (TopicPartition \<times> OffsetAndMetadata) list" where
  "list_consumer_group_offsets_process_response self response =
     (case response of
        OffsetFetchResp API_VERSION error_code topics \<Rightarrow>
          if API_VERSION \<le> 5 then
            (if API_VERSION > 1 \<and> for_code self error_code \<noteq> NoError
             then Inl (BrokerError (for_code self error_code))
             else offsets_of_topics self API_VERSION topics [])
          else
            Inl (NotImplementedError
              ''Support for OffsetFetchResponse_v{} has not yet been added to KafkaAdminClient.''
              API_VERSION)
      | _ \<Rightarrow> Inl AttributeError)"

text \<open>\<^verbatim>\<open>list_consumer_group_offsets\<close>: \<^verbatim>\<open>self._find_coordinator_ids([group_id])[group_id]\<close>
  comes first when no coordinator is given.\<close>

definition list_consumer_group_offsets ::
  "string \<Rightarrow> int option \<Rightarrow> TopicPartition list option \<Rightarrow> client \<Rightarrow>
   (TopicPartition \<times> OffsetAndMetadata) list result" where
  "list_consumer_group_offsets group_id group_coordinator_id partitions self =
     (case (case group_coordinator_id of
              Some given \<Rightarrow> (Inr given, self)
            | None \<Rightarrow>
                (case find_coordinator_ids [group_id] self of
                   (Inl e, c) \<Rightarrow> (Inl e, c)
                 | (Inr coordinators, c) \<Rightarrow>
                     (case map_of coordinators group_id of
                        None \<Rightarrow> (Inl KeyError, c)
                      | Some found \<Rightarrow> (Inr found, c)))) of
        (Inl e, c) \<Rightarrow> (Inl e, c)
      | (Inr coordinator, c) \<Rightarrow>
          (case list_consumer_group_offsets_request c group_id partitions of
             Inl e \<Rightarrow> (Inl e, c)
           | Inr request \<Rightarrow>
               (case send_request request (Some coordinator) c of
                  (Inl e, c') \<Rightarrow> (Inl e, c')
                | (Inr response, c') \<Rightarrow>
                    (list_consumer_group_offsets_process_response c' response, c'))))"

section \<open>Resource configurations\<close>

text \<open>\<^verbatim>\<open>ConfigResource\<close> (kafka.admin, not among the sources): the attributes
  \<^verbatim>\<open>describe_configs\<close> reads. \<^verbatim>\<open>configs\<close> is \<^verbatim>\<open>None\<close> or a dict; both \<^verbatim>\<open>None\<close> and the empty
  dict are falsy.\<close>

record ConfigResource =
  resource_type :: ConfigResourceType
  name :: string
  configs :: "(string \<times> string) list option"




section \<open>Deleting records\<close>

text \<open>\<^verbatim>\<open>_get_cluster_metadata\<close>: the request for the negotiated version, and the topics of the
  response object, each \<^verbatim>\<open>(topic, [(partition, leader)])\<close>.\<close>

definition metadata_request :: "client \<Rightarrow> string set option \<Rightarrow> bool \<Rightarrow> error + request" where
  "metadata_request self topic_names auto_topic_creation =
     (let version = api_version self Metadata 8 in
      if version \<le> 3 then
        if auto_topic_creation then
          Inl (IncompatibleBrokerVersion
            ''auto_topic_creation requires MetadataRequest >= v4, which is not supported by Kafka {}''
            (config_api_version self))
        else Inr (MetadataReq version topic_names None None)
      else if version \<le> 7 then
        Inr (MetadataReq version topic_names (Some auto_topic_creation) None)
      else Inr (MetadataReq version topic_names (Some auto_topic_creation) (Some (True, True))))"

definition process_metadata_response ::
  "response \<Rightarrow> error + (string \<times> (int \<times> int) list) list" where
  "process_metadata_response metadata_response =
     (case metadata_response of
        MetadataResp cid topic_list \<Rightarrow> Inr topic_list
      | _ \<Rightarrow> Inl AttributeError)"

definition get_cluster_metadata ::
  "string set option \<Rightarrow> bool \<Rightarrow> client \<Rightarrow> (string \<times> (int \<times> int) list) list result" where
  "get_cluster_metadata topic_names auto_topic_creation self =
     (case metadata_request self topic_names auto_topic_creation of
        Inl e \<Rightarrow> (Inl e, self)
      | Inr request \<Rightarrow>
          (case send_request request None self of
             (Inl e, c) \<Rightarrow> (Inl e, c)
           | (Inr response, c) \<Rightarrow> (process_metadata_response response, c)))"

text \<open>
  \<^verbatim>\<open>_get_leader_for_partitions\<close>. The two nested loops over the metadata keep
  \<^verbatim>\<open>leader2partitions\<close> (a \<^verbatim>\<open>defaultdict(list)\<close>) and the set \<^verbatim>\<open>valid_partitions\<close>.
\<close>

type_synonym leaders = "(int \<times> TopicPartition list) list \<times> TopicPartition set"

definition leader_step :: "TopicPartition set \<Rightarrow> string \<Rightarrow> leaders \<Rightarrow> int \<times> int \<Rightarrow> leaders" where
  "leader_step requested topic acc entry =
     (case acc of (leader2partitions, valid_partitions) \<Rightarrow>
      case entry of (partition_id, leader) \<Rightarrow>
        (let t2p = (topic, partition_id) in
         if t2p \<in> requested then
           (dict_set leader2partitions leader (dict_get_list leader2partitions leader @ [t2p]),
            insert t2p valid_partitions)
         else (leader2partitions, valid_partitions)))"

definition leaders_of_metadata ::
  "TopicPartition set \<Rightarrow> (string \<times> (int \<times> int) list) list \<Rightarrow> leaders" where
  "leaders_of_metadata requested metadata =
     foldl (\<lambda>acc (topic, partition_list). foldl (leader_step requested topic) acc partition_list)
       ([], {}) metadata"

definition get_leader_for_partitions ::
  "TopicPartition list \<Rightarrow> int option \<Rightarrow> client \<Rightarrow> (int \<times> TopicPartition list) list result" where
  "get_leader_for_partitions partitions timeout_ms self =
     (let timeout_ms = validate_timeout self timeout_ms;
          requested = set partitions;
          topic_names = fst ` requested in
      case get_cluster_metadata (Some topic_names) False self of
        (Inl e, c) \<Rightarrow> (Inl e, c)
      | (Inr metadata, c) \<Rightarrow>
          (case leaders_of_metadata requested metadata of
             (leader2partitions, valid_partitions) \<Rightarrow>
               if card requested \<noteq> card valid_partitions then
                 (Inl (UnknownTopicOrPartitionError (requested - valid_partitions)), c)
               else (Inr leader2partitions, c)))"

text \<open>
  \<^verbatim>\<open>delete_records\<close>, first half: one request for every leader. \<^verbatim>\<open>records_to_delete\<close> is a
  dict from \<^verbatim>\<open>TopicPartition\<close> to offset. A response that is no DeleteRecords response has
  no \<^verbatim>\<open>topics\<close> to read.
\<close>

definition topic2partitions :: "TopicPartition list \<Rightarrow> (string \<times> TopicPartition list) list" where
  "topic2partitions partitions =
     foldl (\<lambda>d tp. dict_set d (fst tp) (dict_get_list d (fst tp) @ [tp])) [] partitions"

definition delete_records_request ::
  "nat \<Rightarrow> (TopicPartition \<times> int) list \<Rightarrow> TopicPartition list \<Rightarrow> int \<Rightarrow> error + request" where
  "delete_records_request version records_to_delete partitions timeout_ms =
     (case map_raise
             (\<lambda>(topic, of_topic).
                case map_raise
                       (\<lambda>tp. case map_of records_to_delete tp of
                                None \<Rightarrow> Inl KeyError
                              | Some offset \<Rightarrow> Inr (snd tp, offset)) of_topic of
                  Inl e \<Rightarrow> Inl e
                | Inr offsets \<Rightarrow> Inr (topic, offsets))
             (topic2partitions partitions) of
        Inl e \<Rightarrow> Inl e
      | Inr by_topic \<Rightarrow> Inr (DeleteRecordsReq version by_topic timeout_ms))"

fun delete_records_send ::
  "nat \<Rightarrow> (TopicPartition \<times> int) list \<Rightarrow> int \<Rightarrow> (int \<times> TopicPartition list) list \<Rightarrow> client \<Rightarrow>
   (string \<times> partition_result list) list list result" where
  "delete_records_send version records_to_delete timeout_ms [] self = (Inr [], self)"
| "delete_records_send version records_to_delete timeout_ms ((leader, partitions) # rest) self =
     (case delete_records_request version records_to_delete partitions timeout_ms of
        Inl e \<Rightarrow> (Inl e, self)
      | Inr request \<Rightarrow>
          (case send_request request (Some leader) self of
             (Inl e, c) \<Rightarrow> (Inl e, c)
           | (Inr response, c) \<Rightarrow>
               (case response of
                  DeleteRecordsResp topic_results \<Rightarrow>
                    (case delete_records_send version records_to_delete timeout_ms rest c of
                       (Inl e, c') \<Rightarrow> (Inl e, c')
                     | (Inr responses, c') \<Rightarrow> (Inr (topic_results # responses), c'))
                | _ \<Rightarrow> (Inl AttributeError, c))))"

text \<open>
  \<^verbatim>\<open>delete_records\<close>, second half: the three nested loops that fill \<^verbatim>\<open>partition2result\<close> and
  \<^verbatim>\<open>partition2error\<close>, and the outcome. A partition result is
  \<^verbatim>\<open>(partition_index, low_watermark, error_code)\<close>.
\<close>

type_synonym collected =
  "(TopicPartition \<times> partition_result) list \<times> (TopicPartition \<times> int) list"

definition collect_step :: "string \<Rightarrow> collected \<Rightarrow> partition_result \<Rightarrow> collected" where
  "collect_step topic_name acc partition_data =
     (case acc of (partition2result, partition2error) \<Rightarrow>
        (let tp = (topic_name, fst partition_data) in
         (dict_set partition2result tp partition_data,
          if snd (snd partition_data) \<noteq> 0
          then dict_set partition2error tp (snd (snd partition_data))
          else partition2error)))"

definition collect_results :: "(string \<times> partition_result list) list list \<Rightarrow> collected" where
  "collect_results responses =
     foldl (\<lambda>acc response.
              foldl (\<lambda>acc (topic_name, partition_list).
                       foldl (collect_step topic_name) acc partition_list)
                acc response)
       ([], []) responses"

definition delete_records_outcome ::
  "client \<Rightarrow> (string \<times> partition_result list) list list \<Rightarrow>
   error + (TopicPartition \<times> partition_result) list" where
  "delete_records_outcome self responses =
     (case collect_results responses of
        (partition2result, partition2error) \<Rightarrow>
          if partition2error \<noteq> [] then
            if length partition2error = 1 then
              (case hd partition2error of
                 (key, error) \<Rightarrow> Inl (DeleteRecordsError (for_code self error) (fst key) (snd key)))
            else
              Inl (BrokerResponseError
                     (map (\<lambda>(tp, error). (fst tp, snd tp, for_code self error)) partition2error))
          else Inr partition2result)"

text \<open>
  \<^verbatim>\<open>delete_records\<close> as a whole. \<open>delete_records_responses\<close> is its first half, up to the
  list \<^verbatim>\<open>responses\<close>: the leaders are looked up, or the given node stands for all
  partitions of \<^verbatim>\<open>set(records_to_delete)\<close>, and one request goes to every leader.
\<close>

definition delete_records_responses ::
  "(TopicPartition \<times> int) list \<Rightarrow> int \<Rightarrow> int option \<Rightarrow> client \<Rightarrow>
   (string \<times> partition_result list) list list result" where
  "delete_records_responses records_to_delete timeout_ms partition_leader_id self =
     (let version = api_version self DeleteRecords 0 in
      case (case partition_leader_id of
              None \<Rightarrow> get_leader_for_partitions (map fst records_to_delete) (Some timeout_ms) self
            | Some leader \<Rightarrow> (Inr [(leader, set_items self (map fst records_to_delete))], self)) of
        (Inl e, c) \<Rightarrow> (Inl e, c)
      | (Inr leader2partitions, c) \<Rightarrow>
          delete_records_send version records_to_delete timeout_ms leader2partitions c)"

definition delete_records ::
  "(TopicPartition \<times> int) list \<Rightarrow> int option \<Rightarrow> int option \<Rightarrow> client \<Rightarrow>
   (TopicPartition \<times> partition_result) list result" where
  "delete_records records_to_delete timeout_ms partition_leader_id self =
     (let timeout_ms = validate_timeout self timeout_ms in
      case delete_records_responses records_to_delete timeout_ms partition_leader_id self of
        (Inl e, c') \<Rightarrow> (Inl e, c')
      | (Inr responses, c') \<Rightarrow> (delete_records_outcome c' responses, c'))"
section \<open>The protocol registries\<close>

text \<open>
  kafka/protocol/admin.py and kafka/protocol/group.py: every versioned request or response
  class with its base class, \<^verbatim>\<open>API_KEY\<close>, \<^verbatim>\<open>API_VERSION\<close> and (for a request) the name of its
  \<^verbatim>\<open>RESPONSE_TYPE\<close>, and every registry list, in the order of the source. The schemas are
  left out.
\<close>

datatype class_base = Request | Response

record api_class =
  cls_name :: string
  cls_base :: class_base
  API_KEY :: nat
  API_VERSION :: nat
  RESPONSE_TYPE :: "string option"

definition CreateTopicsResponse_v0 :: api_class where
  "CreateTopicsResponse_v0 = \<lparr>cls_name = ''CreateTopicsResponse_v0'', cls_base = Response, API_KEY = 19, API_VERSION = 0, RESPONSE_TYPE = None\<rparr>"

definition CreateTopicsResponse_v1 :: api_class where
  "CreateTopicsResponse_v1 = \<lparr>cls_name = ''CreateTopicsResponse_v1'', cls_base = Response, API_KEY = 19, API_VERSION = 1, RESPONSE_TYPE = None\<rparr>"

definition CreateTopicsResponse_v2 :: api_class where
  "CreateTopicsResponse_v2 = \<lparr>cls_name = ''CreateTopicsResponse_v2'', cls_base = Response, API_KEY = 19, API_VERSION = 2, RESPONSE_TYPE = None\<rparr>"

definition CreateTopicsResponse_v3 :: api_class where
  "CreateTopicsResponse_v3 = \<lparr>cls_name = ''CreateTopicsResponse_v3'', cls_base = Response, API_KEY = 19, API_VERSION = 3, RESPONSE_TYPE = None\<rparr>"

definition CreateTopicsRequest_v0 :: api_class where
  "CreateTopicsRequest_v0 = \<lparr>cls_name = ''CreateTopicsRequest_v0'', cls_base = Request, API_KEY = 19, API_VERSION = 0, RESPONSE_TYPE = Some ''CreateTopicsResponse_v0''\<rparr>"

definition CreateTopicsRequest_v1 :: api_class where
  "CreateTopicsRequest_v1 = \<lparr>cls_name = ''CreateTopicsRequest_v1'', cls_base = Request, API_KEY = 19, API_VERSION = 1, RESPONSE_TYPE = Some ''CreateTopicsResponse_v1''\<rparr>"

definition CreateTopicsRequest_v2 :: api_class where
  "CreateTopicsRequest_v2 = \<lparr>cls_name = ''CreateTopicsRequest_v2'', cls_base = Request, API_KEY = 19, API_VERSION = 2, RESPONSE_TYPE = Some ''CreateTopicsResponse_v2''\<rparr>"

definition CreateTopicsRequest_v3 :: api_class where
  "CreateTopicsRequest_v3 = \<lparr>cls_name = ''CreateTopicsRequest_v3'', cls_base = Request, API_KEY = 19, API_VERSION = 3, RESPONSE_TYPE = Some ''CreateTopicsResponse_v3''\<rparr>"

definition CreateTopicsRequest :: "api_class list" where
  "CreateTopicsRequest = [CreateTopicsRequest_v0, CreateTopicsRequest_v1, CreateTopicsRequest_v2, CreateTopicsRequest_v3]"

definition CreateTopicsResponse :: "api_class list" where
  "CreateTopicsResponse = [CreateTopicsResponse_v0, CreateTopicsResponse_v1, CreateTopicsResponse_v2, CreateTopicsResponse_v3]"

definition DeleteTopicsResponse_v0 :: api_class where
  "DeleteTopicsResponse_v0 = \<lparr>cls_name = ''DeleteTopicsResponse_v0'', cls_base = Response, API_KEY = 20, API_VERSION = 0, RESPONSE_TYPE = None\<rparr>"

definition DeleteTopicsResponse_v1 :: api_class where
  "DeleteTopicsResponse_v1 = \<lparr>cls_name = ''DeleteTopicsResponse_v1'', cls_base = Response, API_KEY = 20, API_VERSION = 1, RESPONSE_TYPE = None\<rparr>"

definition DeleteTopicsResponse_v2 :: api_class where
  "DeleteTopicsResponse_v2 = \<lparr>cls_name = ''DeleteTopicsResponse_v2'', cls_base = Response, API_KEY = 20, API_VERSION = 2, RESPONSE_TYPE = None\<rparr>"

definition DeleteTopicsResponse_v3 :: api_class where
  "DeleteTopicsResponse_v3 = \<lparr>cls_name = ''DeleteTopicsResponse_v3'', cls_base = Response, API_KEY = 20, API_VERSION = 3, RESPONSE_TYPE = None\<rparr>"

definition DeleteTopicsRequest_v0 :: api_class where
  "DeleteTopicsRequest_v0 = \<lparr>cls_name = ''DeleteTopicsRequest_v0'', cls_base = Request, API_KEY = 20, API_VERSION = 0, RESPONSE_TYPE = Some ''DeleteTopicsResponse_v0''\<rparr>"

definition DeleteTopicsRequest_v1 :: api_class where
  "DeleteTopicsRequest_v1 = \<lparr>cls_name = ''DeleteTopicsRequest_v1'', cls_base = Request, API_KEY = 20, API_VERSION = 1, RESPONSE_TYPE = Some ''DeleteTopicsResponse_v1''\<rparr>"

definition DeleteTopicsRequest_v2 :: api_class where
  "DeleteTopicsRequest_v2 = \<lparr>cls_name = ''DeleteTopicsRequest_v2'', cls_base = Request, API_KEY = 20, API_VERSION = 2, RESPONSE_TYPE = Some ''DeleteTopicsResponse_v2''\<rparr>"

definition DeleteTopicsRequest_v3 :: api_class where
  "DeleteTopicsRequest_v3 = \<lparr>cls_name = ''DeleteTopicsRequest_v3'', cls_base = Request, API_KEY = 20, API_VERSION = 3, RESPONSE_TYPE = Some ''DeleteTopicsResponse_v3''\<rparr>"

definition DeleteTopicsRequest :: "api_class list" where
  "DeleteTopicsRequest = [DeleteTopicsRequest_v0, DeleteTopicsRequest_v1, DeleteTopicsRequest_v2, DeleteTopicsRequest_v3]"

definition DeleteTopicsResponse :: "api_class list" where
  "DeleteTopicsResponse = [DeleteTopicsResponse_v0, DeleteTopicsResponse_v1, DeleteTopicsResponse_v2, DeleteTopicsResponse_v3]"

definition DeleteRecordsResponse_v0 :: api_class where
  "DeleteRecordsResponse_v0 = \<lparr>cls_name = ''DeleteRecordsResponse_v0'', cls_base = Response, API_KEY = 21, API_VERSION = 0, RESPONSE_TYPE = None\<rparr>"

definition DeleteRecordsRequest_v0 :: api_class where
  "DeleteRecordsRequest_v0 = \<lparr>cls_name = ''DeleteRecordsRequest_v0'', cls_base = Request, API_KEY = 21, API_VERSION = 0, RESPONSE_TYPE = Some ''DeleteRecordsResponse_v0''\<rparr>"

definition DeleteRecordsResponse :: "api_class list" where
  "DeleteRecordsResponse = [DeleteRecordsResponse_v0]"

definition DeleteRecordsRequest :: "api_class list" where
  "DeleteRecordsRequest = [DeleteRecordsRequest_v0]"

definition ListGroupsResponse_v0 :: api_class where
  "ListGroupsResponse_v0 = \<lparr>cls_name = ''ListGroupsResponse_v0'', cls_base = Response, API_KEY = 16, API_VERSION = 0, RESPONSE_TYPE = None\<rparr>"

definition ListGroupsResponse_v1 :: api_class where
  "ListGroupsResponse_v1 = \<lparr>cls_name = ''ListGroupsResponse_v1'', cls_base = Response, API_KEY = 16, API_VERSION = 1, RESPONSE_TYPE = None\<rparr>"

definition ListGroupsResponse_v2 :: api_class where
  "ListGroupsResponse_v2 = \<lparr>cls_name = ''ListGroupsResponse_v2'', cls_base = Response, API_KEY = 16, API_VERSION = 2, RESPONSE_TYPE = None\<rparr>"

definition ListGroupsRequest_v0 :: api_class where
  "ListGroupsRequest_v0 = \<lparr>cls_name = ''ListGroupsRequest_v0'', cls_base = Request, API_KEY = 16, API_VERSION = 0, RESPONSE_TYPE = Some ''ListGroupsResponse_v0''\<rparr>"

definition ListGroupsRequest_v1 :: api_class where
  "ListGroupsRequest_v1 = \<lparr>cls_name = ''ListGroupsRequest_v1'', cls_base = Request, API_KEY = 16, API_VERSION = 1, RESPONSE_TYPE = Some ''ListGroupsResponse_v1''\<rparr>"

definition ListGroupsRequest_v2 :: api_class where
  "ListGroupsRequest_v2 = \<lparr>cls_name = ''ListGroupsRequest_v2'', cls_base = Request, API_KEY = 16, API_VERSION = 1, RESPONSE_TYPE = Some ''ListGroupsResponse_v2''\<rparr>"

definition ListGroupsRequest :: "api_class list" where
  "ListGroupsRequest = [ListGroupsRequest_v0, ListGroupsRequest_v1, ListGroupsRequest_v2]"

definition ListGroupsResponse :: "api_class list" where
  "ListGroupsResponse = [ListGroupsResponse_v0, ListGroupsResponse_v1, ListGroupsResponse_v2]"

definition DescribeGroupsResponse_v0 :: api_class where
  "DescribeGroupsResponse_v0 = \<lparr>cls_name = ''DescribeGroupsResponse_v0'', cls_base = Response, API_KEY = 15, API_VERSION = 0, RESPONSE_TYPE = None\<rparr>"

definition DescribeGroupsResponse_v1 :: api_class where
  "DescribeGroupsResponse_v1 = \<lparr>cls_name = ''DescribeGroupsResponse_v1'', cls_base = Response, API_KEY = 15, API_VERSION = 1, RESPONSE_TYPE = None\<rparr>"

definition DescribeGroupsResponse_v2 :: api_class where
  "DescribeGroupsResponse_v2 = \<lparr>cls_name = ''DescribeGroupsResponse_v2'', cls_base = Response, API_KEY = 15, API_VERSION = 2, RESPONSE_TYPE = None\<rparr>"

definition DescribeGroupsResponse_v3 :: api_class where
  "DescribeGroupsResponse_v3 = \<lparr>cls_name = ''DescribeGroupsResponse_v3'', cls_base = Response, API_KEY = 15, API_VERSION = 3, RESPONSE_TYPE = None\<rparr>"

definition DescribeGroupsRequest_v0 :: api_class where
  "DescribeGroupsRequest_v0 = \<lparr>cls_name = ''DescribeGroupsRequest_v0'', cls_base = Request, API_KEY = 15, API_VERSION = 0, RESPONSE_TYPE = Some ''DescribeGroupsResponse_v0''\<rparr>"

definition DescribeGroupsRequest_v1 :: api_class where
  "DescribeGroupsRequest_v1 = \<lparr>cls_name = ''DescribeGroupsRequest_v1'', cls_base = Request, API_KEY = 15, API_VERSION = 1, RESPONSE_TYPE = Some ''DescribeGroupsResponse_v1''\<rparr>"

definition DescribeGroupsRequest_v2 :: api_class where
  "DescribeGroupsRequest_v2 = \<lparr>cls_name = ''DescribeGroupsRequest_v2'', cls_base = Request, API_KEY = 15, API_VERSION = 2, RESPONSE_TYPE = Some ''DescribeGroupsResponse_v2''\<rparr>"

definition DescribeGroupsRequest_v3 :: api_class where
  "DescribeGroupsRequest_v3 = \<lparr>cls_name = ''DescribeGroupsRequest_v3'', cls_base = Request, API_KEY = 15, API_VERSION = 3, RESPONSE_TYPE = Some ''DescribeGroupsResponse_v3''\<rparr>"

definition DescribeGroupsRequest :: "api_class list" where
  "DescribeGroupsRequest = [DescribeGroupsRequest_v0, DescribeGroupsRequest_v1, DescribeGroupsRequest_v2, DescribeGroupsRequest_v3]"

definition DescribeGroupsResponse :: "api_class list" where
  "DescribeGroupsResponse = [DescribeGroupsResponse_v0, DescribeGroupsResponse_v1, DescribeGroupsResponse_v2, DescribeGroupsResponse_v3]"

definition DescribeAclsResponse_v0 :: api_class where
  "DescribeAclsResponse_v0 = \<lparr>cls_name = ''DescribeAclsResponse_v0'', cls_base = Response, API_KEY = 29, API_VERSION = 0, RESPONSE_TYPE = None\<rparr>"

definition DescribeAclsResponse_v1 :: api_class where
  "DescribeAclsResponse_v1 = \<lparr>cls_name = ''DescribeAclsResponse_v1'', cls_base = Response, API_KEY = 29, API_VERSION = 1, RESPONSE_TYPE = None\<rparr>"

definition DescribeAclsResponse_v2 :: api_class where
  "DescribeAclsResponse_v2 = \<lparr>cls_name = ''DescribeAclsResponse_v2'', cls_base = Response, API_KEY = 29, API_VERSION = 2, RESPONSE_TYPE = None\<rparr>"

definition DescribeAclsRequest_v0 :: api_class where
  "DescribeAclsRequest_v0 = \<lparr>cls_name = ''DescribeAclsRequest_v0'', cls_base = Request, API_KEY = 29, API_VERSION = 0, RESPONSE_TYPE = Some ''DescribeAclsResponse_v0''\<rparr>"

definition DescribeAclsRequest_v1 :: api_class where
  "DescribeAclsRequest_v1 = \<lparr>cls_name = ''DescribeAclsRequest_v1'', cls_base = Request, API_KEY = 29, API_VERSION = 1, RESPONSE_TYPE = Some ''DescribeAclsResponse_v1''\<rparr>"

definition DescribeAclsRequest_v2 :: api_class where
  "DescribeAclsRequest_v2 = \<lparr>cls_name = ''DescribeAclsRequest_v2'', cls_base = Request, API_KEY = 29, API_VERSION = 2, RESPONSE_TYPE = Some ''DescribeAclsResponse_v2''\<rparr>"

definition DescribeAclsRequest :: "api_class list" where
  "DescribeAclsRequest = [DescribeAclsRequest_v0, DescribeAclsRequest_v1, DescribeAclsRequest_v2]"

definition DescribeAclsResponse :: "api_class list" where
  "DescribeAclsResponse = [DescribeAclsResponse_v0, DescribeAclsResponse_v1, DescribeAclsResponse_v2]"

definition CreateAclsResponse_v0 :: api_class where
  "CreateAclsResponse_v0 = \<lparr>cls_name = ''CreateAclsResponse_v0'', cls_base = Response, API_KEY = 30, API_VERSION = 0, RESPONSE_TYPE = None\<rparr>"

definition CreateAclsResponse_v1 :: api_class where
  "CreateAclsResponse_v1 = \<lparr>cls_name = ''CreateAclsResponse_v1'', cls_base = Response, API_KEY = 30, API_VERSION = 1, RESPONSE_TYPE = None\<rparr>"

definition CreateAclsRequest_v0 :: api_class where
  "CreateAclsRequest_v0 = \<lparr>cls_name = ''CreateAclsRequest_v0'', cls_base = Request, API_KEY = 30, API_VERSION = 0, RESPONSE_TYPE = Some ''CreateAclsResponse_v0''\<rparr>"

definition CreateAclsRequest_v1 :: api_class where
  "CreateAclsRequest_v1 = \<lparr>cls_name = ''CreateAclsRequest_v1'', cls_base = Request, API_KEY = 30, API_VERSION = 1, RESPONSE_TYPE = Some ''CreateAclsResponse_v1''\<rparr>"

definition CreateAclsRequest :: "api_class list" where
  "CreateAclsRequest = [CreateAclsRequest_v0, CreateAclsRequest_v1]"

definition CreateAclsResponse :: "api_class list" where
  "CreateAclsResponse = [CreateAclsResponse_v0, CreateAclsResponse_v1]"

definition DeleteAclsResponse_v0 :: api_class where
  "DeleteAclsResponse_v0 = \<lparr>cls_name = ''DeleteAclsResponse_v0'', cls_base = Response, API_KEY = 31, API_VERSION = 0, RESPONSE_TYPE = None\<rparr>"

definition DeleteAclsResponse_v1 :: api_class where
  "DeleteAclsResponse_v1 = \<lparr>cls_name = ''DeleteAclsResponse_v1'', cls_base = Response, API_KEY = 31, API_VERSION = 1, RESPONSE_TYPE = None\<rparr>"

definition DeleteAclsRequest_v0 :: api_class where
  "DeleteAclsRequest_v0 = \<lparr>cls_name = ''DeleteAclsRequest_v0'', cls_base = Request, API_KEY = 31, API_VERSION = 0, RESPONSE_TYPE = Some ''DeleteAclsResponse_v0''\<rparr>"

definition DeleteAclsRequest_v1 :: api_class where
  "DeleteAclsRequest_v1 = \<lparr>cls_name = ''DeleteAclsRequest_v1'', cls_base = Request, API_KEY = 31, API_VERSION = 1, RESPONSE_TYPE = Some ''DeleteAclsResponse_v1''\<rparr>"

definition DeleteAclsRequest :: "api_class list" where
  "DeleteAclsRequest = [DeleteAclsRequest_v0, DeleteAclsRequest_v1]"

definition DeleteAclsResponse :: "api_class list" where
  "DeleteAclsResponse = [DeleteAclsResponse_v0, DeleteAclsResponse_v1]"

definition AlterConfigsResponse_v0 :: api_class where
  "AlterConfigsResponse_v0 = \<lparr>cls_name = ''AlterConfigsResponse_v0'', cls_base = Response, API_KEY = 33, API_VERSION = 0, RESPONSE_TYPE = None\<rparr>"

definition AlterConfigsResponse_v1 :: api_class where
  "AlterConfigsResponse_v1 = \<lparr>cls_name = ''AlterConfigsResponse_v1'', cls_base = Response, API_KEY = 33, API_VERSION = 1, RESPONSE_TYPE = None\<rparr>"

definition AlterConfigsRequest_v0 :: api_class where
  "AlterConfigsRequest_v0 = \<lparr>cls_name = ''AlterConfigsRequest_v0'', cls_base = Request, API_KEY = 33, API_VERSION = 0, RESPONSE_TYPE = Some ''AlterConfigsResponse_v0''\<rparr>"

definition AlterConfigsRequest_v1 :: api_class where
  "AlterConfigsRequest_v1 = \<lparr>cls_name = ''AlterConfigsRequest_v1'', cls_base = Request, API_KEY = 33, API_VERSION = 1, RESPONSE_TYPE = Some ''AlterConfigsResponse_v1''\<rparr>"

definition AlterConfigsRequest :: "api_class list" where
  "AlterConfigsRequest = [AlterConfigsRequest_v0, AlterConfigsRequest_v1]"

definition AlterConfigsResponse :: "api_class list" where
  "AlterConfigsResponse = [AlterConfigsResponse_v0, AlterConfigsRequest_v1]"

definition DescribeConfigsResponse_v0 :: api_class where
  "DescribeConfigsResponse_v0 = \<lparr>cls_name = ''DescribeConfigsResponse_v0'', cls_base = Response, API_KEY = 32, API_VERSION = 0, RESPONSE_TYPE = None\<rparr>"

definition DescribeConfigsResponse_v1 :: api_class where
  "DescribeConfigsResponse_v1 = \<lparr>cls_name = ''DescribeConfigsResponse_v1'', cls_base = Response, API_KEY = 32, API_VERSION = 1, RESPONSE_TYPE = None\<rparr>"

definition DescribeConfigsResponse_v2 :: api_class where
  "DescribeConfigsResponse_v2 = \<lparr>cls_name = ''DescribeConfigsResponse_v2'', cls_base = Response, API_KEY = 32, API_VERSION = 2, RESPONSE_TYPE = None\<rparr>"

definition DescribeConfigsRequest_v0 :: api_class where
  "DescribeConfigsRequest_v0 = \<lparr>cls_name = ''DescribeConfigsRequest_v0'', cls_base = Request, API_KEY = 32, API_VERSION = 0, RESPONSE_TYPE = Some ''DescribeConfigsResponse_v0''\<rparr>"

definition DescribeConfigsRequest_v1 :: api_class where
  "DescribeConfigsRequest_v1 = \<lparr>cls_name = ''DescribeConfigsRequest_v1'', cls_base = Request, API_KEY = 32, API_VERSION = 1, RESPONSE_TYPE = Some ''DescribeConfigsResponse_v1''\<rparr>"

definition DescribeConfigsRequest_v2 :: api_class where
  "DescribeConfigsRequest_v2 = \<lparr>cls_name = ''DescribeConfigsRequest_v2'', cls_base = Request, API_KEY = 32, API_VERSION = 2, RESPONSE_TYPE = Some ''DescribeConfigsResponse_v2''\<rparr>"

definition DescribeConfigsRequest :: "api_class list" where
  "DescribeConfigsRequest = [DescribeConfigsRequest_v0, DescribeConfigsRequest_v1, DescribeConfigsRequest_v2]"

definition DescribeConfigsResponse :: "api_class list" where
  "DescribeConfigsResponse = [DescribeConfigsResponse_v0, DescribeConfigsResponse_v1, DescribeConfigsResponse_v2]"

definition DescribeLogDirsResponse_v0 :: api_class where
  "DescribeLogDirsResponse_v0 = \<lparr>cls_name = ''DescribeLogDirsResponse_v0'', cls_base = Response, API_KEY = 35, API_VERSION = 0, RESPONSE_TYPE = None\<rparr>"

definition DescribeLogDirsRequest_v0 :: api_class where
  "DescribeLogDirsRequest_v0 = \<lparr>cls_name = ''DescribeLogDirsRequest_v0'', cls_base = Request, API_KEY = 35, API_VERSION = 0, RESPONSE_TYPE = Some ''DescribeLogDirsResponse_v0''\<rparr>"

definition DescribeLogDirsResponse :: "api_class list" where
  "DescribeLogDirsResponse = [DescribeLogDirsResponse_v0]"

definition DescribeLogDirsRequest :: "api_class list" where
  "DescribeLogDirsRequest = [DescribeLogDirsRequest_v0]"

definition SaslAuthenticateResponse_v0 :: api_class where
  "SaslAuthenticateResponse_v0 = \<lparr>cls_name = ''SaslAuthenticateResponse_v0'', cls_base = Response, API_KEY = 36, API_VERSION = 0, RESPONSE_TYPE = None\<rparr>"

definition SaslAuthenticateResponse_v1 :: api_class where
  "SaslAuthenticateResponse_v1 = \<lparr>cls_name = ''SaslAuthenticateResponse_v1'', cls_base = Response, API_KEY = 36, API_VERSION = 1, RESPONSE_TYPE = None\<rparr>"

definition SaslAuthenticateRequest_v0 :: api_class where
  "SaslAuthenticateRequest_v0 = \<lparr>cls_name = ''SaslAuthenticateRequest_v0'', cls_base = Request, API_KEY = 36, API_VERSION = 0, RESPONSE_TYPE = Some ''SaslAuthenticateResponse_v0''\<rparr>"

definition SaslAuthenticateRequest_v1 :: api_class where
  "SaslAuthenticateRequest_v1 = \<lparr>cls_name = ''SaslAuthenticateRequest_v1'', cls_base = Request, API_KEY = 36, API_VERSION = 1, RESPONSE_TYPE = Some ''SaslAuthenticateResponse_v1''\<rparr>"

definition SaslAuthenticateRequest :: "api_class list" where
  "SaslAuthenticateRequest = [SaslAuthenticateRequest_v0, SaslAuthenticateRequest_v1]"

definition SaslAuthenticateResponse :: "api_class list" where
  "SaslAuthenticateResponse = [SaslAuthenticateResponse_v0, SaslAuthenticateResponse_v1]"

definition CreatePartitionsResponse_v0 :: api_class where
  "CreatePartitionsResponse_v0 = \<lparr>cls_name = ''CreatePartitionsResponse_v0'', cls_base = Response, API_KEY = 37, API_VERSION = 0, RESPONSE_TYPE = None\<rparr>"

definition CreatePartitionsResponse_v1 :: api_class where
  "CreatePartitionsResponse_v1 = \<lparr>cls_name = ''CreatePartitionsResponse_v1'', cls_base = Response, API_KEY = 37, API_VERSION = 1, RESPONSE_TYPE = None\<rparr>"

definition CreatePartitionsRequest_v0 :: api_class where
  "CreatePartitionsRequest_v0 = \<lparr>cls_name = ''CreatePartitionsRequest_v0'', cls_base = Request, API_KEY = 37, API_VERSION = 0, RESPONSE_TYPE = Some ''CreatePartitionsResponse_v0''\<rparr>"

definition CreatePartitionsRequest_v1 :: api_class where
  "CreatePartitionsRequest_v1 = \<lparr>cls_name = ''CreatePartitionsRequest_v1'', cls_base = Request, API_KEY = 37, API_VERSION = 1, RESPONSE_TYPE = Some ''CreatePartitionsResponse_v1''\<rparr>"

definition CreatePartitionsRequest :: "api_class list" where
  "CreatePartitionsRequest = [CreatePartitionsRequest_v0, CreatePartitionsRequest_v1]"

definition CreatePartitionsResponse :: "api_class list" where
  "CreatePartitionsResponse = [CreatePartitionsResponse_v0, CreatePartitionsResponse_v1]"

definition DeleteGroupsResponse_v0 :: api_class where
  "DeleteGroupsResponse_v0 = \<lparr>cls_name = ''DeleteGroupsResponse_v0'', cls_base = Response, API_KEY = 42, API_VERSION = 0, RESPONSE_TYPE = None\<rparr>"

definition DeleteGroupsResponse_v1 :: api_class where
  "DeleteGroupsResponse_v1 = \<lparr>cls_name = ''DeleteGroupsResponse_v1'', cls_base = Response, API_KEY = 42, API_VERSION = 1, RESPONSE_TYPE = None\<rparr>"

definition DeleteGroupsRequest_v0 :: api_class where
  "DeleteGroupsRequest_v0 = \<lparr>cls_name = ''DeleteGroupsRequest_v0'', cls_base = Request, API_KEY = 42, API_VERSION = 0, RESPONSE_TYPE = Some ''DeleteGroupsResponse_v0''\<rparr>"

definition DeleteGroupsRequest_v1 :: api_class where
  "DeleteGroupsRequest_v1 = \<lparr>cls_name = ''DeleteGroupsRequest_v1'', cls_base = Request, API_KEY = 42, API_VERSION = 1, RESPONSE_TYPE = Some ''DeleteGroupsResponse_v1''\<rparr>"

definition DeleteGroupsRequest :: "api_class list" where
  "DeleteGroupsRequest = [DeleteGroupsRequest_v0, DeleteGroupsRequest_v1]"

definition DeleteGroupsResponse :: "api_class list" where
  "DeleteGroupsResponse = [DeleteGroupsResponse_v0, DeleteGroupsResponse_v1]"

definition DescribeClientQuotasResponse_v0 :: api_class where
  "DescribeClientQuotasResponse_v0 = \<lparr>cls_name = ''DescribeClientQuotasResponse_v0'', cls_base = Response, API_KEY = 48, API_VERSION = 0, RESPONSE_TYPE = None\<rparr>"

definition DescribeClientQuotasRequest_v0 :: api_class where
  "DescribeClientQuotasRequest_v0 = \<lparr>cls_name = ''DescribeClientQuotasRequest_v0'', cls_base = Request, API_KEY = 48, API_VERSION = 0, RESPONSE_TYPE = Some ''DescribeClientQuotasResponse_v0''\<rparr>"

definition DescribeClientQuotasRequest :: "api_class list" where
  "DescribeClientQuotasRequest = [DescribeClientQuotasRequest_v0]"

definition DescribeClientQuotasResponse :: "api_class list" where
  "DescribeClientQuotasResponse = [DescribeClientQuotasResponse_v0]"

definition AlterPartitionReassignmentsResponse_v0 :: api_class where
  "AlterPartitionReassignmentsResponse_v0 = \<lparr>cls_name = ''AlterPartitionReassignmentsResponse_v0'', cls_base = Response, API_KEY = 45, API_VERSION = 0, RESPONSE_TYPE = None\<rparr>"

definition AlterPartitionReassignmentsRequest_v0 :: api_class where
  "AlterPartitionReassignmentsRequest_v0 = \<lparr>cls_name = ''AlterPartitionReassignmentsRequest_v0'', cls_base = Request, API_KEY = 45, API_VERSION = 0, RESPONSE_TYPE = Some ''AlterPartitionReassignmentsResponse_v0''\<rparr>"

definition AlterPartitionReassignmentsRequest :: "api_class list" where
  "AlterPartitionReassignmentsRequest = [AlterPartitionReassignmentsRequest_v0]"

definition AlterPartitionReassignmentsResponse :: "api_class list" where
  "AlterPartitionReassignmentsResponse = [AlterPartitionReassignmentsResponse_v0]"

definition ListPartitionReassignmentsResponse_v0 :: api_class where
  "ListPartitionReassignmentsResponse_v0 = \<lparr>cls_name = ''ListPartitionReassignmentsResponse_v0'', cls_base = Response, API_KEY = 46, API_VERSION = 0, RESPONSE_TYPE = None\<rparr>"

definition ListPartitionReassignmentsRequest_v0 :: api_class where
  "ListPartitionReassignmentsRequest_v0 = \<lparr>cls_name = ''ListPartitionReassignmentsRequest_v0'', cls_base = Request, API_KEY = 46, API_VERSION = 0, RESPONSE_TYPE = Some ''ListPartitionReassignmentsResponse_v0''\<rparr>"

definition ListPartitionReassignmentsRequest :: "api_class list" where
  "ListPartitionReassignmentsRequest = [ListPartitionReassignmentsRequest_v0]"

definition ListPartitionReassignmentsResponse :: "api_class list" where
  "ListPartitionReassignmentsResponse = [ListPartitionReassignmentsResponse_v0]"

definition ElectLeadersResponse_v0 :: api_class where
  "ElectLeadersResponse_v0 = \<lparr>cls_name = ''ElectLeadersResponse_v0'', cls_base = Response, API_KEY = 43, API_VERSION = 1, RESPONSE_TYPE = None\<rparr>"

definition ElectLeadersRequest_v0 :: api_class where
  "ElectLeadersRequest_v0 = \<lparr>cls_name = ''ElectLeadersRequest_v0'', cls_base = Request, API_KEY = 43, API_VERSION = 1, RESPONSE_TYPE = Some ''ElectLeadersResponse_v0''\<rparr>"

definition ElectLeadersResponse_v1 :: api_class where
  "ElectLeadersResponse_v1 = \<lparr>cls_name = ''ElectLeadersResponse_v1'', cls_base = Response, API_KEY = 43, API_VERSION = 1, RESPONSE_TYPE = None\<rparr>"

definition ElectLeadersRequest_v1 :: api_class where
  "ElectLeadersRequest_v1 = \<lparr>cls_name = ''ElectLeadersRequest_v1'', cls_base = Request, API_KEY = 43, API_VERSION = 1, RESPONSE_TYPE = Some ''ElectLeadersResponse_v1''\<rparr>"

definition ElectLeadersRequest :: "api_class list" where
  "ElectLeadersRequest = [ElectLeadersRequest_v0, ElectLeadersRequest_v1]"

definition ElectLeadersResponse :: "api_class list" where
  "ElectLeadersResponse = [ElectLeadersResponse_v0, ElectLeadersResponse_v1]"

definition JoinGroupResponse_v0 :: api_class where
  "JoinGroupResponse_v0 = \<lparr>cls_name = ''JoinGroupResponse_v0'', cls_base = Response, API_KEY = 11, API_VERSION = 0, RESPONSE_TYPE = None\<rparr>"

definition JoinGroupResponse_v1 :: api_class where
  "JoinGroupResponse_v1 = \<lparr>cls_name = ''JoinGroupResponse_v1'', cls_base = Response, API_KEY = 11, API_VERSION = 1, RESPONSE_TYPE = None\<rparr>"

definition JoinGroupResponse_v2 :: api_class where
  "JoinGroupResponse_v2 = \<lparr>cls_name = ''JoinGroupResponse_v2'', cls_base = Response, API_KEY = 11, API_VERSION = 2, RESPONSE_TYPE = None\<rparr>"

definition JoinGroupResponse_v3 :: api_class where
  "JoinGroupResponse_v3 = \<lparr>cls_name = ''JoinGroupResponse_v3'', cls_base = Response, API_KEY = 11, API_VERSION = 3, RESPONSE_TYPE = None\<rparr>"

definition JoinGroupResponse_v4 :: api_class where
  "JoinGroupResponse_v4 = \<lparr>cls_name = ''JoinGroupResponse_v4'', cls_base = Response, API_KEY = 11, API_VERSION = 4, RESPONSE_TYPE = None\<rparr>"

definition JoinGroupResponse_v5 :: api_class where
  "JoinGroupResponse_v5 = \<lparr>cls_name = ''JoinGroupResponse_v5'', cls_base = Response, API_KEY = 11, API_VERSION = 5, RESPONSE_TYPE = None\<rparr>"

definition JoinGroupRequest_v0 :: api_class where
  "JoinGroupRequest_v0 = \<lparr>cls_name = ''JoinGroupRequest_v0'', cls_base = Request, API_KEY = 11, API_VERSION = 0, RESPONSE_TYPE = Some ''JoinGroupResponse_v0''\<rparr>"

definition JoinGroupRequest_v1 :: api_class where
  "JoinGroupRequest_v1 = \<lparr>cls_name = ''JoinGroupRequest_v1'', cls_base = Request, API_KEY = 11, API_VERSION = 1, RESPONSE_TYPE = Some ''JoinGroupResponse_v1''\<rparr>"

definition JoinGroupRequest_v2 :: api_class where
  "JoinGroupRequest_v2 = \<lparr>cls_name = ''JoinGroupRequest_v2'', cls_base = Request, API_KEY = 11, API_VERSION = 2, RESPONSE_TYPE = Some ''JoinGroupResponse_v2''\<rparr>"

definition JoinGroupRequest_v3 :: api_class where
  "JoinGroupRequest_v3 = \<lparr>cls_name = ''JoinGroupRequest_v3'', cls_base = Request, API_KEY = 11, API_VERSION = 3, RESPONSE_TYPE = Some ''JoinGroupResponse_v3''\<rparr>"

definition JoinGroupRequest_v4 :: api_class where
  "JoinGroupRequest_v4 = \<lparr>cls_name = ''JoinGroupRequest_v4'', cls_base = Request, API_KEY = 11, API_VERSION = 4, RESPONSE_TYPE = Some ''JoinGroupResponse_v4''\<rparr>"

definition JoinGroupRequest_v5 :: api_class where
  "JoinGroupRequest_v5 = \<lparr>cls_name = ''JoinGroupRequest_v5'', cls_base = Request, API_KEY = 11, API_VERSION = 5, RESPONSE_TYPE = Some ''JoinGroupResponse_v5''\<rparr>"

definition JoinGroupRequest :: "api_class list" where
  "JoinGroupRequest = [JoinGroupRequest_v0, JoinGroupRequest_v1, JoinGroupRequest_v2, JoinGroupRequest_v3, JoinGroupRequest_v4, JoinGroupRequest_v5]"

definition JoinGroupResponse :: "api_class list" where
  "JoinGroupResponse = [JoinGroupResponse_v0, JoinGroupResponse_v1, JoinGroupResponse_v2, JoinGroupResponse_v3, JoinGroupResponse_v4, JoinGroupResponse_v5]"

definition SyncGroupResponse_v0 :: api_class where
  "SyncGroupResponse_v0 = \<lparr>cls_name = ''SyncGroupResponse_v0'', cls_base = Response, API_KEY = 14, API_VERSION = 0, RESPONSE_TYPE = None\<rparr>"

definition SyncGroupResponse_v1 :: api_class where
  "SyncGroupResponse_v1 = \<lparr>cls_name = ''SyncGroupResponse_v1'', cls_base = Response, API_KEY = 14, API_VERSION = 1, RESPONSE_TYPE = None\<rparr>"

definition SyncGroupResponse_v2 :: api_class where
  "SyncGroupResponse_v2 = \<lparr>cls_name = ''SyncGroupResponse_v2'', cls_base = Response, API_KEY = 14, API_VERSION = 2, RESPONSE_TYPE = None\<rparr>"

definition SyncGroupResponse_v3 :: api_class where
  "SyncGroupResponse_v3 = \<lparr>cls_name = ''SyncGroupResponse_v3'', cls_base = Response, API_KEY = 14, API_VERSION = 3, RESPONSE_TYPE = None\<rparr>"

definition SyncGroupRequest_v0 :: api_class where
  "SyncGroupRequest_v0 = \<lparr>cls_name = ''SyncGroupRequest_v0'', cls_base = Request, API_KEY = 14, API_VERSION = 0, RESPONSE_TYPE = Some ''SyncGroupResponse_v0''\<rparr>"

definition SyncGroupRequest_v1 :: api_class where
  "SyncGroupRequest_v1 = \<lparr>cls_name = ''SyncGroupRequest_v1'', cls_base = Request, API_KEY = 14, API_VERSION = 1, RESPONSE_TYPE = Some ''SyncGroupResponse_v1''\<rparr>"

definition SyncGroupRequest_v2 :: api_class where
  "SyncGroupRequest_v2 = \<lparr>cls_name = ''SyncGroupRequest_v2'', cls_base = Request, API_KEY = 14, API_VERSION = 2, RESPONSE_TYPE = Some ''SyncGroupResponse_v2''\<rparr>"

definition SyncGroupRequest_v3 :: api_class where
  "SyncGroupRequest_v3 = \<lparr>cls_name = ''SyncGroupRequest_v3'', cls_base = Request, API_KEY = 14, API_VERSION = 3, RESPONSE_TYPE = Some ''SyncGroupResponse_v3''\<rparr>"

definition SyncGroupRequest :: "api_class list" where
  "SyncGroupRequest = [SyncGroupRequest_v0, SyncGroupRequest_v1, SyncGroupRequest_v2, SyncGroupRequest_v3]"

definition SyncGroupResponse :: "api_class list" where
  "SyncGroupResponse = [SyncGroupResponse_v0, SyncGroupResponse_v1, SyncGroupResponse_v2, SyncGroupResponse_v3]"

definition HeartbeatResponse_v0 :: api_class where
  "HeartbeatResponse_v0 = \<lparr>cls_name = ''HeartbeatResponse_v0'', cls_base = Response, API_KEY = 12, API_VERSION = 0, RESPONSE_TYPE = None\<rparr>"

definition HeartbeatResponse_v1 :: api_class where
  "HeartbeatResponse_v1 = \<lparr>cls_name = ''HeartbeatResponse_v1'', cls_base = Response, API_KEY = 12, API_VERSION = 1, RESPONSE_TYPE = None\<rparr>"

definition HeartbeatResponse_v2 :: api_class where
  "HeartbeatResponse_v2 = \<lparr>cls_name = ''HeartbeatResponse_v2'', cls_base = Response, API_KEY = 12, API_VERSION = 2, RESPONSE_TYPE = None\<rparr>"

definition HeartbeatResponse_v3 :: api_class where
  "HeartbeatResponse_v3 = \<lparr>cls_name = ''HeartbeatResponse_v3'', cls_base = Response, API_KEY = 12, API_VERSION = 3, RESPONSE_TYPE = None\<rparr>"

definition HeartbeatRequest_v0 :: api_class where
  "HeartbeatRequest_v0 = \<lparr>cls_name = ''HeartbeatRequest_v0'', cls_base = Request, API_KEY = 12, API_VERSION = 0, RESPONSE_TYPE = Some ''HeartbeatResponse_v0''\<rparr>"

definition HeartbeatRequest_v1 :: api_class where
  "HeartbeatRequest_v1 = \<lparr>cls_name = ''HeartbeatRequest_v1'', cls_base = Request, API_KEY = 12, API_VERSION = 1, RESPONSE_TYPE = Some ''HeartbeatResponse_v1''\<rparr>"

definition HeartbeatRequest_v2 :: api_class where
  "HeartbeatRequest_v2 = \<lparr>cls_name = ''HeartbeatRequest_v2'', cls_base = Request, API_KEY = 12, API_VERSION = 2, RESPONSE_TYPE = Some ''HeartbeatResponse_v2''\<rparr>"

definition HeartbeatRequest_v3 :: api_class where
  "HeartbeatRequest_v3 = \<lparr>cls_name = ''HeartbeatRequest_v3'', cls_base = Request, API_KEY = 12, API_VERSION = 3, RESPONSE_TYPE = Some ''HeartbeatResponse_v3''\<rparr>"

definition HeartbeatRequest :: "api_class list" where
  "HeartbeatRequest = [HeartbeatRequest_v0, HeartbeatRequest_v1, HeartbeatRequest_v2, HeartbeatRequest_v3]"

definition HeartbeatResponse :: "api_class list" where
  "HeartbeatResponse = [HeartbeatResponse_v0, HeartbeatResponse_v1, HeartbeatResponse_v2, HeartbeatResponse_v3]"

definition LeaveGroupResponse_v0 :: api_class where
  "LeaveGroupResponse_v0 = \<lparr>cls_name = ''LeaveGroupResponse_v0'', cls_base = Response, API_KEY = 13, API_VERSION = 0, RESPONSE_TYPE = None\<rparr>"

definition LeaveGroupResponse_v1 :: api_class where
  "LeaveGroupResponse_v1 = \<lparr>cls_name = ''LeaveGroupResponse_v1'', cls_base = Response, API_KEY = 13, API_VERSION = 1, RESPONSE_TYPE = None\<rparr>"

definition LeaveGroupResponse_v2 :: api_class where
  "LeaveGroupResponse_v2 = \<lparr>cls_name = ''LeaveGroupResponse_v2'', cls_base = Response, API_KEY = 13, API_VERSION = 2, RESPONSE_TYPE = None\<rparr>"

definition LeaveGroupResponse_v3 :: api_class where
  "LeaveGroupResponse_v3 = \<lparr>cls_name = ''LeaveGroupResponse_v3'', cls_base = Response, API_KEY = 13, API_VERSION = 3, RESPONSE_TYPE = None\<rparr>"

definition LeaveGroupRequest_v0 :: api_class where
  "LeaveGroupRequest_v0 = \<lparr>cls_name = ''LeaveGroupRequest_v0'', cls_base = Request, API_KEY = 13, API_VERSION = 0, RESPONSE_TYPE = Some ''LeaveGroupResponse_v0''\<rparr>"

definition LeaveGroupRequest_v1 :: api_class where
  "LeaveGroupRequest_v1 = \<lparr>cls_name = ''LeaveGroupRequest_v1'', cls_base = Request, API_KEY = 13, API_VERSION = 1, RESPONSE_TYPE = Some ''LeaveGroupResponse_v1''\<rparr>"

definition LeaveGroupRequest_v2 :: api_class where
  "LeaveGroupRequest_v2 = \<lparr>cls_name = ''LeaveGroupRequest_v2'', cls_base = Request, API_KEY = 13, API_VERSION = 2, RESPONSE_TYPE = Some ''LeaveGroupResponse_v2''\<rparr>"

definition LeaveGroupRequest_v3 :: api_class where
  "LeaveGroupRequest_v3 = \<lparr>cls_name = ''LeaveGroupRequest_v3'', cls_base = Request, API_KEY = 13, API_VERSION = 3, RESPONSE_TYPE = Some ''LeaveGroupResponse_v3''\<rparr>"

definition LeaveGroupRequest :: "api_class list" where
  "LeaveGroupRequest = [LeaveGroupRequest_v0, LeaveGroupRequest_v1, LeaveGroupRequest_v2, LeaveGroupRequest_v3]"

definition LeaveGroupResponse :: "api_class list" where
  "LeaveGroupResponse = [LeaveGroupResponse_v0, LeaveGroupResponse_v1, LeaveGroupResponse_v2, LeaveGroupResponse_v3]"


text \<open>All registry lists of the two modules, each with its name and the base class its
  name announces.\<close>

definition registries :: "(string \<times> class_base \<times> api_class list) list" where
  "registries = [
    (''CreateTopicsRequest'', Request, CreateTopicsRequest),
    (''CreateTopicsResponse'', Response, CreateTopicsResponse),
    (''DeleteTopicsRequest'', Request, DeleteTopicsRequest),
    (''DeleteTopicsResponse'', Response, DeleteTopicsResponse),
    (''DeleteRecordsResponse'', Response, DeleteRecordsResponse),
    (''DeleteRecordsRequest'', Request, DeleteRecordsRequest),
    (''ListGroupsRequest'', Request, ListGroupsRequest),
    (''ListGroupsResponse'', Response, ListGroupsResponse),
    (''DescribeGroupsRequest'', Request, DescribeGroupsRequest),
    (''DescribeGroupsResponse'', Response, DescribeGroupsResponse),
    (''DescribeAclsRequest'', Request, DescribeAclsRequest),
    (''DescribeAclsResponse'', Response, DescribeAclsResponse),
    (''CreateAclsRequest'', Request, CreateAclsRequest),
    (''CreateAclsResponse'', Response, CreateAclsResponse),
    (''DeleteAclsRequest'', Request, DeleteAclsRequest),
    (''DeleteAclsResponse'', Response, DeleteAclsResponse),
    (''AlterConfigsRequest'', Request, AlterConfigsRequest),
    (''AlterConfigsResponse'', Response, AlterConfigsResponse),
    (''DescribeConfigsRequest'', Request, DescribeConfigsRequest),
    (''DescribeConfigsResponse'', Response, DescribeConfigsResponse),
    (''DescribeLogDirsResponse'', Response, DescribeLogDirsResponse),
    (''DescribeLogDirsRequest'', Request, DescribeLogDirsRequest),
    (''SaslAuthenticateRequest'', Request, SaslAuthenticateRequest),
    (''SaslAuthenticateResponse'', Response, SaslAuthenticateResponse),
    (''CreatePartitionsRequest'', Request, CreatePartitionsRequest),
    (''CreatePartitionsResponse'', Response, CreatePartitionsResponse),
    (''DeleteGroupsRequest'', Request, DeleteGroupsRequest),
    (''DeleteGroupsResponse'', Response, DeleteGroupsResponse),
    (''DescribeClientQuotasRequest'', Request, DescribeClientQuotasRequest),
    (''DescribeClientQuotasResponse'', Response, DescribeClientQuotasResponse),
    (''AlterPartitionReassignmentsRequest'', Request, AlterPartitionReassignmentsRequest),
    (''AlterPartitionReassignmentsResponse'', Response, AlterPartitionReassignmentsResponse),
    (''ListPartitionReassignmentsRequest'', Request, ListPartitionReassignmentsRequest),
    (''ListPartitionReassignmentsResponse'', Response, ListPartitionReassignmentsResponse),
    (''ElectLeadersRequest'', Request, ElectLeadersRequest),
    (''ElectLeadersResponse'', Response, ElectLeadersResponse),
    (''JoinGroupRequest'', Request, JoinGroupRequest),
    (''JoinGroupResponse'', Response, JoinGroupResponse),
    (''SyncGroupRequest'', Request, SyncGroupRequest),
    (''SyncGroupResponse'', Response, SyncGroupResponse),
    (''HeartbeatRequest'', Request, HeartbeatRequest),
    (''HeartbeatResponse'', Response, HeartbeatResponse),
    (''LeaveGroupRequest'', Request, LeaveGroupRequest),
    (''LeaveGroupResponse'', Response, LeaveGroupResponse)]"


text \<open>A registry is indexed by version when the class at index \<open>i\<close> has \<^verbatim>\<open>API_VERSION\<close> \<open>i\<close>,
  and it is of one base when every class in it derives from that base.\<close>

definition indexed_by_version :: "api_class list \<Rightarrow> bool" where
  "indexed_by_version registry = (map API_VERSION registry = [0..<length registry])"

definition of_base :: "class_base \<Rightarrow> api_class list \<Rightarrow> bool" where
  "of_base base registry = list_all (\<lambda>cls. cls_base cls = base) registry"

definition well_formed :: "string \<times> class_base \<times> api_class list \<Rightarrow> bool" where
  "well_formed entry =
     (case entry of (registry_name, base, registry) \<Rightarrow>
        indexed_by_version registry \<and> of_base base registry)"

section \<open>The round-robin assignor\<close>

text \<open>
  kafka/coordinator/assignors/roundrobin.py. A member's subscription carries the
  attributes \<^verbatim>\<open>topics\<close> and \<^verbatim>\<open>group_instance_id\<close> (\<^verbatim>\<open>None\<close> for a dynamic member);
  \<^verbatim>\<open>group_subscriptions\<close> is a dict from member id to subscription, the list of its items.
  \<^verbatim>\<open>cluster.partitions_for_topic(topic)\<close> is a set of partition ids, or \<^verbatim>\<open>None\<close>.
\<close>

record subscription =
  topics :: "string list"
  group_instance_id :: "string option"

text \<open>\<^verbatim>\<open>itertools.groupby\<close>: the runs of consecutive elements with the same key.\<close>

fun groupby :: "('a \<Rightarrow> 'k) \<Rightarrow> 'a list \<Rightarrow> ('k \<times> 'a list) list" where
  "groupby key [] = []"
| "groupby key (x # xs) =
     (case groupby key xs of
        [] \<Rightarrow> [(key x, [x])]
      | (k, g) # rest \<Rightarrow>
          if k = key x then (k, x # g) # rest else (key x, [x]) # (k, g) # rest)"

text \<open>The topics of all subscriptions, and their partitions in sorted order. The source
  collects them from sets and sorts the list; the order in which the sets are walked does
  not show in the sorted list.\<close>

definition all_topics :: "(string \<times> subscription) list \<Rightarrow> string list" where
  "all_topics group_subscriptions = remdups (concat (map (\<lambda>(member_id, s). topics s) group_subscriptions))"

definition all_topic_partitions ::
  "(string \<Rightarrow> int set option) \<Rightarrow> (string \<times> subscription) list \<Rightarrow> TopicPartition list" where
  "all_topic_partitions partitions_for_topic group_subscriptions =
     sort (concat (map (\<lambda>topic.
                          case partitions_for_topic topic of
                            None \<Rightarrow> []
                          | Some partitions \<Rightarrow> map (\<lambda>p. (topic, p)) (sorted_list_of_set partitions))
                   (all_topics group_subscriptions)))"

text \<open>Static members first, then dynamic ones, each group sorted.\<close>

definition member_list :: "(string \<times> subscription) list \<Rightarrow> (string option \<times> string) list" where
  "member_list group_subscriptions =
     (let ungrouped = map (\<lambda>(member_id, s). (group_instance_id s, member_id)) group_subscriptions;
          grouped = dict_of (groupby (\<lambda>ids. fst ids \<noteq> None) ungrouped) in
      sort (dict_get_list grouped True) @ sort (dict_get_list grouped False))"

text \<open>
  The loop over the partitions. \<open>pos\<close> counts the calls of \<^verbatim>\<open>next(member_iter)\<close> so far;
  \<^verbatim>\<open>itertools.cycle\<close> of an empty list raises \<^verbatim>\<open>StopIteration\<close>. When the member is not
  subscribed to the topic, the \<^verbatim>\<open>while\<close> body binds \<^verbatim>\<open>member_id\<close> to the next pair of the
  cycle, and the lookup \<^verbatim>\<open>group_subscriptions[member_id]\<close> of that pair raises \<^verbatim>\<open>KeyError\<close>.
  \<^verbatim>\<open>assignment\<close> is the nested \<^verbatim>\<open>defaultdict\<close>.
\<close>

type_synonym assignment = "(string \<times> (string \<times> int list) list) list"

definition assignment_append :: "assignment \<Rightarrow> string \<Rightarrow> string \<Rightarrow> int \<Rightarrow> assignment" where
  "assignment_append assignment member_id topic p =
     (let of_member = dict_get_list assignment member_id in
      dict_set assignment member_id
        (dict_set of_member topic (dict_get_list of_member topic @ [p])))"

fun assign_loop ::
  "(string \<times> subscription) list \<Rightarrow> (string option \<times> string) list \<Rightarrow> TopicPartition list \<Rightarrow>
   nat \<Rightarrow> assignment \<Rightarrow> error + assignment" where
  "assign_loop group_subscriptions members [] pos assignment = Inr assignment"
| "assign_loop group_subscriptions members ((topic, p) # rest) pos assignment =
     (if members = [] then Inl StopIteration
      else
        (let member_id = snd (members ! (pos mod length members)) in
         case map_of group_subscriptions member_id of
           None \<Rightarrow> Inl KeyError
         | Some s \<Rightarrow>
             if topic \<notin> set (topics s) then Inl KeyError
             else assign_loop group_subscriptions members rest (Suc pos)
                    (assignment_append assignment member_id topic p)))"

text \<open>The result maps every member of \<^verbatim>\<open>group_subscriptions\<close> to
  \<^verbatim>\<open>ConsumerProtocolMemberAssignment_v0(cls.version, sorted(assignment[member_id].items()), b'')\<close>.\<close>

type_synonym MemberAssignment = "nat \<times> (string \<times> int list) list \<times> string"

definition assign ::
  "(string \<Rightarrow> int set option) \<Rightarrow> (string \<times> subscription) list \<Rightarrow>
   error + (string \<times> MemberAssignment) list" where
  "assign partitions_for_topic group_subscriptions =
     (case assign_loop group_subscriptions (member_list group_subscriptions)
             (all_topic_partitions partitions_for_topic group_subscriptions) 0 [] of
        Inl e \<Rightarrow> Inl e
      | Inr assignment \<Rightarrow>
          Inr (dict_of (map (\<lambda>(member_id, s).
                               (member_id, (0, sort (dict_get_list assignment member_id), [])))
                          group_subscriptions)))"

text \<open>The partitions a member owns in an assignment, and their number.\<close>

definition owned :: "(string \<times> MemberAssignment) list \<Rightarrow> string \<Rightarrow> TopicPartition list" where
  "owned protocol_assignment member_id =
     (case map_of protocol_assignment member_id of
        None \<Rightarrow> []
      | Some (version, by_topic, user_data) \<Rightarrow>
          concat (map (\<lambda>(topic, ps). map (\<lambda>p. (topic, p)) ps) by_topic))"

section \<open>Notions used in the statements\<close>

text \<open>The log of sends: target node and request, in sending order; and how often a given
  request was sent.\<close>

definition sent :: "client \<Rightarrow> (int \<times> request) list" where
  "sent c = map (\<lambda>(node_id, request, future). (node_id, request)) (inflight c)"

definition sends_of :: "request \<Rightarrow> client \<Rightarrow> nat" where
  "sends_of request c = length (filter (\<lambda>(node_id, r). r = request) (sent c))"

text \<open>The requests the four controller-bound calls build, and the responses they get.\<close>

definition controller_bound :: "request \<Rightarrow> bool" where
  "controller_bound request =
     (case request of
        CreateTopicsReq v ts t vo \<Rightarrow> True
      | DeleteTopicsReq v ts t \<Rightarrow> True
      | CreatePartitionsReq v ps t vo \<Rightarrow> True
      | ElectLeadersReq v et ps t \<Rightarrow> True
      | _ \<Rightarrow> False)"

definition controller_response :: "response \<Rightarrow> bool" where
  "controller_response response =
     (case response of
        TopicErrorsResp tuples \<Rightarrow> True
      | ElectLeadersResp results \<Rightarrow> True
      | _ \<Rightarrow> False)"

text \<open>
  The per-entity error codes of a response in the order the client scans them, the codes
  the scan steps over (\<^verbatim>\<open>NoError\<close>, and \<^verbatim>\<open>ElectionNotNeededError\<close> in a leader-election
  response), and the \<open>verdict\<close>: the error class of the first code that is not stepped
  over, if there is one.
\<close>

definition entry_codes :: "response \<Rightarrow> int list" where
  "entry_codes response =
     (case response of
        TopicErrorsResp tuples \<Rightarrow> map snd tuples
      | ElectLeadersResp results \<Rightarrow> map snd (concat (map snd results))
      | _ \<Rightarrow> [])"

definition accepted :: "client \<Rightarrow> response \<Rightarrow> int \<Rightarrow> bool" where
  "accepted self response code =
     (for_code self code = NoError \<or>
      (case response of
         ElectLeadersResp results \<Rightarrow> for_code self code = ElectionNotNeededError
       | _ \<Rightarrow> False))"

definition verdict :: "client \<Rightarrow> response \<Rightarrow> error_type option" where
  "verdict self response =
     (case filter (\<lambda>code. \<not> accepted self response code) (entry_codes response) of
        [] \<Rightarrow> None
      | code # rest \<Rightarrow> Some (for_code self code))"

text \<open>What the scan of a response does with its verdict when \<open>tries\<close> tries are left.\<close>

definition decide :: "client \<Rightarrow> nat \<Rightarrow> error_type option \<Rightarrow> bool result" where
  "decide self tries v =
     (case v of
        None \<Rightarrow> (Inr True, self)
      | Some e \<Rightarrow>
          if tries \<noteq> 0 \<and> e = NotControllerError then
            (case refresh_controller_id self of
               (Inl e', c) \<Rightarrow> (Inl e', c)
             | (Inr u, c) \<Rightarrow> (Inr False, c))
          else (Inl (BrokerError e), self))"

definition outcome :: "error + response \<Rightarrow> future" where
  "outcome r = (case r of Inl e \<Rightarrow> Failed e | Inr x \<Rightarrow> Succeeded x)"

text \<open>
  A batch of requests handed to \<^verbatim>\<open>send_requests\<close>: \<open>planned c k\<close> is the batch with the
  target node of every request, the first of them being the \<open>k\<close>-th send of the client
  (\<^verbatim>\<open>least_loaded_node()\<close> where no node is given); \<open>batch_reachable\<close> says that every
  target is ready; \<open>replies_to\<close> lists the outcomes of the batch, in the order of the batch.
  \<open>expected c k\<close> is the state the future of send \<open>k\<close> has once it is done.
\<close>

fun planned :: "client \<Rightarrow> nat \<Rightarrow> (request \<times> int option) list \<Rightarrow> (int \<times> request) list" where
  "planned c k [] = []"
| "planned c k ((request, node_id) # rest) =
     ((case node_id of None \<Rightarrow> least_loaded c k | Some n \<Rightarrow> n), request) # planned c (Suc k) rest"

definition batch_reachable :: "client \<Rightarrow> (request \<times> int option) list \<Rightarrow> bool" where
  "batch_reachable c requests =
     list_all (\<lambda>(node_id, request). \<not> unreachable c node_id) (planned c (length (inflight c)) requests)"

definition replies_to :: "client \<Rightarrow> (request \<times> int option) list \<Rightarrow> (error + response) list" where
  "replies_to c requests =
     map (\<lambda>(i, node_id, request). reply c i node_id request)
       (enumerate (length (inflight c)) (planned c (length (inflight c)) requests))"

definition expected :: "client \<Rightarrow> nat \<Rightarrow> future" where
  "expected c k =
     (case inflight c ! k of
        (node_id, request, Pending) \<Rightarrow> outcome (reply c k node_id request)
      | (node_id, request, done) \<Rightarrow> done)"

section \<open>A stub cluster for examples\<close>

text \<open>
  An instance of \<^verbatim>\<open>Errors.for_code\<close> with the codes of the Kafka protocol for the three
  classes the client singles out, and a client of a three-broker cluster whose replies and
  arrival order are given. The scripted replies below answer by the kind of request and
  the node it was sent to. All elements have the same \<open>set_rank\<close>: of the orders in which
  Python may iterate a set (string hashes differ from process to process), the stub takes
  the order of insertion.
\<close>

definition kafka_for_code :: "int \<Rightarrow> error_type" where
  "kafka_for_code code =
     (if code = 0 then NoError
      else if code = 41 then NotControllerError
      else if code = 84 then ElectionNotNeededError
      else OtherError code)"

text \<open>
  \<^verbatim>\<open>int()\<close> of Python 3 on a string of characters below code 256: white space around
  the numeral is stripped (tab to carriage return, space, NEL and the no-break space), a
  sign may lead, and single underscores may separate digits.
\<close>

definition py_space :: "char \<Rightarrow> bool" where
  "py_space ch =
     (of_char ch \<in> {9, 10, 11, 12, 13, 32, 133, 160 :: nat})"

fun decimal_digits :: "int \<Rightarrow> bool \<Rightarrow> string \<Rightarrow> int option" where
  "decimal_digits acc after_digit [] = (if after_digit then Some acc else None)"
| "decimal_digits acc after_digit (ch # rest) =
     (if CHR ''0'' \<le> ch \<and> ch \<le> CHR ''9''
      then decimal_digits (10 * acc + (int (of_char ch) - 48)) True rest
      else if ch = CHR ''_'' \<and> after_digit then decimal_digits acc False rest
      else None)"

definition decimal :: "string \<Rightarrow> int option" where
  "decimal s =
     (case rev (dropWhile py_space (rev (dropWhile py_space s))) of
        [] \<Rightarrow> None
      | ch # rest \<Rightarrow>
          if ch = CHR ''-'' then map_option uminus (decimal_digits 0 False rest)
          else if ch = CHR ''+'' then decimal_digits 0 False rest
          else decimal_digits 0 False (ch # rest))"

definition stub_client ::
  "(nat \<Rightarrow> int \<Rightarrow> request \<Rightarrow> error + response) \<Rightarrow> nat list \<Rightarrow> client" where
  "stub_client replies order =
     \<lparr>request_timeout_ms = 30000, config_api_version = [2, 5, 0], controller_id = 1,
      for_code = kafka_for_code, inflight = [], reply = replies, arrivals = order,
      least_loaded = (\<lambda>n. 2), unreachable = (\<lambda>node_id. False),
      broker_max = (\<lambda>operation. 9), check_version = (\<lambda>node_id. [2, 5, 0]),
      refresh_rounds = 3, cluster_brokers = [1, 2, 7],
      cluster_partitions = [(''t'', [0, 1])], py_int = decimal,
      set_rank = (\<lambda>tp. 0)\<rparr>"

definition create_t :: request where
  "create_t = CreateTopicsReq 3 [(''t'', 1, 1, [], [])] 30000 (Some False)"

text \<open>The controller has moved to node 7: every other node answers \<^verbatim>\<open>NotControllerError\<close>
  (code 41).\<close>

definition moved_controller :: "nat \<Rightarrow> int \<Rightarrow> request \<Rightarrow> error + response" where
  "moved_controller i node_id request =
     (case request of
        MetadataReq v ts a b \<Rightarrow> Inr (MetadataResp 7 [])
      | _ \<Rightarrow> Inr (TopicErrorsResp [(''t'', if node_id = 7 then 0 else 41)]))"

text \<open>The connection to node 7 cannot be made ready.\<close>

definition controller_down :: "client \<Rightarrow> client" where
  "controller_down c = c\<lparr>unreachable := (\<lambda>node_id. node_id = 7)\<rparr>"

text \<open>No node accepts to be the controller, though the metadata names node 7.\<close>

definition stale_metadata :: "nat \<Rightarrow> int \<Rightarrow> request \<Rightarrow> error + response" where
  "stale_metadata i node_id request =
     (case request of
        MetadataReq v ts a b \<Rightarrow> Inr (MetadataResp 7 [])
      | _ \<Rightarrow> Inr (TopicErrorsResp [(''t'', 41)]))"

text \<open>A controller election is under way: the metadata names no controller (\<open>-1\<close>).\<close>

definition no_controller :: "nat \<Rightarrow> int \<Rightarrow> request \<Rightarrow> error + response" where
  "no_controller i node_id request =
     (case request of
        MetadataReq v ts a b \<Rightarrow> Inr (MetadataResp (- 1) [])
      | _ \<Rightarrow> Inr (TopicErrorsResp [(''t'', 41)]))"

text \<open>The response lists \<^verbatim>\<open>TopicAlreadyExistsError\<close> (code 36) before
  \<^verbatim>\<open>NotControllerError\<close>.\<close>

definition mixed_errors :: "nat \<Rightarrow> int \<Rightarrow> request \<Rightarrow> error + response" where
  "mixed_errors i node_id request =
     (case request of
        MetadataReq v ts a b \<Rightarrow> Inr (MetadataResp 7 [])
      | _ \<Rightarrow> Inr (TopicErrorsResp [(''a'', 36), (''t'', 41)]))"

text \<open>A broker that supports OffsetFetch up to version 1 only, and answers every
  coordinator lookup with node 1.\<close>

definition old_offset_fetch :: "client \<Rightarrow> client" where
  "old_offset_fetch c = c\<lparr>broker_max := (\<lambda>operation. if operation = OffsetFetch then 1 else 9)\<rparr>"

definition coordinator_is_1 :: "nat \<Rightarrow> int \<Rightarrow> request \<Rightarrow> error + response" where
  "coordinator_is_1 i node_id request = Inr (FindCoordinatorResp 0 1)"

text \<open>A group of three members subscribed to the topic \<open>t\<close> of four partitions: a static
  member, a dynamic member, and another static member, in this order.\<close>

definition three_members :: "(string \<times> subscription) list" where
  "three_members =
     [(''m1'', \<lparr>topics = [''t''], group_instance_id = Some ''i1''\<rparr>),
      (''m2'', \<lparr>topics = [''t''], group_instance_id = None\<rparr>),
      (''m3'', \<lparr>topics = [''t''], group_instance_id = Some ''i3''\<rparr>)]"

definition four_partitions :: "string \<Rightarrow> int set option" where
  "four_partitions topic = (if topic = ''t'' then Some {0, 1, 2, 3} else None)"

text \<open>The brokers \<^verbatim>\<open>list_consumer_groups\<close> queries, and the request it sends to each.\<close>

definition queried_brokers :: "client \<Rightarrow> int list option \<Rightarrow> int list" where
  "queried_brokers self broker_ids =
     (case broker_ids of None \<Rightarrow> cluster_brokers self | Some ids \<Rightarrow> ids)"

definition list_groups_requests :: "client \<Rightarrow> int list option \<Rightarrow> (request \<times> int option) list" where
  "list_groups_requests self broker_ids =
     map (\<lambda>broker_id. (list_consumer_groups_request self, Some broker_id))
       (queried_brokers self broker_ids)"

text \<open>Brokers 1 and 2 both report the group \<open>g1\<close>, broker 2 also reports \<open>g2\<close>, broker 7
  reports nothing.\<close>

definition groups_moving :: "nat \<Rightarrow> int \<Rightarrow> request \<Rightarrow> error + response" where
  "groups_moving i node_id request =
     Inr (ListGroupsResp 2 0
       (if node_id = 1 then [(''g1'', ''consumer'')]
        else if node_id = 2 then [(''g1'', ''consumer''), (''g2'', ''consumer'')]
        else []))"

text \<open>The batch \<^verbatim>\<open>_find_coordinator_ids\<close> sends: one FindCoordinator request for every group
  id, each to the least-loaded node.\<close>

definition coordinator_requests :: "client \<Rightarrow> string list \<Rightarrow> (request \<times> int option) list" where
  "coordinator_requests self group_ids =
     map (\<lambda>group_id. (find_coordinator_id_request self group_id, None)) group_ids"

text \<open>The coordinators of \<open>g1\<close>, \<open>g2\<close> and \<open>g3\<close> are the nodes 1, 2 and 7; the lookup of any
  other group fails with code 15 (\<^verbatim>\<open>CoordinatorNotAvailableError\<close>).\<close>

definition coordinators :: "nat \<Rightarrow> int \<Rightarrow> request \<Rightarrow> error + response" where
  "coordinators i node_id request =
     (case request of
        FindCoordinatorReq v group_id key_type \<Rightarrow>
          if group_id = ''g1'' then Inr (FindCoordinatorResp 0 1)
          else if group_id = ''g2'' then Inr (FindCoordinatorResp 0 2)
          else if group_id = ''g3'' then Inr (FindCoordinatorResp 0 7)
          else Inr (FindCoordinatorResp 15 (- 1))
      | _ \<Rightarrow> Inl (KafkaConnectionError node_id))"






text \<open>
  The per-partition results of the responses collected by \<^verbatim>\<open>delete_records\<close>, each with its
  \<^verbatim>\<open>TopicPartition\<close>, in the order of the three loops; and the partitions that have a result
  with a non-zero \<^verbatim>\<open>error_code\<close>.
\<close>

definition result_entries ::
  "(string \<times> partition_result list) list list \<Rightarrow> (TopicPartition \<times> partition_result) list" where
  "result_entries responses =
     concat (map (\<lambda>response.
                    concat (map (\<lambda>(topic_name, partition_list).
                                   map (\<lambda>partition_data. ((topic_name, fst partition_data), partition_data))
                                     partition_list)
                            response))
             responses)"

definition failed_partitions :: "(string \<times> partition_result list) list list \<Rightarrow> TopicPartition set" where
  "failed_partitions responses =
     fst ` set (filter (\<lambda>(tp, partition_data). snd (snd partition_data) \<noteq> 0) (result_entries responses))"

text \<open>Scenario S4 of the specification: the leaders of the partitions 0 and 1 of topic \<open>t\<close>
  are the nodes 1 and 2; node 2 answers a DeleteRecords request for partition 1 with error
  code 3.\<close>

definition two_leaders :: "nat \<Rightarrow> int \<Rightarrow> request \<Rightarrow> error + response" where
  "two_leaders i node_id request =
     (case request of
        MetadataReq v ts a b \<Rightarrow> Inr (MetadataResp 1 [(''t'', [(0, 1), (1, 2)])])
      | DeleteRecordsReq v by_topic timeout \<Rightarrow>
          Inr (DeleteRecordsResp
                 (if node_id = 1 then [(''t'', [(0, 100, 0)])] else [(''t'', [(1, - 1, 3)])]))
      | _ \<Rightarrow> Inl (KafkaConnectionError node_id))"

text \<open>
  What a call of \<^verbatim>\<open>delete_records\<close> that took the client from \<open>self\<close> to \<open>c'\<close> has sent
  and got: the DeleteRecords requests sent between the two states, each with the number of
  its send and its target node, in sending order, and the outcomes of these requests. The
  targets the call is meant to address are the given node, or else the leaders found by
  \<^verbatim>\<open>_get_leader_for_partitions\<close>, in the order of its dict.
\<close>

definition is_delete_records :: "request \<Rightarrow> bool" where
  "is_delete_records request =
     (case request of DeleteRecordsReq v by_topic t \<Rightarrow> True | _ \<Rightarrow> False)"

definition delete_records_sent :: "client \<Rightarrow> client \<Rightarrow> (nat \<times> int \<times> request) list" where
  "delete_records_sent self c' =
     filter (\<lambda>(i, node_id, request). is_delete_records request)
       (enumerate (length (inflight self)) (drop (length (inflight self)) (sent c')))"

definition delete_records_replies :: "client \<Rightarrow> client \<Rightarrow> (error + response) list" where
  "delete_records_replies self c' =
     map (\<lambda>(i, node_id, request). reply self i node_id request) (delete_records_sent self c')"

definition delete_records_targets ::
  "(TopicPartition \<times> int) list \<Rightarrow> int \<Rightarrow> int option \<Rightarrow> client \<Rightarrow> int list" where
  "delete_records_targets records_to_delete timeout_ms partition_leader_id self =
     (case partition_leader_id of
        Some leader \<Rightarrow> [leader]
      | None \<Rightarrow>
          (case fst (get_leader_for_partitions (map fst records_to_delete) (Some timeout_ms) self) of
             Inr leader2partitions \<Rightarrow> map fst leader2partitions
           | Inl e \<Rightarrow> []))"

text \<open>The cluster of scenario S4 with given results for the partitions 0 (from node 1) and
  1 (from node 2), and offsets for both partitions.\<close>

definition leaders_answer ::
  "partition_result \<Rightarrow> partition_result \<Rightarrow> nat \<Rightarrow> int \<Rightarrow> request \<Rightarrow> error + response" where
  "leaders_answer first second i node_id request =
     (case request of
        MetadataReq v ts a b \<Rightarrow> Inr (MetadataResp 1 [(''t'', [(0, 1), (1, 2)])])
      | DeleteRecordsReq v by_topic timeout \<Rightarrow>
          Inr (DeleteRecordsResp [(''t'', [if node_id = 1 then first else second])])
      | _ \<Rightarrow> Inl (KafkaConnectionError node_id))"

definition two_offsets :: "(TopicPartition \<times> int) list" where
  "two_offsets = [((''t'', 0), 50), ((''t'', 1), 60)]"




section \<open>Facts about the broker client\<close>

lemma pair_of_fst: "fst x = a \<Longrightarrow> x = (a, snd x)"
  by (cases x) simp

lemma deliver_frame [simp]:
  "sent (deliver i c) = sent c" "for_code (deliver i c) = for_code c"
  "reply (deliver i c) = reply c" "controller_id (deliver i c) = controller_id c"
  "length (inflight (deliver i c)) = length (inflight c)"
  by (auto simp: deliver_def sent_def map_update list_update_same_conv split: prod.splits future.splits)

lemma sent_arrivals [simp]: "sent (c\<lparr>arrivals := a\<rparr>) = sent c"
  by (simp add: sent_def)

lemma poll_loop_frame [simp]:
  "sent (poll_loop f arrs c) = sent c" "for_code (poll_loop f arrs c) = for_code c"
  "reply (poll_loop f arrs c) = reply c" "controller_id (poll_loop f arrs c) = controller_id c"
  "length (inflight (poll_loop f arrs c)) = length (inflight c)"
  by (induction arrs arbitrary: c) auto

lemma poll_frame [simp]:
  "sent (poll f c) = sent c" "for_code (poll f c) = for_code c"
  "reply (poll f c) = reply c" "controller_id (poll f c) = controller_id c"
  "length (inflight (poll f c)) = length (inflight c)"
  by (simp_all add: poll_def)

lemma wait_pass_frame [simp]:
  "sent (snd (wait_pass fs c)) = sent c" "for_code (snd (wait_pass fs c)) = for_code c"
  "reply (snd (wait_pass fs c)) = reply c" "controller_id (snd (wait_pass fs c)) = controller_id c"
  "length (inflight (snd (wait_pass fs c))) = length (inflight c)"
  by (induction fs arbitrary: c) (auto simp: Let_def split: future.splits)

lemma wait_for_futures_eq:
  "wait_for_futures fs c = (if list_all (succeeded c) fs then (Inr (), c) else wait_pass fs c)"
proof (cases "list_all (succeeded c) fs")
  case True
  then show ?thesis by (simp add: wait_for_futures.simps)
next
  case False
  obtain r c' where w: "wait_pass fs c = (r, c')" by (cases "wait_pass fs c")
  show ?thesis
  proof (cases r)
    case (Inl e)
    with False w show ?thesis by (simp add: wait_for_futures.simps[of fs c])
  next
    case (Inr u)
    with w have "list_all (succeeded c') fs" by (auto dest: wait_pass_succeeded)
    with False w Inr show ?thesis
      by (simp add: wait_for_futures.simps[of fs c] wait_for_futures.simps[of fs c'])
  qed
qed

lemma deliver_other:
  "i \<noteq> f \<Longrightarrow> f < length (inflight c) \<Longrightarrow> inflight (deliver i c) ! f = inflight c ! f"
  by (auto simp: deliver_def split: prod.splits future.splits)

lemma deliver_pending:
  "f < length (inflight c) \<Longrightarrow> inflight c ! f = (n, request, Pending) \<Longrightarrow>
   future_state (deliver f c) f = outcome (reply c f n request)"
  by (auto simp: deliver_def future_state_def outcome_def split: sum.splits)

lemma inflight_arrivals [simp]: "inflight (c\<lparr>arrivals := a\<rparr>) = inflight c"
  by simp

lemma poll_loop_state:
  "f < length (inflight c) \<Longrightarrow> inflight c ! f = (n, request, Pending) \<Longrightarrow>
   future_state (poll_loop f arrs c) f = outcome (reply c f n request)"
proof (induction arrs arbitrary: c)
  case Nil
  then show ?case using deliver_pending[of f "c\<lparr>arrivals := []\<rparr>" n request] by simp
next
  case (Cons i rest)
  have pend: "future_state c f = Pending" using Cons.prems by (simp add: future_state_def)
  show ?case
  proof (cases "i = f")
    case True
    have "future_state (deliver f c) f = outcome (reply c f n request)"
      using Cons.prems by (rule deliver_pending)
    moreover have "future_state (deliver f c) f \<noteq> Pending" by (rule future_state_deliver_self)
    ultimately show ?thesis using pend True by (simp add: poll_loop_keeps)
  next
    case False
    then have "inflight (deliver i c) ! f = (n, request, Pending)"
      using Cons.prems by (simp add: deliver_other)
    with Cons.IH[of "deliver i c"] Cons.prems pend show ?thesis by simp
  qed
qed

lemma send_request_eq:
  "send_request request node_id c =
     (let n = (case node_id of None \<Rightarrow> least_loaded_node c | Some n \<Rightarrow> n) in
      if unreachable c n then (Inl (KafkaConnectionError n), c)
      else (reply c (length (inflight c)) n request,
            poll (length (inflight c)) (snd (send n request c))))"
proof -
  define n where "n = (case node_id of None \<Rightarrow> least_loaded_node c | Some n \<Rightarrow> n)"
  define k where "k = length (inflight c)"
  define c1 where "c1 = snd (send n request c)"
  have c1: "send n request c = (k, c1)" by (simp add: c1_def k_def send_def)
  have len: "k < length (inflight c1)" and at: "inflight c1 ! k = (n, request, Pending)"
    and rep: "reply c1 = reply c"
    by (simp_all add: c1_def k_def send_def)
  have st: "future_state (poll k c1) k = outcome (reply c k n request)"
    using poll_loop_state[OF len at] rep by (simp add: poll_def)
  have notall: "\<not> list_all (succeeded c1) [k]"
    using len at by (simp add: succeeded_def future_state_def)
  show ?thesis
  proof (cases "unreachable c n")
    case True
    then show ?thesis by (simp add: send_request_def await_ready_def n_def[symmetric])
  next
    case False
    then show ?thesis
      using st notall c1
      by (cases "reply c k n request")
         (simp_all add: send_request_def await_ready_def n_def[symmetric] k_def[symmetric]
            wait_for_futures_eq Let_def outcome_def future_value_def c1_def[symmetric])
  qed
qed

text \<open>What one request adds to the log of sends.\<close>

lemma sent_send [simp]: "sent (snd (send n request c)) = sent c @ [(n, request)]"
  by (simp add: send_def sent_def)

lemma send_frame [simp]:
  "for_code (snd (send n request c)) = for_code c"
  "controller_id (snd (send n request c)) = controller_id c"
  by (simp_all add: send_def)

lemma send_request_frame [simp]:
  "for_code (snd (send_request request node_id c)) = for_code c"
  "controller_id (snd (send_request request node_id c)) = controller_id c"
  by (simp_all add: send_request_eq Let_def)

lemma sends_of_send_request:
  "sends_of r (snd (send_request request node_id c)) =
     sends_of r c +
     (if \<not> unreachable c (case node_id of None \<Rightarrow> least_loaded_node c | Some n \<Rightarrow> n) \<and> request = r
      then 1 else 0)"
  by (simp add: send_request_eq Let_def sends_of_def)

lemma send_request_Inr_reachable:
  "send_request request (Some n) c = (Inr response, c1) \<Longrightarrow> \<not> unreachable c n"
  by (auto simp: send_request_eq Let_def split: if_splits)

lemma send_request_sent:
  "send_request request node_id c = (Inr response, c') \<Longrightarrow>
   sent c' = sent c @ [(case node_id of None \<Rightarrow> least_loaded_node c | Some n \<Rightarrow> n, request)]"
  by (auto simp: send_request_eq Let_def split: if_splits)

lemma length_sent: "length (sent c) = length (inflight c)"
  by (simp add: sent_def)

lemma send_request_answered:
  assumes "send_request request node_id c = (Inr response, c')"
  shows "reply c (length (inflight c))
           (case node_id of None \<Rightarrow> least_loaded_node c | Some n \<Rightarrow> n) request = Inr response"
    and "reply c' = reply c"
    and "for_code c' = for_code c"
  using assms by (auto simp: send_request_eq Let_def send_def split: if_splits)

text \<open>A batch whose targets are ready and whose requests are all answered: the results
  are those of the responses in the order of the batch, whatever the order of arrival, and
  the batch is what was sent.\<close>

lemma expected_arrivals [simp]: "expected (c\<lparr>arrivals := a\<rparr>) k = expected c k"
  by (simp add: expected_def split: prod.splits future.splits)

lemma expected_deliver:
  "k < length (inflight c) \<Longrightarrow> expected (deliver i c) k = expected c k"
  by (cases "i = k")
     (auto simp: expected_def deliver_def outcome_def split: prod.splits future.splits sum.splits)

lemma expected_poll_loop:
  "k < length (inflight c) \<Longrightarrow> expected (poll_loop f arrs c) k = expected c k"
  by (induction arrs arbitrary: c) (auto simp: expected_deliver)

lemma expected_poll: "k < length (inflight c) \<Longrightarrow> expected (poll f c) k = expected c k"
  by (simp add: poll_def expected_poll_loop)

lemma future_state_expected:
  "f < length (inflight c) \<Longrightarrow> future_state c f \<noteq> Pending \<Longrightarrow> future_state c f = expected c f"
  by (auto simp: future_state_def expected_def split: prod.splits future.splits)

lemma future_state_poll:
  assumes "f < length (inflight c)"
  shows "future_state (poll f c) f = expected c f"
proof -
  have len: "f < length (inflight (poll f c))" using assms by simp
  have "future_state (poll f c) f \<noteq> Pending" by (simp add: poll_def poll_loop_done)
  then have "future_state (poll f c) f = expected (poll f c) f"
    using len by (rule future_state_expected[rotated])
  then show ?thesis using assms by (simp add: expected_poll)
qed

lemma future_state_poll_keeps:
  "future_state c g \<noteq> Pending \<Longrightarrow> future_state (poll f c) g = future_state c g"
  by (simp add: poll_def poll_loop_keeps)

lemma wait_pass_state_keeps:
  "future_state c g \<noteq> Pending \<Longrightarrow> future_state (snd (wait_pass fs c)) g = future_state c g"
  by (induction fs arbitrary: c) (auto simp: Let_def future_state_poll_keeps split: future.splits)

lemma wait_pass_all_succeed:
  assumes "\<forall>f\<in>set fs. f < length (inflight c) \<and> (\<exists>r. expected c f = Succeeded r)"
  shows "fst (wait_pass fs c) = Inr () \<and>
         (\<forall>f\<in>set fs. future_state (snd (wait_pass fs c)) f = expected c f)"
  using assms
proof (induction fs arbitrary: c)
  case Nil
  then show ?case by simp
next
  case (Cons f fs)
  let ?c' = "poll f c"
  from Cons.prems obtain r where f: "f < length (inflight c)" and r: "expected c f = Succeeded r"
    by auto
  have st: "future_state ?c' f = Succeeded r" using future_state_poll[OF f] r by simp
  have pre: "\<forall>g\<in>set fs. g < length (inflight ?c') \<and> (\<exists>r. expected ?c' g = Succeeded r)"
    using Cons.prems by (auto simp: expected_poll)
  note IH = Cons.IH[OF pre]
  have w: "wait_pass (f # fs) c = wait_pass fs ?c'" using st by (simp add: Let_def)
  have keep: "future_state (snd (wait_pass fs ?c')) f = Succeeded r"
    using wait_pass_state_keeps[of ?c' f fs] st by simp
  show ?case unfolding w using IH keep r Cons.prems by (auto simp: expected_poll)
qed

lemma planned_inflight [simp]: "planned (c\<lparr>inflight := xs\<rparr>) k requests = planned c k requests"
  by (induction requests arbitrary: k) (auto split: option.splits)

lemma length_planned [simp]: "length (planned c k requests) = length requests"
  by (induction requests arbitrary: k) auto

lemma submit_all_ok:
  "list_all (\<lambda>(node_id, request). \<not> unreachable c node_id) (planned c (length (inflight c)) requests) \<Longrightarrow>
   submit_all requests c =
     (Inr [length (inflight c)..<length (inflight c) + length requests],
      c\<lparr>inflight := inflight c @
           map (\<lambda>(node_id, request). (node_id, request, Pending))
             (planned c (length (inflight c)) requests)\<rparr>)"
proof (induction requests arbitrary: c)
  case Nil
  then show ?case by simp
next
  case (Cons x requests)
  obtain request node_id where x: "x = (request, node_id)" by (cases x)
  define n where "n = (case node_id of None \<Rightarrow> least_loaded_node c | Some m \<Rightarrow> m)"
  have n: "n = (case node_id of None \<Rightarrow> least_loaded c (length (inflight c)) | Some m \<Rightarrow> m)"
    by (simp add: n_def least_loaded_node_def split: option.splits)
  define c1 where "c1 = c\<lparr>inflight := inflight c @ [(n, request, Pending)]\<rparr>"
  have reach: "\<not> unreachable c n" using Cons.prems x by (simp add: n)
  have rest: "list_all (\<lambda>(node_id, request). \<not> unreachable c1 node_id)
      (planned c1 (length (inflight c1)) requests)"
    using Cons.prems x by (simp add: c1_def)
  have up: "[length (inflight c)..<length (inflight c) + length (x # requests)] =
      length (inflight c) # [length (inflight c1)..<length (inflight c1) + length requests]"
    by (simp add: upt_rec c1_def)
  have fin: "c1\<lparr>inflight := inflight c1 @
           map (\<lambda>(node_id, request). (node_id, request, Pending))
             (planned c1 (length (inflight c1)) requests)\<rparr> =
        c\<lparr>inflight := inflight c @
           map (\<lambda>(node_id, request). (node_id, request, Pending))
             (planned c (length (inflight c)) (x # requests))\<rparr>"
    by (simp add: c1_def x n)
  have step: "submit_all (x # requests) c =
      (case submit_all requests c1 of
         (Inl e, c2) \<Rightarrow> (Inl e, c2)
       | (Inr futures, c2) \<Rightarrow> (Inr (length (inflight c) # futures), c2))"
    using reach
    by (simp add: x await_ready_def send_def n_def[symmetric] c1_def[symmetric] Let_def)
  show ?case unfolding step Cons.IH[OF rest] up fin by simp
qed


lemma wait_for_futures_frame [simp]:
  "sent (snd (wait_for_futures fs c)) = sent c"
  "for_code (snd (wait_for_futures fs c)) = for_code c"
  "controller_id (snd (wait_for_futures fs c)) = controller_id c"
  "length (inflight (snd (wait_for_futures fs c))) = length (inflight c)"
  by (simp_all add: wait_for_futures_eq)

lemma wait_for_futures_all_succeed:
  assumes "\<forall>f\<in>set fs. f < length (inflight c) \<and> (\<exists>r. expected c f = Succeeded r)"
  shows "fst (wait_for_futures fs c) = Inr () \<and>
         (\<forall>f\<in>set fs. future_state (snd (wait_for_futures fs c)) f = expected c f)"
proof (cases "list_all (succeeded c) fs")
  case True
  have "future_state c f = expected c f" if "f \<in> set fs" for f
  proof -
    from True that have "succeeded c f" by (simp add: list_all_iff)
    then have "future_state c f \<noteq> Pending" by (auto simp: succeeded_def split: future.splits)
    with assms that show ?thesis by (simp add: future_state_expected)
  qed
  with True show ?thesis by (simp add: wait_for_futures_eq)
next
  case False
  with wait_pass_all_succeed[OF assms] show ?thesis by (simp add: wait_for_futures_eq)
qed

lemma map_raise_map: "map_raise g (map h xs) = map_raise (\<lambda>x. g (h x)) xs"
  by (induction xs) (auto split: sum.splits)

lemma map_raise_cong: "(\<And>x. x \<in> set xs \<Longrightarrow> f x = g x) \<Longrightarrow> map_raise f xs = map_raise g xs"
  by (induction xs) (auto split: sum.splits)

lemma nth_planned_inflight:
  "i < length requests \<Longrightarrow>
   (xs @ map (\<lambda>(node_id, request). (node_id, request, Pending)) (planned c k requests)) ! (length xs + i) =
     (fst (planned c k requests ! i), snd (planned c k requests ! i), Pending)"
  by (simp add: nth_append case_prod_beta)

lemma send_requests_ok:
  assumes reach: "batch_reachable c requests"
    and replies: "replies_to c requests = map Inr rs"
  shows "fst (send_requests requests fn c) = map_raise fn rs"
    and "sent (snd (send_requests requests fn c)) = sent c @ planned c (length (inflight c)) requests"
proof -
  define k where "k = length (inflight c)"
  define ps where "ps = planned c k requests"
  define c1 where "c1 = c\<lparr>inflight := inflight c @ map (\<lambda>(node_id, request). (node_id, request, Pending)) ps\<rparr>"
  define fs where "fs = [k..<k + length requests]"
  have sub: "submit_all requests c = (Inr fs, c1)"
    using submit_all_ok[of c requests] reach
    by (simp add: batch_reachable_def k_def ps_def c1_def fs_def)
  have len: "length rs = length requests"
    using arg_cong[OF replies, of length] by (simp add: replies_to_def)
  have rep: "reply c (k + i) (fst (ps ! i)) (snd (ps ! i)) = Inr (rs ! i)" if "i < length requests" for i
  proof -
    have "replies_to c requests ! i = Inr (rs ! i)" using replies that len by simp
    then show ?thesis using that
      by (simp add: replies_to_def k_def ps_def nth_enumerate_eq case_prod_beta)
  qed
  have ex: "expected c1 (k + i) = Succeeded (rs ! i)" if "i < length requests" for i
  proof -
    have "inflight c1 ! (k + i) = (fst (ps ! i), snd (ps ! i), Pending)"
      using nth_planned_inflight[OF that, of "inflight c" c k] by (simp add: c1_def k_def ps_def)
    then show ?thesis using rep[OF that] by (simp add: expected_def c1_def outcome_def)
  qed
  have pre: "\<forall>f\<in>set fs. f < length (inflight c1) \<and> (\<exists>r. expected c1 f = Succeeded r)"
  proof
    fix f assume "f \<in> set fs"
    then obtain i where i: "f = k + i" "i < length requests"
      by (auto simp: fs_def intro: that[of "f - k"])
    then show "f < length (inflight c1) \<and> (\<exists>r. expected c1 f = Succeeded r)"
      using ex[of i] by (simp add: c1_def k_def ps_def)
  qed
  note w = wait_for_futures_all_succeed[OF pre]
  obtain c2 where wf: "wait_for_futures fs c1 = (Inr (), c2)"
    using w by (cases "wait_for_futures fs c1") auto
  have st2: "\<forall>f\<in>set fs. future_state c2 f = expected c1 f" using w wf by simp
  have sent2: "sent c2 = sent c1" using wait_for_futures_frame(1)[of fs c1] wf by simp
  have res: "send_requests requests fn c =
      (map_raise (\<lambda>future. case future_value c2 future of Inl e \<Rightarrow> Inl e | Inr r \<Rightarrow> fn r) fs, c2)"
    by (simp add: send_requests_def sub wf)
  have val: "(case future_value c2 f of Inl e \<Rightarrow> Inl e | Inr r \<Rightarrow> fn r) = fn (rs ! (f - k))"
    if "f \<in> set fs" for f
  proof -
    from that obtain i where i: "f = k + i" "i < length requests"
      by (auto simp: fs_def intro: that[of "f - k"])
    have "future_state c2 f = expected c1 f" using st2 that by simp
    then show ?thesis using ex[OF i(2)] i by (simp add: future_value_def)
  qed
  have "map_raise (\<lambda>future. case future_value c2 future of Inl e \<Rightarrow> Inl e | Inr r \<Rightarrow> fn r) fs =
        map_raise (\<lambda>f. fn (rs ! (f - k))) fs"
    by (rule map_raise_cong) (rule val)
  also have "\<dots> = map_raise fn (map (\<lambda>f. rs ! (f - k)) fs)" by (simp add: map_raise_map)
  also have "map (\<lambda>f. rs ! (f - k)) fs = rs"
    by (rule nth_equalityI) (simp_all add: fs_def len)
  finally show "fst (send_requests requests fn c) = map_raise fn rs" by (simp add: res)
  have "sent c1 = sent c @ ps" by (simp add: c1_def sent_def case_prod_beta comp_def)
  then show "sent (snd (send_requests requests fn c)) = sent c @ planned c (length (inflight c)) requests"
    by (simp add: res ps_def k_def sent2)
qed

text \<open>Lists built with a function that may raise, and dicts.\<close>

lemma map_raise_all_ok: "(\<And>x. x \<in> set xs \<Longrightarrow> f x = Inr (g x)) \<Longrightarrow> map_raise f xs = Inr (map g xs)"
  by (induction xs) auto

lemma map_raise_first_error:
  "f x = Inl e \<Longrightarrow> (\<And>y. y \<in> set pre \<Longrightarrow> \<exists>v. f y = Inr v) \<Longrightarrow> map_raise f (pre @ x # post) = Inl e"
proof (induction pre)
  case Nil
  then show ?case by simp
next
  case (Cons a pre)
  then obtain v where "f a = Inr v" by auto
  with Cons show ?case by simp
qed

lemma map_raise_Inl: "map_raise f xs = Inl e \<Longrightarrow> \<exists>x \<in> set xs. f x = Inl e"
  by (induction xs) (auto split: sum.splits)

lemma map_raise_Inr: "map_raise f xs = Inr ys \<Longrightarrow> list_all2 (\<lambda>x y. f x = Inr y) xs ys"
  by (induction xs arbitrary: ys) (auto split: sum.splits)

lemma map_of_dict_set: "map_of (dict_set d k v) = (map_of d)(k \<mapsto> v)"
  by (induction d) (auto simp: fun_eq_iff)

lemma keys_dict_set: "fst ` set (dict_set d k v) = insert k (fst ` set d)"
  using arg_cong[OF map_of_dict_set[of d k v], of dom]
  by (simp add: dom_map_of_conv_image_fst)

lemma distinct_dict_set: "distinct (map fst d) \<Longrightarrow> distinct (map fst (dict_set d k v))"
proof (induction d)
  case Nil
  then show ?case by simp
next
  case (Cons a d)
  then show ?case using keys_dict_set[of d k v] by (cases a) (auto simp: image_iff)
qed

lemma dict_fold:
  "map_of (foldl (\<lambda>d (k, v). dict_set d k v) d0 items) = map_of d0 ++ map_of (rev items) \<and>
   fst ` set (foldl (\<lambda>d (k, v). dict_set d k v) d0 items) = fst ` set d0 \<union> fst ` set items \<and>
   (distinct (map fst d0) \<longrightarrow> distinct (map fst (foldl (\<lambda>d (k, v). dict_set d k v) d0 items)))"
proof (induction items arbitrary: d0)
  case Nil
  then show ?case by simp
next
  case (Cons a items)
  obtain k v where a: "a = (k, v)" by (cases a)
  show ?case
    using Cons[of "dict_set d0 k v"]
    by (auto simp: a map_of_dict_set keys_dict_set distinct_dict_set map_add_def fun_eq_iff
          split: option.splits)
qed

lemma dict_of_facts:
  "map_of (dict_of items) = map_of (rev items)"
  "fst ` set (dict_of items) = fst ` set items"
  "distinct (map fst (dict_of items))"
  using dict_fold[of "[]" items] by (simp_all add: dict_of_def)

lemma map_of_rev_zip_last:
  "length ks = length vs \<Longrightarrow> i < length ks \<Longrightarrow> ks ! i \<notin> set (drop (Suc i) ks) \<Longrightarrow>
   map_of (rev (zip ks vs)) (ks ! i) = Some (vs ! i)"
proof (induction ks arbitrary: vs i)
  case Nil
  then show ?case by simp
next
  case (Cons k ks)
  then obtain v vs' where vs: "vs = v # vs'" by (cases vs) auto
  show ?case
  proof (cases i)
    case 0
    with Cons.prems vs have "k \<notin> set ks" by simp
    then have "map_of (rev (zip ks vs')) k = None"
      by (auto simp: map_of_eq_None_iff dest: set_zip_leftD)
    with 0 vs show ?thesis by (simp add: map_add_def)
  next
    case (Suc j)
    with Cons.prems vs have "map_of (rev (zip ks vs')) (ks ! j) = Some (vs' ! j)"
      by (intro Cons.IH) auto
    with Suc vs show ?thesis by (simp add: map_add_def)
  qed
qed

lemma planned_arrivals [simp]: "planned (c\<lparr>arrivals := a\<rparr>) k requests = planned c k requests"
  by (induction requests arbitrary: k) (auto split: option.splits)

lemma batch_arrivals [simp]:
  "batch_reachable (c\<lparr>arrivals := a\<rparr>) requests = batch_reachable c requests"
  "replies_to (c\<lparr>arrivals := a\<rparr>) requests = replies_to c requests"
  by (simp_all add: batch_reachable_def replies_to_def)

lemma map_raise_Inr_all: "map_raise f xs = Inr ys \<Longrightarrow> \<forall>x\<in>set xs. \<exists>y. f x = Inr y"
  by (induction xs arbitrary: ys) (auto split: sum.splits)



lemma dict_of_member: "(k, v) \<in> set (dict_of items) \<Longrightarrow> (k, v) \<in> set items"
proof -
  assume "(k, v) \<in> set (dict_of items)"
  then have "map_of (dict_of items) k = Some v" using dict_of_facts(3)[of items] by simp
  then have "map_of (rev items) k = Some v" by (simp add: dict_of_facts(1))
  then have "(k, v) \<in> set (rev items)" by (rule map_of_SomeD)
  then show ?thesis by simp
qed

lemma length_dict_of: "length (dict_of items) = card (fst ` set items)"
  using distinct_card[OF dict_of_facts(3), of items] dict_of_facts(2)[of items] by simp

section \<open>The retry of controller-bound requests\<close>

lemma parse_topic_decide:
  "parse_topic_request_response tuples tries self =
   decide self tries (verdict self (TopicErrorsResp tuples))"
  by (induction tuples)
     (auto simp: decide_def verdict_def entry_codes_def accepted_def Let_def split: prod.splits)

lemma parse_partition_results_scan:
  "parse_partition_results prs tries self =
     (case filter (\<lambda>code. for_code self code \<noteq> NoError \<and> for_code self code \<noteq> ElectionNotNeededError)
             (map snd prs) of
        [] \<Rightarrow> (Inr None, self)
      | code # rest \<Rightarrow>
          (case decide self tries (Some (for_code self code)) of
             (Inl e, c) \<Rightarrow> (Inl e, c)
           | (Inr b, c) \<Rightarrow> (Inr (Some b), c)))"
  by (induction prs)
     (auto simp: decide_def Let_def split: prod.splits sum.splits)

lemma parse_election_decide:
  "parse_election_results results tries self =
   decide self tries (verdict self (ElectLeadersResp results))"
proof (induction results)
  case Nil
  then show ?case by (simp add: decide_def verdict_def entry_codes_def)
next
  case (Cons r results)
  obtain topic prs where r: "r = (topic, prs)" by (cases r)
  let ?P = "\<lambda>code. for_code self code \<noteq> NoError \<and> for_code self code \<noteq> ElectionNotNeededError"
  have acc: "(\<lambda>code. \<not> accepted self (ElectLeadersResp rs) code) = ?P" for rs
    by (auto simp: accepted_def)
  show ?case
  proof (cases "filter ?P (map snd prs)")
    case Nil
    then show ?thesis using Cons.IH r
      by (simp add: parse_partition_results_scan verdict_def entry_codes_def acc)
  next
    case (Cons code rest)
    then show ?thesis using r
      by (simp add: parse_partition_results_scan verdict_def entry_codes_def acc decide_def
               split: prod.splits sum.splits)
  qed
qed

lemma controller_loop_step:
  "send_to_controller_loop (Suc tries) request self =
     (case send_request request (Some (controller_id self)) self of
        (Inl e, c1) \<Rightarrow> (Inl e, c1)
      | (Inr response, c1) \<Rightarrow>
          if controller_response response then
            (case decide c1 tries (verdict c1 response) of
               (Inl e, c2) \<Rightarrow> (Inl e, c2)
             | (Inr success, c2) \<Rightarrow>
                 if success then (Inr response, c2)
                 else send_to_controller_loop tries request c2)
          else (Inl AttributeError, c1))"
  by (auto simp: controller_response_def topic_error_tuples_def parse_topic_decide
        parse_election_decide parse_topic_partition_request_response_def
      split: prod.splits sum.splits response.splits)

lemma refresh_loop_frame:
  "for_code (snd (refresh_loop rounds mreq c)) = for_code c \<and>
   (r \<noteq> mreq \<longrightarrow> sends_of r (snd (refresh_loop rounds mreq c)) = sends_of r c)"
proof (induction rounds arbitrary: c)
  case 0
  then show ?case by simp
next
  case (Suc rounds)
  obtain x c1 where s: "send_request mreq None c = (x, c1)" by (cases "send_request mreq None c")
  have f1: "for_code c1 = for_code c" using send_request_frame(1)[of mreq None c] s by simp
  have n1: "r \<noteq> mreq \<Longrightarrow> sends_of r c1 = sends_of r c"
    using sends_of_send_request[of r mreq None c] s by simp
  have sc [simp]: "sends_of r (c1\<lparr>controller_id := k\<rparr>) = sends_of r c1" for k
    by (simp add: sends_of_def sent_def)
  show ?case using s f1 n1 Suc.IH[of c1]
    by (auto simp: Let_def split: sum.splits response.splits)
qed

lemma refresh_frame:
  "for_code (snd (refresh_controller_id c)) = for_code c"
  "controller_bound r \<Longrightarrow> sends_of r (snd (refresh_controller_id c)) = sends_of r c"
  using refresh_loop_frame[of "refresh_rounds c" "MetadataReq (api_version c Metadata 8) None None None" c r]
  by (auto simp: refresh_controller_id_def Let_def controller_bound_def split: request.splits)

lemma verdict_for_code: "for_code c' = for_code c \<Longrightarrow> verdict c' response = verdict c response"
  by (simp add: verdict_def accepted_def cong: response.case_cong list.case_cong)

declare send_to_controller_loop.simps(2) [simp del]

lemma decide_frame:
  "for_code (snd (decide c tries v)) = for_code c"
  "controller_bound r \<Longrightarrow> sends_of r (snd (decide c tries v)) = sends_of r c"
  using refresh_frame(1)[of c] refresh_frame(2)[of r c]
  by (auto simp: decide_def split: option.splits prod.splits sum.splits)

lemma sends_bound:
  "controller_bound request \<Longrightarrow>
   sends_of request (snd (send_to_controller_loop tries request c)) \<le> sends_of request c + tries"
proof (induction tries arbitrary: c)
  case 0
  then show ?case by simp
next
  case (Suc tries)
  obtain x c1 where s: "send_request request (Some (controller_id c)) c = (x, c1)"
    by (cases "send_request request (Some (controller_id c)) c")
  have n1: "sends_of request c1 \<le> sends_of request c + 1"
    using sends_of_send_request[of request request "Some (controller_id c)" c] s by simp
  show ?case
  proof (cases x)
    case (Inl e)
    with s n1 show ?thesis by (simp add: controller_loop_step)
  next
    case (Inr response)
    obtain y c2 where d: "decide c1 tries (verdict c1 response) = (y, c2)"
      by (cases "decide c1 tries (verdict c1 response)")
    have n2: "sends_of request c2 = sends_of request c1"
      using decide_frame(2)[OF Suc.prems, of c1 tries "verdict c1 response"] d by simp
    have "sends_of request (snd (send_to_controller_loop tries request c2)) \<le> sends_of request c2 + tries"
      using Suc.IH[OF Suc.prems] .
    with s Inr d n1 n2 show ?thesis
      by (auto simp: controller_loop_step split: sum.splits)
  qed
qed

lemma controller_loop_last:
  "send_to_controller_loop (Suc 0) request c =
     (case send_request request (Some (controller_id c)) c of
        (Inl e, c1) \<Rightarrow> (Inl e, c1)
      | (Inr response, c1) \<Rightarrow>
          if controller_response response then
            (case verdict c response of
               None \<Rightarrow> (Inr response, c1)
             | Some e \<Rightarrow> (Inl (BrokerError e), c1))
          else (Inl AttributeError, c1))"
proof -
  obtain x c1 where s: "send_request request (Some (controller_id c)) c = (x, c1)"
    by (cases "send_request request (Some (controller_id c)) c")
  have "for_code c1 = for_code c" using send_request_frame(1)[of request "Some (controller_id c)" c] s by simp
  then have v: "verdict c1 r = verdict c r" for r by (rule verdict_for_code)
  show ?thesis using s v
    by (auto simp: controller_loop_step decide_def split: sum.splits option.splits)
qed

lemma controller_loop_state:
  "snd (send_to_controller_loop (Suc 0) request c) =
   snd (send_request request (Some (controller_id c)) c)"
  by (simp add: controller_loop_last split: prod.splits sum.splits option.splits)

text \<open>
  Claim C1, as amended. A controller-bound request (\<open>controller_bound\<close>: the requests built
  by \<^verbatim>\<open>create_topics\<close>, \<^verbatim>\<open>delete_topics\<close>, \<^verbatim>\<open>create_partitions\<close> and
  \<^verbatim>\<open>perform_leader_election\<close>) is sent at most twice by \<^verbatim>\<open>_send_request_to_controller\<close>.
  When the first send is answered by a response of the request's kind, the first entry of
  the response whose code is neither \<^verbatim>\<open>NoError\<close> nor, in a leader-election response,
  \<^verbatim>\<open>ElectionNotNeededError\<close> decides (\<open>verdict\<close>):
  \<^item> no such entry: the response is returned after one send;
  \<^item> another class than \<^verbatim>\<open>NotControllerError\<close>: its typed error is raised after one send;
  \<^item> \<^verbatim>\<open>NotControllerError\<close>: the controller id is refreshed.
    \<^item> If the refresh raises, that error reaches the caller and nothing is resent.
    \<^item> If the refresh succeeds but the connection to the refreshed controller cannot be made
      ready, the connection error reaches the caller and nothing is resent.
    \<^item> Otherwise the request is sent exactly once more, to the refreshed controller, and this
      second send is final: if the request fails, its error is raised; a response of the
      request's kind is returned when it has no deciding entry, and the typed error of its
      deciding entry (\<^verbatim>\<open>NotControllerError\<close> included) is raised otherwise.
\<close>

theorem send_request_to_controller_one_retry:
  assumes bound: "controller_bound request"
  shows
    "sends_of request (snd (send_request_to_controller request self)) \<le> sends_of request self + 2 \<and>
     (\<forall>response c1.
        send_request request (Some (controller_id self)) self = (Inr response, c1) \<and>
        controller_response response \<longrightarrow>
          sends_of request c1 = sends_of request self + 1 \<and>
          (verdict self response = None \<longrightarrow>
             send_request_to_controller request self = (Inr response, c1)) \<and>
          (\<forall>e. verdict self response = Some e \<and> e \<noteq> NotControllerError \<longrightarrow>
             send_request_to_controller request self = (Inl (BrokerError e), c1)) \<and>
          (verdict self response = Some NotControllerError \<longrightarrow>
             (\<forall>e c2. refresh_controller_id c1 = (Inl e, c2) \<longrightarrow>
                send_request_to_controller request self = (Inl e, c2) \<and>
                sends_of request c2 = sends_of request self + 1) \<and>
             (\<forall>c2. refresh_controller_id c1 = (Inr (), c2) \<longrightarrow>
                (unreachable c2 (controller_id c2) \<longrightarrow>
                   send_request_to_controller request self =
                     (Inl (KafkaConnectionError (controller_id c2)), c2) \<and>
                   sends_of request c2 = sends_of request self + 1) \<and>
                (\<not> unreachable c2 (controller_id c2) \<longrightarrow>
                   sent (snd (send_request_to_controller request self)) =
                     sent c2 @ [(controller_id c2, request)] \<and>
                   sends_of request (snd (send_request_to_controller request self)) =
                     sends_of request self + 2 \<and>
                   (\<forall>e c3. send_request request (Some (controller_id c2)) c2 = (Inl e, c3) \<longrightarrow>
                      send_request_to_controller request self = (Inl e, c3)))) \<and>
             (\<forall>c2 response2 c3.
                refresh_controller_id c1 = (Inr (), c2) \<and>
                send_request request (Some (controller_id c2)) c2 = (Inr response2, c3) \<and>
                controller_response response2 \<longrightarrow>
                  sends_of request c3 = sends_of request self + 2 \<and>
                  (verdict self response2 = None \<longrightarrow>
                     send_request_to_controller request self = (Inr response2, c3)) \<and>
                  (\<forall>e. verdict self response2 = Some e \<longrightarrow>
                     send_request_to_controller request self = (Inl (BrokerError e), c3)))))"
proof (intro conjI allI impI; (elim conjE)?)
  show "sends_of request (snd (send_request_to_controller request self)) \<le> sends_of request self + 2"
    using sends_bound[OF bound, of 2 self] by (simp add: send_request_to_controller_def)
next
  fix response c1
  assume s: "send_request request (Some (controller_id self)) self = (Inr response, c1)"
    and cr: "controller_response response"
  have f1: "for_code c1 = for_code self"
    using send_request_frame(1)[of request "Some (controller_id self)" self] s by simp
  have v1: "verdict c1 r = verdict self r" for r using f1 by (rule verdict_for_code)
  have two: "send_request_to_controller request self = send_to_controller_loop (Suc (Suc 0)) request self"
    by (simp add: send_request_to_controller_def numeral_2_eq_2)
  show n1: "sends_of request c1 = sends_of request self + 1"
    using sends_of_send_request[of request request "Some (controller_id self)" self] s
      send_request_Inr_reachable[OF s] by simp
  {
    assume "verdict self response = None"
    then show "send_request_to_controller request self = (Inr response, c1)"
      unfolding two by (subst controller_loop_step) (simp add: s cr v1 decide_def)
  }
  {
    fix e assume "verdict self response = Some e" "e \<noteq> NotControllerError"
    then show "send_request_to_controller request self = (Inl (BrokerError e), c1)"
      unfolding two by (subst controller_loop_step) (simp add: s cr v1 decide_def)
  }
  {
    fix e c2
    assume nc: "verdict self response = Some NotControllerError"
      and r: "refresh_controller_id c1 = (Inl e, c2)"
    show "send_request_to_controller request self = (Inl e, c2)"
      unfolding two by (subst controller_loop_step) (simp add: s cr v1 decide_def nc r)
    show "sends_of request c2 = sends_of request self + 1"
      using refresh_frame(2)[OF bound, of c1] r n1 by simp
  }
  {
    fix c2
    assume nc: "verdict self response = Some NotControllerError"
      and r: "refresh_controller_id c1 = (Inr (), c2)"
    have step: "send_request_to_controller request self = send_to_controller_loop (Suc 0) request c2"
      unfolding two by (subst controller_loop_step) (simp add: s cr v1 decide_def nc r)
    have n2: "sends_of request c2 = sends_of request self + 1"
      using refresh_frame(2)[OF bound, of c1] r n1 by simp
    {
      assume down: "unreachable c2 (controller_id c2)"
      then have "send_request request (Some (controller_id c2)) c2 =
          (Inl (KafkaConnectionError (controller_id c2)), c2)"
        by (simp add: send_request_eq Let_def)
      then show "send_request_to_controller request self =
          (Inl (KafkaConnectionError (controller_id c2)), c2)"
        unfolding step by (simp add: controller_loop_last)
      show "sends_of request c2 = sends_of request self + 1" by (rule n2)
    }
    {
      assume up: "\<not> unreachable c2 (controller_id c2)"
      have st: "snd (send_request_to_controller request self) =
          snd (send_request request (Some (controller_id c2)) c2)"
        unfolding step by (rule controller_loop_state)
      show "sent (snd (send_request_to_controller request self)) =
          sent c2 @ [(controller_id c2, request)]"
        unfolding st using up by (simp add: send_request_eq Let_def)
      show "sends_of request (snd (send_request_to_controller request self)) =
          sends_of request self + 2"
        unfolding st using up n2
        by (simp add: sends_of_send_request)
      {
        fix e c3
        assume "send_request request (Some (controller_id c2)) c2 = (Inl e, c3)"
        then show "send_request_to_controller request self = (Inl e, c3)"
          unfolding step by (simp add: controller_loop_last)
      }
    }
  }
  {
    fix c2 response2 c3
    assume nc: "verdict self response = Some NotControllerError"
      and r: "refresh_controller_id c1 = (Inr (), c2)"
      and s2: "send_request request (Some (controller_id c2)) c2 = (Inr response2, c3)"
      and cr2: "controller_response response2"
    have f2: "for_code c2 = for_code self"
      using refresh_frame(1)[of c1] r f1 by simp
    have v2: "verdict c2 r = verdict self r" for r using f2 by (rule verdict_for_code)
    have step: "send_request_to_controller request self = send_to_controller_loop (Suc 0) request c2"
      unfolding two by (subst controller_loop_step) (simp add: s cr v1 decide_def nc r)
    have n2: "sends_of request c2 = sends_of request c1"
      using refresh_frame(2)[OF bound, of c1] r by simp
    show "sends_of request c3 = sends_of request self + 2"
      using sends_of_send_request[of request request "Some (controller_id c2)" c2] s2
        send_request_Inr_reachable[OF s2] n1 n2 by simp
    {
      assume "verdict self response2 = None"
      then show "send_request_to_controller request self = (Inr response2, c3)"
        unfolding step by (simp add: controller_loop_last s2 cr2 v2)
    }
    {
      fix e assume "verdict self response2 = Some e"
      then show "send_request_to_controller request self = (Inl (BrokerError e), c3)"
        unfolding step by (simp add: controller_loop_last s2 cr2 v2)
    }
  }
qed


lemma controller_calls_bound:
  "controller_bound (CreateTopicsReq v ts t vo)" "controller_bound (DeleteTopicsReq v names t)"
  "controller_bound (CreatePartitionsReq v ps t validate_only)"
  "controller_bound (ElectLeadersReq v election tps t)"
  by (simp_all add: controller_bound_def)

text \<open>
  The claim as stated fails where the refresh does not succeed, where another error
  precedes \<^verbatim>\<open>NotControllerError\<close>, and where the refreshed controller cannot be reached. In
  the three stub clusters the first response contains \<^verbatim>\<open>NotControllerError\<close> (code 41) and
  the request is sent once, not twice: with no controller elected the refresh raises
  \<^verbatim>\<open>NodeNotReadyError\<close>; with code 36 listed first its typed error is raised at once; with
  the controller moved to node 7 and no connection to node 7, the refresh succeeds and
  \<^verbatim>\<open>await_ready\<close> raises before anything is resent.
\<close>

theorem send_request_to_controller_no_resend:
  "fst (send_request create_t (Some (controller_id (stub_client no_controller [])))
          (stub_client no_controller [])) = Inr (TopicErrorsResp [(''t'', 41)]) \<and>
   for_code (stub_client no_controller []) 41 = NotControllerError \<and>
   fst (send_request_to_controller create_t (stub_client no_controller [])) =
     Inl (NodeNotReadyError ''controller'') \<and>
   sends_of create_t (snd (send_request_to_controller create_t (stub_client no_controller []))) = 1 \<and>
   fst (send_request create_t (Some (controller_id (stub_client mixed_errors [])))
          (stub_client mixed_errors [])) = Inr (TopicErrorsResp [(''a'', 36), (''t'', 41)]) \<and>
   fst (send_request_to_controller create_t (stub_client mixed_errors [])) =
     Inl (BrokerError (OtherError 36)) \<and>
   sends_of create_t (snd (send_request_to_controller create_t (stub_client mixed_errors []))) = 1 \<and>
   fst (send_request create_t
          (Some (controller_id (controller_down (stub_client moved_controller []))))
          (controller_down (stub_client moved_controller []))) =
     Inr (TopicErrorsResp [(''t'', 41)]) \<and>
   fst (send_request_to_controller create_t (controller_down (stub_client moved_controller []))) =
     Inl (KafkaConnectionError 7) \<and>
   controller_id
     (snd (send_request_to_controller create_t (controller_down (stub_client moved_controller [])))) = 7 \<and>
   sends_of create_t
     (snd (send_request_to_controller create_t (controller_down (stub_client moved_controller [])))) = 1"
  by code_simp

text \<open>
  The theorem at work: the controller has moved from node 1 to node 7. The first send
  is answered \<^verbatim>\<open>NotControllerError\<close>, the refresh finds node 7, the second send goes to node 7
  and succeeds, and its response is returned after two sends. Where every node answers
  \<^verbatim>\<open>NotControllerError\<close>, the second one is raised. Where node 7 cannot be reached, the
  connection error is raised after one send.
\<close>

theorem send_request_to_controller_one_retry_witness:
  "send_request_to_controller create_t (stub_client moved_controller []) =
     (Inr (TopicErrorsResp [(''t'', 0)]),
      snd (send_request_to_controller create_t (stub_client moved_controller []))) \<and>
   sends_of create_t (snd (send_request_to_controller create_t (stub_client moved_controller []))) = 2 \<and>
   controller_id (snd (send_request_to_controller create_t (stub_client moved_controller []))) = 7 \<and>
   fst (send_request_to_controller create_t (stub_client stale_metadata [])) =
     Inl (BrokerError NotControllerError) \<and>
   sends_of create_t (snd (send_request_to_controller create_t (stub_client stale_metadata []))) = 2 \<and>
   sent (snd (send_request_to_controller create_t (stub_client moved_controller []))) =
     [(1, create_t), (2, MetadataReq 8 None None None), (7, create_t)] \<and>
   fst (send_request_to_controller create_t (controller_down (stub_client moved_controller []))) =
     Inl (KafkaConnectionError 7) \<and>
   sends_of create_t
     (snd (send_request_to_controller create_t (controller_down (stub_client moved_controller [])))) = 1"
proof -
  let ?x = "controller_down (stub_client moved_controller [])"
  let ?x1 = "snd (send_request create_t (Some (controller_id ?x)) ?x)"
  let ?x2 = "snd (refresh_controller_id ?x1)"
  let ?w = "stub_client moved_controller []"
  let ?c1 = "snd (send_request create_t (Some (controller_id ?w)) ?w)"
  let ?c2 = "snd (refresh_controller_id ?c1)"
  let ?c3 = "snd (send_request create_t (Some (controller_id ?c2)) ?c2)"
  let ?v = "stub_client stale_metadata []"
  let ?d1 = "snd (send_request create_t (Some (controller_id ?v)) ?v)"
  let ?d2 = "snd (refresh_controller_id ?d1)"
  let ?d3 = "snd (send_request create_t (Some (controller_id ?d2)) ?d2)"
  have b: "controller_bound create_t" by (simp add: create_t_def controller_bound_def)
  have cr: "controller_response (TopicErrorsResp xs)" for xs
    by (simp add: controller_response_def)
  have s1: "send_request create_t (Some (controller_id ?w)) ?w =
      (Inr (TopicErrorsResp [(''t'', 41)]), ?c1)"
    by (rule pair_of_fst) code_simp
  have r1: "refresh_controller_id ?c1 = (Inr (), ?c2)"
    by (rule pair_of_fst) code_simp
  have s2: "send_request create_t (Some (controller_id ?c2)) ?c2 =
      (Inr (TopicErrorsResp [(''t'', 0)]), ?c3)"
    by (rule pair_of_fst) code_simp
  have v1: "verdict ?w (TopicErrorsResp [(''t'', 41)]) = Some NotControllerError" by code_simp
  have v2: "verdict ?w (TopicErrorsResp [(''t'', 0)]) = None" by code_simp
  note first = send_request_to_controller_one_retry[OF b, of ?w, THEN conjunct2, rule_format,
      OF conjI[OF s1 cr]]
  note retry = first[THEN conjunct2, THEN conjunct2, THEN conjunct2, rule_format, OF v1,
      THEN conjunct2, THEN conjunct2, rule_format, OF conjI[OF r1 conjI[OF s2 cr]]]
  have up: "\<not> unreachable ?c2 (controller_id ?c2)" by code_simp
  note resent = first[THEN conjunct2, THEN conjunct2, THEN conjunct2, rule_format, OF v1,
      THEN conjunct2, THEN conjunct1, rule_format, OF r1, THEN conjunct2, rule_format, OF up,
      THEN conjunct1]
  have log2: "sent ?c2 @ [(controller_id ?c2, create_t)] =
      [(1, create_t), (2, MetadataReq 8 None None None), (7, create_t)]" by code_simp
  have y1: "send_request create_t (Some (controller_id ?x)) ?x =
      (Inr (TopicErrorsResp [(''t'', 41)]), ?x1)"
    by (rule pair_of_fst) code_simp
  have y2: "refresh_controller_id ?x1 = (Inr (), ?x2)"
    by (rule pair_of_fst) code_simp
  have w1: "verdict ?x (TopicErrorsResp [(''t'', 41)]) = Some NotControllerError" by code_simp
  have down: "unreachable ?x2 (controller_id ?x2)" by code_simp
  note first'' = send_request_to_controller_one_retry[OF b, of ?x, THEN conjunct2, rule_format,
      OF conjI[OF y1 cr]]
  note lost = first''[THEN conjunct2, THEN conjunct2, THEN conjunct2, rule_format, OF w1,
      THEN conjunct2, THEN conjunct1, rule_format, OF y2, THEN conjunct1, rule_format, OF down]
  have k7: "controller_id ?x2 = 7" by code_simp
  have zx: "sends_of create_t ?x = 0" by code_simp
  from lost have ax: "send_request_to_controller create_t ?x = (Inl (KafkaConnectionError 7), ?x2)"
    unfolding k7 by blast
  from lost have nx: "sends_of create_t ?x2 = sends_of create_t ?x + 1" by blast
  have a: "send_request_to_controller create_t ?w = (Inr (TopicErrorsResp [(''t'', 0)]), ?c3)"
    using retry v2 by blast
  have n: "sends_of create_t ?c3 = sends_of create_t ?w + 2" using retry by blast
  have z: "sends_of create_t ?w = 0" by code_simp
  have k: "controller_id ?c3 = 7" by code_simp
  have t1: "send_request create_t (Some (controller_id ?v)) ?v =
      (Inr (TopicErrorsResp [(''t'', 41)]), ?d1)"
    by (rule pair_of_fst) code_simp
  have t2: "refresh_controller_id ?d1 = (Inr (), ?d2)"
    by (rule pair_of_fst) code_simp
  have t3: "send_request create_t (Some (controller_id ?d2)) ?d2 =
      (Inr (TopicErrorsResp [(''t'', 41)]), ?d3)"
    by (rule pair_of_fst) code_simp
  have u1: "verdict ?v (TopicErrorsResp [(''t'', 41)]) = Some NotControllerError" by code_simp
  note first' = send_request_to_controller_one_retry[OF b, of ?v, THEN conjunct2, rule_format,
      OF conjI[OF t1 cr]]
  note retry' = first'[THEN conjunct2, THEN conjunct2, THEN conjunct2, rule_format, OF u1,
      THEN conjunct2, THEN conjunct2, rule_format, OF conjI[OF t2 conjI[OF t3 cr]]]
  have a': "send_request_to_controller create_t ?v = (Inl (BrokerError NotControllerError), ?d3)"
    using retry' u1 by blast
  have n': "sends_of create_t ?d3 = sends_of create_t ?v + 2" using retry' by blast
  have z': "sends_of create_t ?v = 0" by code_simp
  from a have e: "snd (send_request_to_controller create_t ?w) = ?c3" by simp
  from a' have e': "snd (send_request_to_controller create_t ?v) = ?d3" by simp
  from ax have ex: "snd (send_request_to_controller create_t ?x) = ?x2" by simp
  have lg: "sent (snd (send_request_to_controller create_t ?w)) =
      [(1, create_t), (2, MetadataReq 8 None None None), (7, create_t)]"
    using resent unfolding log2 .
  have five: "send_request_to_controller create_t ?w =
      (Inr (TopicErrorsResp [(''t'', 0)]), snd (send_request_to_controller create_t ?w)) \<and>
    sends_of create_t (snd (send_request_to_controller create_t ?w)) = 2 \<and>
    controller_id (snd (send_request_to_controller create_t ?w)) = 7 \<and>
    fst (send_request_to_controller create_t ?v) = Inl (BrokerError NotControllerError) \<and>
    sends_of create_t (snd (send_request_to_controller create_t ?v)) = 2"
    using a a' n n' z z' k unfolding e e' by simp
  have last: "fst (send_request_to_controller create_t ?x) = Inl (KafkaConnectionError 7) \<and>
    sends_of create_t (snd (send_request_to_controller create_t ?x)) = 1"
    using ax nx zx unfolding ex by simp
  from five lg last show ?thesis by (simp only: simp_thms)
qed

section \<open>The effective timeout\<close>

text \<open>
  Claim C10. \<^verbatim>\<open>_validate_timeout\<close> returns the given \<^verbatim>\<open>timeout_ms\<close> whenever it is truthy and
  the configured \<^verbatim>\<open>request_timeout_ms\<close> otherwise; a given timeout of 0 is replaced by the
  configured default, so the result is never 0 when \<^verbatim>\<open>request_timeout_ms\<close> is not 0.
\<close>

theorem validate_timeout_default:
  "(truthy timeout_ms \<longrightarrow> validate_timeout self timeout_ms = the timeout_ms) \<and>
   (\<not> truthy timeout_ms \<longrightarrow> validate_timeout self timeout_ms = request_timeout_ms self) \<and>
   validate_timeout self (Some 0) = request_timeout_ms self \<and>
   (request_timeout_ms self \<noteq> 0 \<longrightarrow> validate_timeout self timeout_ms \<noteq> 0)"
  by (cases timeout_ms) (simp_all add: validate_timeout_def)

theorem validate_timeout_default_witness:
  "validate_timeout (stub_client moved_controller []) (Some 5) = 5 \<and>
   validate_timeout (stub_client moved_controller []) None = 30000 \<and>
   validate_timeout (stub_client moved_controller []) (Some 0) = 30000 \<and>
   validate_timeout (stub_client moved_controller []) (Some 0) \<noteq> 0"
  using validate_timeout_default[of "Some 5" "stub_client moved_controller []"]
    validate_timeout_default[of None "stub_client moved_controller []"]
    validate_timeout_default[of "Some 0" "stub_client moved_controller []"]
  by (simp add: stub_client_def)

text \<open>The controller-bound calls put the validated timeout into the request they
  build.\<close>

lemma api_version_le: "api_version self operation max_version \<le> max_version"
  by (simp add: api_version_def)

lemma create_topics_timeout:
  "api_version self CreateTopics 3 \<noteq> 0 \<Longrightarrow>
     create_topics new_topics timeout_ms validate_only self =
       send_request_to_controller
         (CreateTopicsReq (api_version self CreateTopics 3) (map convert_new_topic_request new_topics)
            (validate_timeout self timeout_ms) (Some validate_only)) self"
  using api_version_le[of self CreateTopics 3] by (simp add: create_topics_def Let_def)

lemma delete_topics_timeout:
  "delete_topics names timeout_ms self =
     send_request_to_controller
       (DeleteTopicsReq (api_version self DeleteTopics 3) names (validate_timeout self timeout_ms)) self"
  by (simp add: delete_topics_def Let_def)

lemma create_partitions_timeout:
  "create_partitions topic_partitions timeout_ms validate_only self =
     send_request_to_controller
       (CreatePartitionsReq (api_version self CreatePartitions 1)
          (map (\<lambda>(topic_name, new_partitions).
                  convert_create_partitions_request topic_name new_partitions) topic_partitions)
          (validate_timeout self timeout_ms) validate_only) self"
  by (simp add: create_partitions_def Let_def)

lemma perform_leader_election_timeout:
  "election_type_of election_type = Inr election \<Longrightarrow>
   perform_leader_election election_type topic_partitions timeout_ms self =
     send_request_to_controller
       (ElectLeadersReq (api_version self ElectLeaders 1) election
          (get_topic_partitions self topic_partitions) (validate_timeout self timeout_ms)) self"
  by (simp add: perform_leader_election_def Let_def)

section \<open>Offsets of a consumer group without partitions\<close>

lemma list_consumer_group_offsets_request_gate:
  "api_version self OffsetFetch 5 \<le> 1 \<Longrightarrow>
   \<exists>text. list_consumer_group_offsets_request self group_id None =
     Inl (ValueError text [api_version self OffsetFetch 5])"
  by (simp add: list_consumer_group_offsets_request_def Let_def)

text \<open>
  Claim C6 says that with \<^verbatim>\<open>partitions=None\<close> and a negotiated OffsetFetch version below 2
  the call fails with \<^verbatim>\<open>IncompatibleBrokerVersion\<close>, naming the feature and the broker
  version, before any request is sent. The code raises \<^verbatim>\<open>ValueError\<close> instead, naming the
  request version; and \<^verbatim>\<open>list_consumer_group_offsets\<close> called without a coordinator has
  sent a FindCoordinator request by then. Evaluated against a broker whose OffsetFetch
  stops at version 1:
\<close>

theorem list_consumer_group_offsets_raises_value_error:
  "list_consumer_group_offsets_request (old_offset_fetch (stub_client coordinator_is_1 [])) ''g'' None =
     Inl (ValueError
       ''OffsetFetchRequest_v{} requires specifying the partitions for which to fetch offsets. Omitting the partitions is only supported on brokers >= 0.10.2. For details, see KIP-88.''
       [1]) \<and>
   fst (list_consumer_group_offsets ''g'' None None (old_offset_fetch (stub_client coordinator_is_1 []))) =
     Inl (ValueError
       ''OffsetFetchRequest_v{} requires specifying the partitions for which to fetch offsets. Omitting the partitions is only supported on brokers >= 0.10.2. For details, see KIP-88.''
       [1]) \<and>
   sent (snd (list_consumer_group_offsets ''g'' None None
                (old_offset_fetch (stub_client coordinator_is_1 [])))) =
     [(2, FindCoordinatorReq 2 ''g'' (Some 0))]"
  by code_simp

section \<open>Registries and versions\<close>

text \<open>
  Claim C7 says that every registry list is indexed by API version and that a Response
  registry holds Response classes only, in particular that
  \<^verbatim>\<open>ListGroupsRequest[2].API_VERSION = 2\<close> and that \<^verbatim>\<open>AlterConfigsResponse[1]\<close> is
  \<^verbatim>\<open>AlterConfigsResponse_v1\<close>. The source has \<^verbatim>\<open>API_VERSION = 1\<close> in
  \<^verbatim>\<open>ListGroupsRequest_v2\<close>, the request class \<^verbatim>\<open>AlterConfigsRequest_v1\<close> as the last element
  of \<^verbatim>\<open>AlterConfigsResponse\<close>, and \<^verbatim>\<open>API_VERSION = 1\<close> in both \<^verbatim>\<open>ElectLeadersRequest_v0\<close> and
  \<^verbatim>\<open>ElectLeadersResponse_v0\<close>. These four are the registries that break the claim; all the
  others satisfy it.
\<close>

theorem registries_not_indexed_by_version:
  "API_VERSION (ListGroupsRequest ! 2) = 1 \<and>
   AlterConfigsResponse ! 1 = AlterConfigsRequest_v1 \<and>
   cls_base (AlterConfigsResponse ! 1) = Request \<and>
   API_VERSION (ElectLeadersRequest ! 0) = 1 \<and>
   API_VERSION (ElectLeadersResponse ! 0) = 1 \<and>
   map fst (filter (\<lambda>entry. \<not> well_formed entry) registries) =
     [''ListGroupsRequest'', ''AlterConfigsResponse'', ''ElectLeadersRequest'',
      ''ElectLeadersResponse'']"
  by code_simp

section \<open>Coordinator lookup keeps the input order\<close>

lemma find_coordinator_arrivals [simp]:
  "find_coordinator_id_request (c\<lparr>arrivals := a\<rparr>) = find_coordinator_id_request c"
  "find_coordinator_id_process_response (c\<lparr>arrivals := a\<rparr>) = find_coordinator_id_process_response c"
  by (simp_all add: fun_eq_iff find_coordinator_id_request_def
        find_coordinator_id_process_response_def api_version_def split: response.splits)

lemma find_coordinator_ids_fst:
  "fst (find_coordinator_ids group_ids self) =
     (case fst (send_requests (coordinator_requests self group_ids)
                  (find_coordinator_id_process_response self) self) of
        Inl e \<Rightarrow> Inl e
      | Inr coordinator_ids \<Rightarrow> Inr (dict_of (zip group_ids coordinator_ids)))"
  by (simp add: find_coordinator_ids_def coordinator_requests_def Let_def
        split: prod.splits sum.splits)

text \<open>
  Claim C2. \<^verbatim>\<open>_find_coordinator_ids\<close> sends one FindCoordinator request for every group id.
  When the targets are ready and every request is answered, then for every order in which
  the responses arrive:
  \<^item> if every response has \<^verbatim>\<open>NoError\<close>, the result is a dict whose keys are the group ids
    and which maps every group id to the \<^verbatim>\<open>coordinator_id\<close> of the response to the request
    for that group id (for a group id given more than once, of its last request);
  \<^item> otherwise the call raises the typed error of a response whose code is not \<^verbatim>\<open>NoError\<close>
    (the first one in input order) and returns nothing.
\<close>

theorem find_coordinator_ids_input_order:
  assumes reach: "batch_reachable self (coordinator_requests self group_ids)"
    and replies: "replies_to self (coordinator_requests self group_ids) =
        map (\<lambda>(code, node_id). Inr (FindCoordinatorResp code node_id)) answers"
  shows
    "(list_all (\<lambda>(code, node_id). for_code self code = NoError) answers \<longrightarrow>
        (\<forall>order. \<exists>found.
           fst (find_coordinator_ids group_ids (self\<lparr>arrivals := order\<rparr>)) = Inr found \<and>
           distinct (map fst found) \<and> fst ` set found = set group_ids \<and>
           (\<forall>i<length group_ids. group_ids ! i \<notin> set (drop (Suc i) group_ids) \<longrightarrow>
              map_of found (group_ids ! i) = Some (snd (answers ! i))))) \<and>
     (\<not> list_all (\<lambda>(code, node_id). for_code self code = NoError) answers \<longrightarrow>
        (\<forall>order. \<exists>code node_id.
           (code, node_id) \<in> set answers \<and> for_code self code \<noteq> NoError \<and>
           fst (find_coordinator_ids group_ids (self\<lparr>arrivals := order\<rparr>)) =
             Inl (BrokerError (for_code self code))))"
proof -
  let ?rs = "map (\<lambda>(code, node_id). FindCoordinatorResp code node_id) answers"
  let ?fn = "find_coordinator_id_process_response self"
  have len: "length answers = length group_ids"
    using arg_cong[OF replies, of length] by (simp add: replies_to_def coordinator_requests_def)
  have sr: "fst (send_requests (coordinator_requests (self\<lparr>arrivals := order\<rparr>) group_ids)
                  (find_coordinator_id_process_response (self\<lparr>arrivals := order\<rparr>))
                  (self\<lparr>arrivals := order\<rparr>)) = map_raise ?fn ?rs" for order
  proof -
    have cr: "coordinator_requests (self\<lparr>arrivals := order\<rparr>) group_ids = coordinator_requests self group_ids"
      by (simp add: coordinator_requests_def)
    have r: "replies_to (self\<lparr>arrivals := order\<rparr>) (coordinator_requests self group_ids) = map Inr ?rs"
      using replies by (simp add: comp_def case_prod_beta)
    have b: "batch_reachable (self\<lparr>arrivals := order\<rparr>) (coordinator_requests self group_ids)"
      using reach by simp
    show ?thesis unfolding cr using send_requests_ok(1)[OF b r, of ?fn] by simp
  qed
  show ?thesis
  proof (intro conjI impI allI)
    fix order
    assume ok: "list_all (\<lambda>(code, node_id). for_code self code = NoError) answers"
    have "map_raise ?fn ?rs = Inr (map (\<lambda>r. case r of FindCoordinatorResp code node_id \<Rightarrow> node_id | _ \<Rightarrow> 0) ?rs)"
      using ok by (intro map_raise_all_ok)
        (auto simp: find_coordinator_id_process_response_def list_all_iff)
    then have m: "map_raise ?fn ?rs = Inr (map snd answers)"
      by (simp add: comp_def case_prod_beta)
    let ?found = "dict_of (zip group_ids (map snd answers))"
    have f: "fst (find_coordinator_ids group_ids (self\<lparr>arrivals := order\<rparr>)) = Inr ?found"
      using sr[of order] m by (simp add: find_coordinator_ids_fst)
    have keys: "fst ` set ?found = set group_ids"
      using len by (simp add: dict_of_facts(2) map_fst_zip[symmetric] del: map_fst_zip)
        (metis len length_map list.set_map map_fst_zip)
    have at: "map_of ?found (group_ids ! i) = Some (snd (answers ! i))"
      if "i < length group_ids" "group_ids ! i \<notin> set (drop (Suc i) group_ids)" for i
      using map_of_rev_zip_last[of group_ids "map snd answers" i] that len
      by (simp add: dict_of_facts(1))
    show "\<exists>found. fst (find_coordinator_ids group_ids (self\<lparr>arrivals := order\<rparr>)) = Inr found \<and>
           distinct (map fst found) \<and> fst ` set found = set group_ids \<and>
           (\<forall>i<length group_ids. group_ids ! i \<notin> set (drop (Suc i) group_ids) \<longrightarrow>
              map_of found (group_ids ! i) = Some (snd (answers ! i)))"
      using f keys at dict_of_facts(3)[of "zip group_ids (map snd answers)"] by blast
  next
    fix order
    assume bad: "\<not> list_all (\<lambda>(code, node_id). for_code self code = NoError) answers"
    have fn: "?fn (FindCoordinatorResp code node_id) =
        (if for_code self code \<noteq> NoError then Inl (BrokerError (for_code self code)) else Inr node_id)"
      for code node_id
      by (simp add: find_coordinator_id_process_response_def)
    have "\<exists>e. map_raise ?fn ?rs = Inl e"
    proof (cases "map_raise ?fn ?rs")
      case (Inl e)
      then show ?thesis by simp
    next
      case (Inr ys)
      from map_raise_Inr_all[OF this] have "\<forall>r\<in>set ?rs. \<exists>y. ?fn r = Inr y" .
      then have "list_all (\<lambda>(code, node_id). for_code self code = NoError) answers"
        by (auto simp: list_all_iff fn split: if_splits)
      with bad show ?thesis by simp
    qed
    then obtain e where e: "map_raise ?fn ?rs = Inl e" ..
    from map_raise_Inl[OF e] obtain code node_id where
      a: "(code, node_id) \<in> set answers" and fe: "?fn (FindCoordinatorResp code node_id) = Inl e"
      by auto
    from fe have "for_code self code \<noteq> NoError" "e = BrokerError (for_code self code)"
      by (auto simp: fn split: if_splits)
    with a e show "\<exists>code node_id. (code, node_id) \<in> set answers \<and> for_code self code \<noteq> NoError \<and>
           fst (find_coordinator_ids group_ids (self\<lparr>arrivals := order\<rparr>)) =
             Inl (BrokerError (for_code self code))"
      using sr[of order] by (auto simp: find_coordinator_ids_fst)
  qed
qed

text \<open>Three groups whose responses arrive in the order 2, 0, 1; and a lookup that fails
  for the second of two groups.\<close>

theorem find_coordinator_ids_input_order_witness:
  "fst (find_coordinator_ids [''g1'', ''g2'', ''g3''] (stub_client coordinators [2, 0, 1])) =
     Inr [(''g1'', 1), (''g2'', 2), (''g3'', 7)] \<and>
   (\<exists>found. fst (find_coordinator_ids [''g1'', ''g2'', ''g3''] (stub_client coordinators [2, 0, 1])) =
        Inr found \<and>
      map_of found ''g1'' = Some 1 \<and> map_of found ''g2'' = Some 2 \<and> map_of found ''g3'' = Some 7) \<and>
   fst (find_coordinator_ids [''g1'', ''gx''] (stub_client coordinators [1, 0])) =
     Inl (BrokerError (OtherError 15))"
proof -
  let ?w = "stub_client coordinators []"
  let ?gs = "[''g1'', ''g2'', ''g3'']"
  let ?answers = "[(0, 1), (0, 2), (0, 7)] :: (int \<times> int) list"
  have o: "?w\<lparr>arrivals := order\<rparr> = stub_client coordinators order" for order
    by (simp add: stub_client_def)
  have reach: "batch_reachable ?w (coordinator_requests ?w ?gs)" by code_simp
  have replies: "replies_to ?w (coordinator_requests ?w ?gs) =
      map (\<lambda>(code, node_id). Inr (FindCoordinatorResp code node_id)) ?answers" by code_simp
  have ok: "list_all (\<lambda>(code, node_id). for_code ?w code = NoError) ?answers" by code_simp
  from find_coordinator_ids_input_order[OF reach replies, THEN conjunct1, rule_format, OF ok,
      of "[2, 0, 1]"]
  obtain found where f: "fst (find_coordinator_ids ?gs (stub_client coordinators [2, 0, 1])) = Inr found"
    and at: "\<forall>i<length ?gs. ?gs ! i \<notin> set (drop (Suc i) ?gs) \<longrightarrow>
        map_of found (?gs ! i) = Some (snd (?answers ! i))"
    unfolding o by blast
  have a0: "map_of found ''g1'' = Some 1" using at[rule_format, of 0] by simp
  have a1: "map_of found ''g2'' = Some 2" using at[rule_format, of 1] by simp
  have a2: "map_of found ''g3'' = Some 7" using at[rule_format, of 2] by simp
  have e: "fst (find_coordinator_ids ?gs (stub_client coordinators [2, 0, 1])) =
      Inr [(''g1'', 1), (''g2'', 2), (''g3'', 7)]" by code_simp
  let ?hs = "[''g1'', ''gx'']"
  let ?bad = "[(0, 1), (15, - 1)] :: (int \<times> int) list"
  have reach': "batch_reachable ?w (coordinator_requests ?w ?hs)" by code_simp
  have replies': "replies_to ?w (coordinator_requests ?w ?hs) =
      map (\<lambda>(code, node_id). Inr (FindCoordinatorResp code node_id)) ?bad" by code_simp
  have bad: "\<not> list_all (\<lambda>(code, node_id). for_code ?w code = NoError) ?bad" by code_simp
  from find_coordinator_ids_input_order[OF reach' replies', THEN conjunct2, rule_format, OF bad,
      of "[1, 0]"]
  obtain code node_id where c: "(code, node_id) \<in> set ?bad" "for_code ?w code \<noteq> NoError"
    and r: "fst (find_coordinator_ids ?hs (stub_client coordinators [1, 0])) =
      Inl (BrokerError (for_code ?w code))"
    unfolding o by blast
  have k: "for_code ?w 0 = NoError" "for_code ?w 15 = OtherError 15" by code_simp+
  from c k have "code = 15" by auto
  with r k have r': "fst (find_coordinator_ids ?hs (stub_client coordinators [1, 0])) =
      Inl (BrokerError (OtherError 15))" by simp
  from f a0 a1 a2 e r' show ?thesis by blast
qed

section \<open>Round-robin assignment with static and dynamic members\<close>

text \<open>
  Claim C9 says that when all members subscribe to the same topics and every topic has
  partition metadata, every partition is assigned exactly once and the numbers of
  partitions of any two members differ by at most one (as the docstring of the class
  promises). \<^verbatim>\<open>itertools.groupby\<close> groups consecutive items only, and the dict comprehension
  keeps the last group of each key: with a static, a dynamic and another static member in
  this order, the first static member is missing from \<^verbatim>\<open>member_list\<close> and is assigned
  nothing, while the other two members share the four partitions.
\<close>

theorem assign_skips_static_member:
  "list_all (\<lambda>(member_id, s). set (topics s) = {''t''}) three_members \<and>
   four_partitions ''t'' = Some {0, 1, 2, 3} \<and>
   member_list three_members = [(Some ''i3'', ''m3''), (None, ''m2'')] \<and>
   assign four_partitions three_members =
     Inr [(''m1'', 0, [], []), (''m2'', 0, [(''t'', [1, 3])], []),
          (''m3'', 0, [(''t'', [0, 2])], [])] \<and>
   map (\<lambda>member_id.
          length (owned [(''m1'', 0, [], []), (''m2'', 0, [(''t'', [1, 3])], []),
                         (''m3'', 0, [(''t'', [0, 2])], [])] member_id))
       [''m1'', ''m2'', ''m3''] = [0, 2, 2]"
  by code_simp

section \<open>Listing consumer groups\<close>

text \<open>
  Claim C8. When every queried broker is ready and answers its ListGroups request without
  an error, \<^verbatim>\<open>list_consumer_groups\<close> returns a list that holds every
  \<^verbatim>\<open>(group, protocol_type)\<close> tuple at most once, and holds a tuple if and only if some
  queried broker reported it, in whatever order the responses arrive.
\<close>

theorem list_consumer_groups_union:
  assumes reach: "batch_reachable self (list_groups_requests self broker_ids)"
    and replies: "replies_to self (list_groups_requests self broker_ids) =
        map (\<lambda>(v, code, groups). Inr (ListGroupsResp v code groups)) answers"
    and ok: "list_all (\<lambda>(v, code, groups). v \<le> 2 \<and> for_code self code = NoError) answers"
  shows "\<exists>listed. fst (list_consumer_groups broker_ids self) = Inr listed \<and> distinct listed \<and>
           set listed = (\<Union>(v, code, groups)\<in>set answers. set groups)"
proof -
  let ?reqs = "map (\<lambda>broker_id. (list_consumer_groups_request self, Some broker_id))
      (case broker_ids of None \<Rightarrow> cluster_brokers self | Some ids \<Rightarrow> ids)"
  let ?rs = "map (\<lambda>(v, code, groups). ListGroupsResp v code groups) answers"
  have reach': "batch_reachable self ?reqs"
    using reach by (simp add: list_groups_requests_def queried_brokers_def)
  have r: "replies_to self ?reqs = map Inr ?rs"
    using replies by (simp add: comp_def case_prod_beta list_groups_requests_def queried_brokers_def)
  have "map_raise (list_consumer_groups_process_response self) ?rs =
        Inr (map (\<lambda>r. case r of ListGroupsResp v code groups \<Rightarrow> groups | _ \<Rightarrow> []) ?rs)"
    using ok
    by (intro map_raise_all_ok)
       (auto simp: list_consumer_groups_process_response_def list_all_iff)
  moreover have "fst (send_requests ?reqs (list_consumer_groups_process_response self) self) =
      map_raise (list_consumer_groups_process_response self) ?rs"
    by (rule send_requests_ok(1)[OF reach' r])
  ultimately have f: "fst (send_requests ?reqs (list_consumer_groups_process_response self) self) =
      Inr (map (\<lambda>(v, code, groups). groups) answers)"
    by (simp add: comp_def case_prod_beta)
  obtain x c where s: "send_requests ?reqs (list_consumer_groups_process_response self) self = (x, c)"
    by (cases "send_requests ?reqs (list_consumer_groups_process_response self) self")
  with f have "fst (list_consumer_groups broker_ids self) =
      Inr (remdups (concat (map (\<lambda>(v, code, groups). groups) answers)))"
    by (simp add: list_consumer_groups_def Let_def)
  then show ?thesis by (auto simp: case_prod_beta)
qed

text \<open>A group in the middle of a coordinator handoff is reported by two brokers and
  listed once; the responses arrive in the order 2, 0, 1.\<close>

theorem list_consumer_groups_union_witness:
  "fst (list_consumer_groups None (stub_client groups_moving [2, 0, 1])) =
     Inr [(''g1'', ''consumer''), (''g2'', ''consumer'')] \<and>
   (\<exists>listed. fst (list_consumer_groups None (stub_client groups_moving [2, 0, 1])) = Inr listed \<and>
      distinct listed \<and> set listed = {(''g1'', ''consumer''), (''g2'', ''consumer'')})"
proof -
  let ?w = "stub_client groups_moving [2, 0, 1]"
  let ?answers = "[(2, 0, [(''g1'', ''consumer'')]),
      (2, 0, [(''g1'', ''consumer''), (''g2'', ''consumer'')]),
      (2, 0, [])] :: (nat \<times> int \<times> (string \<times> string) list) list"
  have reach: "batch_reachable ?w (list_groups_requests ?w None)" by code_simp
  have replies: "replies_to ?w (list_groups_requests ?w None) =
      map (\<lambda>(v, code, groups). Inr (ListGroupsResp v code groups)) ?answers" by code_simp
  have ok: "list_all (\<lambda>(v, code, groups). v \<le> 2 \<and> for_code ?w code = NoError) ?answers"
    by code_simp
  have u: "(\<Union>(v, code, groups)\<in>set ?answers. set groups) =
      {(''g1'', ''consumer''), (''g2'', ''consumer'')}" by auto
  have e: "fst (list_consumer_groups None ?w) = Inr [(''g1'', ''consumer''), (''g2'', ''consumer'')]"
    by code_simp
  from list_consumer_groups_union[OF reach replies ok] u e show ?thesis by simp
qed

section \<open>Routing of DescribeConfigs\<close>



section \<open>The outcome of deleting records\<close>

lemma collect_partitions:
  "foldl (collect_step t) (r, e) ps =
     (foldl (\<lambda>d (k, v). dict_set d k v) r (map (\<lambda>pd. ((t, fst pd), pd)) ps),
      foldl (\<lambda>d (k, v). dict_set d k v) e (map (\<lambda>(tp, pd). (tp, snd (snd pd)))
        (filter (\<lambda>(tp, pd). snd (snd pd) \<noteq> 0) (map (\<lambda>pd. ((t, fst pd), pd)) ps))))"
  by (induction ps arbitrary: r e) (simp_all add: collect_step_def Let_def)

lemma collect_topics:
  "foldl (\<lambda>acc (topic_name, partition_list). foldl (collect_step topic_name) acc partition_list) (r, e) response =
     (foldl (\<lambda>d (k, v). dict_set d k v) r (concat (map (\<lambda>(t, ps). map (\<lambda>pd. ((t, fst pd), pd)) ps) response)),
      foldl (\<lambda>d (k, v). dict_set d k v) e (map (\<lambda>(tp, pd). (tp, snd (snd pd)))
        (filter (\<lambda>(tp, pd). snd (snd pd) \<noteq> 0)
           (concat (map (\<lambda>(t, ps). map (\<lambda>pd. ((t, fst pd), pd)) ps) response)))))"
  by (induction response arbitrary: r e) (auto simp: collect_partitions)

lemma collect_responses:
  "foldl (\<lambda>acc response.
            foldl (\<lambda>acc (topic_name, partition_list). foldl (collect_step topic_name) acc partition_list)
              acc response) (r, e) responses =
     (foldl (\<lambda>d (k, v). dict_set d k v) r (result_entries responses),
      foldl (\<lambda>d (k, v). dict_set d k v) e (map (\<lambda>(tp, pd). (tp, snd (snd pd)))
        (filter (\<lambda>(tp, pd). snd (snd pd) \<noteq> 0) (result_entries responses))))"
  by (induction responses arbitrary: r e) (auto simp: collect_topics result_entries_def)

lemma collect_results_eq:
  "collect_results responses =
     (dict_of (result_entries responses),
      dict_of (map (\<lambda>(tp, pd). (tp, snd (snd pd)))
        (filter (\<lambda>(tp, pd). snd (snd pd) \<noteq> 0) (result_entries responses))))"
  by (simp add: collect_results_def collect_responses dict_of_def)

text \<open>The outcome as a function of the responses: the three cases of the second half of
  \<^verbatim>\<open>delete_records\<close>.\<close>

lemma delete_records_outcome_of_responses:
  "(card (failed_partitions responses) = 1 \<longrightarrow>
      (\<exists>topic p wm code.
         failed_partitions responses = {(topic, p)} \<and>
         ((topic, p), (p, wm, code)) \<in> set (result_entries responses) \<and> code \<noteq> 0 \<and>
         delete_records_outcome self responses =
           Inl (DeleteRecordsError (for_code self code) topic p))) \<and>
   (2 \<le> card (failed_partitions responses) \<longrightarrow>
      (\<exists>named.
         delete_records_outcome self responses = Inl (BrokerResponseError named) \<and>
         distinct (map (\<lambda>(topic, p, e). (topic, p)) named) \<and>
         (\<lambda>(topic, p, e). (topic, p)) ` set named = failed_partitions responses \<and>
         (\<forall>(topic, p, e)\<in>set named.
            \<exists>wm code. ((topic, p), (p, wm, code)) \<in> set (result_entries responses) \<and>
              code \<noteq> 0 \<and> e = for_code self code))) \<and>
   (failed_partitions responses = {} \<longrightarrow>
      (\<exists>results.
         delete_records_outcome self responses = Inr results \<and>
         distinct (map fst results) \<and>
         fst ` set results = fst ` set (result_entries responses) \<and>
         (\<forall>(tp, partition_data)\<in>set results.
            (tp, partition_data) \<in> set (result_entries responses) \<and>
            snd (snd partition_data) = 0)))"
proof -
  let ?entries = "result_entries responses"
  let ?bad = "filter (\<lambda>(tp, pd). snd (snd pd) \<noteq> 0) ?entries"
  let ?codes = "map (\<lambda>(tp, pd). (tp, snd (snd pd))) ?bad"
  let ?r = "dict_of ?entries"
  let ?e = "dict_of ?codes"
  have coll: "collect_results responses = (?r, ?e)" by (rule collect_results_eq)
  have keys: "fst ` set ?e = failed_partitions responses"
    by (simp add: dict_of_facts(2) failed_partitions_def image_image case_prod_beta)
  have dist: "distinct (map fst ?e)" by (rule dict_of_facts(3))
  have len: "length ?e = card (failed_partitions responses)"
    using distinct_card[OF dist] keys by simp
  have entry: "\<exists>wm. ((fst tp, snd tp), (snd tp, wm, code)) \<in> set ?entries \<and> code \<noteq> 0"
    if "(tp, code) \<in> set ?e" for tp code
  proof -
    from that have "(tp, code) \<in> set ?codes" by (rule dict_of_member)
    then obtain pd where pd: "(tp, pd) \<in> set ?entries" "snd (snd pd) = code" "code \<noteq> 0"
      by auto
    from pd(1) have "fst pd = snd tp" by (auto simp: result_entries_def)
    with pd show ?thesis by (cases pd) auto
  qed
  have outcome: "delete_records_outcome self responses =
      (if ?e \<noteq> [] then
         if length ?e = 1 then
           (case hd ?e of (key, error) \<Rightarrow> Inl (DeleteRecordsError (for_code self error) (fst key) (snd key)))
         else Inl (BrokerResponseError (map (\<lambda>(tp, error). (fst tp, snd tp, for_code self error)) ?e))
       else Inr ?r)"
    by (simp add: delete_records_outcome_def coll)
  show ?thesis
  proof (intro conjI impI)
    assume one: "card (failed_partitions responses) = 1"
    with len have l1: "length ?e = 1" by simp
    then obtain key error where e: "?e = [(key, error)]"
      by (cases ?e) (auto simp: length_Suc_conv)
    from keys e have f: "failed_partitions responses = {(fst key, snd key)}" by simp
    from entry[of key error] e obtain wm where
      "((fst key, snd key), (snd key, wm, error)) \<in> set ?entries" "error \<noteq> 0" by auto
    moreover have "delete_records_outcome self responses =
        Inl (DeleteRecordsError (for_code self error) (fst key) (snd key))"
      unfolding outcome e by simp
    ultimately show "\<exists>topic p wm code.
         failed_partitions responses = {(topic, p)} \<and>
         ((topic, p), (p, wm, code)) \<in> set (result_entries responses) \<and> code \<noteq> 0 \<and>
         delete_records_outcome self responses =
           Inl (DeleteRecordsError (for_code self code) topic p)"
      using f by blast
  next
    assume many: "2 \<le> card (failed_partitions responses)"
    let ?named = "map (\<lambda>(tp, error). (fst tp, snd tp, for_code self error)) ?e"
    from many len have l2: "?e \<noteq> []" "length ?e \<noteq> 1" by auto
    have o: "delete_records_outcome self responses = Inl (BrokerResponseError ?named)"
      unfolding outcome using l2 by simp
    have proj: "map (\<lambda>(topic, p, e). (topic, p)) ?named = map fst ?e"
      by (simp add: comp_def case_prod_beta)
    have d: "distinct (map (\<lambda>(topic, p, e). (topic, p)) ?named)" unfolding proj by (rule dist)
    have k: "(\<lambda>(topic, p, e). (topic, p)) ` set ?named = failed_partitions responses"
    proof -
      have "(\<lambda>(topic, p, e). (topic, p)) ` set ?named =
          set (map (\<lambda>(topic, p, e). (topic, p)) ?named)" by (simp only: set_map)
      also have "\<dots> = fst ` set ?e" unfolding proj by (simp only: set_map)
      finally show ?thesis using keys by simp
    qed
    have a: "\<forall>(topic, p, e)\<in>set ?named.
            \<exists>wm code. ((topic, p), (p, wm, code)) \<in> set (result_entries responses) \<and>
              code \<noteq> 0 \<and> e = for_code self code"
    proof (clarify)
      fix topic p e assume "(topic, p, e) \<in> set ?named"
      then obtain tp code where m: "(tp, code) \<in> set ?e" "topic = fst tp" "p = snd tp"
        "e = for_code self code" by auto
      from entry[OF m(1)] m show "\<exists>wm code. ((topic, p), (p, wm, code)) \<in> set (result_entries responses) \<and>
              code \<noteq> 0 \<and> e = for_code self code" by blast
    qed
    from o d k a show "\<exists>named.
         delete_records_outcome self responses = Inl (BrokerResponseError named) \<and>
         distinct (map (\<lambda>(topic, p, e). (topic, p)) named) \<and>
         (\<lambda>(topic, p, e). (topic, p)) ` set named = failed_partitions responses \<and>
         (\<forall>(topic, p, e)\<in>set named.
            \<exists>wm code. ((topic, p), (p, wm, code)) \<in> set (result_entries responses) \<and>
              code \<noteq> 0 \<and> e = for_code self code)" by blast
  next
    assume none: "failed_partitions responses = {}"
    with len have e0: "?e = []" by simp
    have o: "delete_records_outcome self responses = Inr ?r" unfolding outcome e0 by simp
    have nobad: "snd (snd pd) = 0" if "(tp, pd) \<in> set ?entries" for tp pd
    proof (rule ccontr)
      assume "snd (snd pd) \<noteq> 0"
      with that have "tp \<in> failed_partitions responses"
        by (force simp: failed_partitions_def)
      with none show False by simp
    qed
    have a: "\<forall>(tp, partition_data)\<in>set ?r.
            (tp, partition_data) \<in> set (result_entries responses) \<and> snd (snd partition_data) = 0"
      using dict_of_member[of _ _ ?entries] nobad by blast
    from o a dict_of_facts(2)[of ?entries] dict_of_facts(3)[of ?entries]
    show "\<exists>results.
         delete_records_outcome self responses = Inr results \<and>
         distinct (map fst results) \<and>
         fst ` set results = fst ` set (result_entries responses) \<and>
         (\<forall>(tp, partition_data)\<in>set results.
            (tp, partition_data) \<in> set (result_entries responses) \<and>
            snd (snd partition_data) = 0)" by blast
  qed
qed


text \<open>The responses of the first half are the replies to the requests it sent.\<close>

lemma delete_records_request_kind:
  "delete_records_request v rtd ps t = Inr request \<Longrightarrow> is_delete_records request"
  by (auto simp: delete_records_request_def is_delete_records_def split: sum.splits)

lemma get_leader_for_partitions_log:
  assumes "get_leader_for_partitions ps t self = (Inr l2p, c)"
  shows "\<exists>n request. sent c = sent self @ [(n, request)] \<and> \<not> is_delete_records request \<and>
           reply c = reply self \<and> for_code c = for_code self"
proof -
  from assms obtain request response where
    r: "metadata_request self (Some (fst ` set ps)) False = Inr request"
    and s: "send_request request None self = (Inr response, c)"
    by (auto simp: get_leader_for_partitions_def get_cluster_metadata_def Let_def
          split: sum.splits prod.splits if_splits)
  from r have "\<not> is_delete_records request"
    by (auto simp: metadata_request_def is_delete_records_def Let_def split: if_splits)
  with send_request_sent[OF s] send_request_answered(2,3)[OF s] show ?thesis by auto
qed

lemma delete_records_send_log:
  "delete_records_send v rtd t l2p c = (Inr responses, c') \<Longrightarrow>
   \<exists>new. sent c' = sent c @ new \<and> list_all (\<lambda>(n, r). is_delete_records r) new \<and>
     map fst new = map fst l2p \<and>
     map (\<lambda>(i, n, r). reply c i n r) (enumerate (length (inflight c)) new) =
       map (\<lambda>topic_results. Inr (DeleteRecordsResp topic_results)) responses \<and>
     reply c' = reply c \<and> for_code c' = for_code c"
proof (induction l2p arbitrary: c responses)
  case Nil
  then show ?case by simp
next
  case (Cons entry l2p)
  obtain leader ps where entry: "entry = (leader, ps)" by (cases entry)
  from Cons.prems obtain request topic_results c1 rest where
    rq: "delete_records_request v rtd ps t = Inr request"
    and s: "send_request request (Some leader) c = (Inr (DeleteRecordsResp topic_results), c1)"
    and more: "delete_records_send v rtd t l2p c1 = (Inr rest, c')"
    and rs: "responses = topic_results # rest"
    by (auto simp: entry split: sum.splits prod.splits response.splits)
  from Cons.IH[OF more] obtain new where
    n1: "sent c' = sent c1 @ new" and n2: "list_all (\<lambda>(n, r). is_delete_records r) new"
    and n6: "map fst new = map fst l2p"
    and n3: "map (\<lambda>(i, n, r). reply c1 i n r) (enumerate (length (inflight c1)) new) =
       map (\<lambda>topic_results. Inr (DeleteRecordsResp topic_results)) rest"
    and n4: "reply c' = reply c1" and n5: "for_code c' = for_code c1" by blast
  have s1: "sent c1 = sent c @ [(leader, request)]" using send_request_sent[OF s] by simp
  have l1: "length (inflight c1) = Suc (length (inflight c))"
    using arg_cong[OF s1, of length] by (simp add: length_sent)
  note a = send_request_answered[OF s]
  show ?case
  proof (intro exI[of _ "(leader, request) # new"] conjI)
    show "sent c' = sent c @ (leader, request) # new" using n1 s1 by simp
    show "list_all (\<lambda>(n, r). is_delete_records r) ((leader, request) # new)"
      using n2 delete_records_request_kind[OF rq] by simp
    show "map fst ((leader, request) # new) = map fst (entry # l2p)"
      using n6 entry by simp
    show "map (\<lambda>(i, n, r). reply c i n r) (enumerate (length (inflight c)) ((leader, request) # new)) =
       map (\<lambda>topic_results. Inr (DeleteRecordsResp topic_results)) responses"
      using n3 a(1) a(2) l1 rs by simp
    show "reply c' = reply c" using n4 a(2) by simp
    show "for_code c' = for_code c" using n5 a(3) by simp
  qed
qed

lemma filter_enumerate_all:
  "list_all (\<lambda>(n, r). P r) new \<Longrightarrow>
   filter (\<lambda>(i, n, r). P r) (enumerate k new) = enumerate k new"
  by (induction new arbitrary: k) auto

lemma map_snd_enumerate: "map (\<lambda>(i, n, r). n) (enumerate k new) = map fst new"
  by (induction new arbitrary: k) auto

lemma delete_records_responses_log:
  assumes "delete_records_responses rtd t leader self = (Inr responses, c')"
  shows "delete_records_replies self c' =
           map (\<lambda>topic_results. Inr (DeleteRecordsResp topic_results)) responses"
    and "map (\<lambda>(i, node_id, request). node_id) (delete_records_sent self c') =
           delete_records_targets rtd t leader self"
    and "for_code c' = for_code self"
proof -
  let ?v = "api_version self DeleteRecords 0"
  let ?k = "length (inflight self)"
  have "delete_records_replies self c' =
           map (\<lambda>topic_results. Inr (DeleteRecordsResp topic_results)) responses \<and>
        map (\<lambda>(i, node_id, request). node_id) (delete_records_sent self c') =
           delete_records_targets rtd t leader self \<and>
        for_code c' = for_code self"
  proof (cases leader)
    case (Some node)
    with assms have "delete_records_send ?v rtd t [(node, set_items self (map fst rtd))] self =
        (Inr responses, c')"
      by (simp add: delete_records_responses_def Let_def del: delete_records_send.simps)
    from delete_records_send_log[OF this] obtain new where
      n: "sent c' = sent self @ new" "list_all (\<lambda>(n, r). is_delete_records r) new"
       "map fst new = [node]"
       "map (\<lambda>(i, n, r). reply self i n r) (enumerate ?k new) =
         map (\<lambda>topic_results. Inr (DeleteRecordsResp topic_results)) responses"
       "for_code c' = for_code self" by auto
    have ds: "delete_records_sent self c' = enumerate ?k new"
      using n(1,2) by (simp add: delete_records_sent_def filter_enumerate_all length_sent)
    show ?thesis
      using n(3,4,5) Some
      by (simp add: delete_records_replies_def ds map_snd_enumerate delete_records_targets_def)
  next
    case None
    with assms obtain l2p c where
      g: "get_leader_for_partitions (map fst rtd) (Some t) self = (Inr l2p, c)"
      and d: "delete_records_send ?v rtd t l2p c = (Inr responses, c')"
      by (auto simp: delete_records_responses_def Let_def simp del: delete_records_send.simps
            split: sum.splits prod.splits)
    from get_leader_for_partitions_log[OF g] obtain n request where
      m: "sent c = sent self @ [(n, request)]" "\<not> is_delete_records request"
        "reply c = reply self" "for_code c = for_code self" by blast
    have l: "length (inflight c) = Suc ?k" using arg_cong[OF m(1), of length] by (simp add: length_sent)
    from delete_records_send_log[OF d] obtain new where
      n: "sent c' = sent c @ new" "list_all (\<lambda>(n, r). is_delete_records r) new"
       "map fst new = map fst l2p"
       "map (\<lambda>(i, n, r). reply c i n r) (enumerate (length (inflight c)) new) =
         map (\<lambda>topic_results. Inr (DeleteRecordsResp topic_results)) responses"
       "for_code c' = for_code c" by blast
    have ds: "delete_records_sent self c' = enumerate (Suc ?k) new"
      using n(1,2) m(1,2) by (simp add: delete_records_sent_def filter_enumerate_all length_sent)
    show ?thesis
      using n(3,4,5) m(3,4) l None g
      by (simp add: delete_records_replies_def ds map_snd_enumerate delete_records_targets_def)
  qed
  then show "delete_records_replies self c' =
           map (\<lambda>topic_results. Inr (DeleteRecordsResp topic_results)) responses"
    and "map (\<lambda>(i, node_id, request). node_id) (delete_records_sent self c') =
           delete_records_targets rtd t leader self"
    and "for_code c' = for_code self" by simp_all
qed

text \<open>
  Claim C3. When \<^verbatim>\<open>delete_records\<close> has collected its responses (the leader lookup and the
  sends of its first half raised nothing), one DeleteRecords request has gone to each of
  its targets, the responses are what the brokers answered to these requests, in sending
  order, and for the per-partition results in them:
  \<^item> if exactly one partition has a result with a non-zero \<^verbatim>\<open>error_code\<close>,
    \<^verbatim>\<open>delete_records\<close> raises the typed error of such a code of that partition, with the topic
    and the partition in its message;
  \<^item> if two or more partitions have one, it raises \<^verbatim>\<open>BrokerResponseError\<close>, and the message
    lists every failed partition exactly once, each with its topic, its partition and the
    name of the error of a non-zero code reported for it;
  \<^item> if no partition has one, it returns a dict whose keys are the returned partitions and
    whose values are results of these partitions, all with \<^verbatim>\<open>error_code\<close> zero.
\<close>

theorem delete_records_outcome_cases:
  assumes collected:
    "delete_records_responses records_to_delete (validate_timeout self timeout_ms)
       partition_leader_id self = (Inr responses, c')"
  shows
    "map (\<lambda>(i, node_id, request). node_id) (delete_records_sent self c') =
       delete_records_targets records_to_delete (validate_timeout self timeout_ms)
         partition_leader_id self \<and>
     delete_records_replies self c' =
       map (\<lambda>topic_results. Inr (DeleteRecordsResp topic_results)) responses \<and>
     (card (failed_partitions responses) = 1 \<longrightarrow>
        (\<exists>topic p wm code.
           failed_partitions responses = {(topic, p)} \<and>
           ((topic, p), (p, wm, code)) \<in> set (result_entries responses) \<and> code \<noteq> 0 \<and>
           delete_records records_to_delete timeout_ms partition_leader_id self =
             (Inl (DeleteRecordsError (for_code self code) topic p), c'))) \<and>
     (2 \<le> card (failed_partitions responses) \<longrightarrow>
        (\<exists>named.
           delete_records records_to_delete timeout_ms partition_leader_id self =
             (Inl (BrokerResponseError named), c') \<and>
           distinct (map (\<lambda>(topic, p, e). (topic, p)) named) \<and>
           (\<lambda>(topic, p, e). (topic, p)) ` set named = failed_partitions responses \<and>
           (\<forall>(topic, p, e)\<in>set named.
              \<exists>wm code. ((topic, p), (p, wm, code)) \<in> set (result_entries responses) \<and>
                code \<noteq> 0 \<and> e = for_code self code))) \<and>
     (failed_partitions responses = {} \<longrightarrow>
        (\<exists>results.
           delete_records records_to_delete timeout_ms partition_leader_id self =
             (Inr results, c') \<and>
           distinct (map fst results) \<and>
           fst ` set results = fst ` set (result_entries responses) \<and>
           (\<forall>(tp, partition_data)\<in>set results.
              (tp, partition_data) \<in> set (result_entries responses) \<and>
              snd (snd partition_data) = 0)))"
proof -
  note log = delete_records_responses_log[OF collected]
  have whole: "delete_records records_to_delete timeout_ms partition_leader_id self =
      (delete_records_outcome c' responses, c')"
    by (simp add: delete_records_def collected)
  note cases = delete_records_outcome_of_responses[of responses c', unfolded log(3)]
  show ?thesis
  proof (intro conjI)
    show "map (\<lambda>(i, node_id, request). node_id) (delete_records_sent self c') =
       delete_records_targets records_to_delete (validate_timeout self timeout_ms)
         partition_leader_id self" by (rule log(2))
  next
    show "delete_records_replies self c' =
       map (\<lambda>topic_results. Inr (DeleteRecordsResp topic_results)) responses" by (rule log(1))
  next
    show "card (failed_partitions responses) = 1 \<longrightarrow>
        (\<exists>topic p wm code.
           failed_partitions responses = {(topic, p)} \<and>
           ((topic, p), (p, wm, code)) \<in> set (result_entries responses) \<and> code \<noteq> 0 \<and>
           delete_records records_to_delete timeout_ms partition_leader_id self =
             (Inl (DeleteRecordsError (for_code self code) topic p), c'))"
      unfolding whole using cases[THEN conjunct1] by simp
  next
    show "2 \<le> card (failed_partitions responses) \<longrightarrow>
        (\<exists>named.
           delete_records records_to_delete timeout_ms partition_leader_id self =
             (Inl (BrokerResponseError named), c') \<and>
           distinct (map (\<lambda>(topic, p, e). (topic, p)) named) \<and>
           (\<lambda>(topic, p, e). (topic, p)) ` set named = failed_partitions responses \<and>
           (\<forall>(topic, p, e)\<in>set named.
              \<exists>wm code. ((topic, p), (p, wm, code)) \<in> set (result_entries responses) \<and>
                code \<noteq> 0 \<and> e = for_code self code))"
      unfolding whole using cases[THEN conjunct2, THEN conjunct1] by simp
  next
    show "failed_partitions responses = {} \<longrightarrow>
        (\<exists>results.
           delete_records records_to_delete timeout_ms partition_leader_id self =
             (Inr results, c') \<and>
           distinct (map fst results) \<and>
           fst ` set results = fst ` set (result_entries responses) \<and>
           (\<forall>(tp, partition_data)\<in>set results.
              (tp, partition_data) \<in> set (result_entries responses) \<and>
              snd (snd partition_data) = 0))"
      unfolding whole using cases[THEN conjunct2, THEN conjunct2] by simp
  qed
qed

text \<open>
  Scenario S4, run from the call: the leaders of the partitions 0 and 1 of \<open>t\<close> are looked
  up and each gets a request. One failed partition of two gives the typed error of code 3,
  not an aggregate; two failed partitions give the aggregate; none gives the dict.
\<close>

theorem delete_records_outcome_cases_witness:
  "fst (delete_records two_offsets None None (stub_client two_leaders [])) =
     Inl (DeleteRecordsError (OtherError 3) ''t'' 1) \<and>
   (\<exists>topic p code c'.
      delete_records two_offsets None None (stub_client two_leaders []) =
        (Inl (DeleteRecordsError (for_code (stub_client two_leaders []) code) topic p), c') \<and>
      code \<noteq> 0) \<and>
   fst (delete_records two_offsets None None
          (stub_client (leaders_answer (0, - 1, 3) (1, - 1, 5)) [])) =
     Inl (BrokerResponseError [(''t'', 0, OtherError 3), (''t'', 1, OtherError 5)]) \<and>
   (\<exists>named c'.
      delete_records two_offsets None None
        (stub_client (leaders_answer (0, - 1, 3) (1, - 1, 5)) []) =
        (Inl (BrokerResponseError named), c') \<and>
      (\<lambda>(topic, p, e). (topic, p)) ` set named = {(''t'', 0), (''t'', 1)}) \<and>
   fst (delete_records two_offsets None None
          (stub_client (leaders_answer (0, 100, 0) (1, 200, 0)) [])) =
     Inr [((''t'', 0), (0, 100, 0)), ((''t'', 1), (1, 200, 0))] \<and>
   (\<exists>results c'.
      delete_records two_offsets None None
        (stub_client (leaders_answer (0, 100, 0) (1, 200, 0)) []) = (Inr results, c') \<and>
      fst ` set results = {(''t'', 0), (''t'', 1)}) \<and>
   delete_records_replies (stub_client two_leaders [])
     (snd (delete_records two_offsets None None (stub_client two_leaders []))) =
     [Inr (DeleteRecordsResp [(''t'', [(0, 100, 0)])]), Inr (DeleteRecordsResp [(''t'', [(1, - 1, 3)])])] \<and>
   map (\<lambda>(i, node_id, request). node_id)
     (delete_records_sent (stub_client two_leaders [])
        (snd (delete_records two_offsets None None (stub_client two_leaders [])))) = [1, 2]"
proof -
  let ?w = "stub_client two_leaders []"
  let ?v = "stub_client (leaders_answer (0, - 1, 3) (1, - 1, 5)) []"
  let ?u = "stub_client (leaders_answer (0, 100, 0) (1, 200, 0)) []"
  let ?one = "[[(''t'', [(0, 100, 0)])], [(''t'', [(1, - 1, 3)])]] :: (string \<times> partition_result list) list list"
  let ?two = "[[(''t'', [(0, - 1, 3)])], [(''t'', [(1, - 1, 5)])]] :: (string \<times> partition_result list) list list"
  let ?none = "[[(''t'', [(0, 100, 0)])], [(''t'', [(1, 200, 0)])]] :: (string \<times> partition_result list) list list"
  have r1: "delete_records_responses two_offsets (validate_timeout ?w None) None ?w =
      (Inr ?one, snd (delete_records_responses two_offsets (validate_timeout ?w None) None ?w))"
    by (rule pair_of_fst) code_simp
  have r2: "delete_records_responses two_offsets (validate_timeout ?v None) None ?v =
      (Inr ?two, snd (delete_records_responses two_offsets (validate_timeout ?v None) None ?v))"
    by (rule pair_of_fst) code_simp
  have r0: "delete_records_responses two_offsets (validate_timeout ?u None) None ?u =
      (Inr ?none, snd (delete_records_responses two_offsets (validate_timeout ?u None) None ?u))"
    by (rule pair_of_fst) code_simp
  have c1: "card (failed_partitions ?one) = 1" by code_simp
  have c2: "2 \<le> card (failed_partitions ?two)" by code_simp
  have f2: "failed_partitions ?two = {(''t'', 0), (''t'', 1)}" by code_simp
  have c0: "failed_partitions ?none = {}" by code_simp
  have k0: "fst ` set (result_entries ?none) = {(''t'', 0), (''t'', 1)}" by code_simp
  note t1 = delete_records_outcome_cases[OF r1]
  note t2 = delete_records_outcome_cases[OF r2]
  note t0 = delete_records_outcome_cases[OF r0]
  from t1[THEN conjunct2, THEN conjunct2, THEN conjunct1, rule_format, OF c1]
  have a: "\<exists>topic p code c'.
      delete_records two_offsets None None ?w =
        (Inl (DeleteRecordsError (for_code ?w code) topic p), c') \<and> code \<noteq> 0"
    by blast
  from t2[THEN conjunct2, THEN conjunct2, THEN conjunct2, THEN conjunct1, rule_format, OF c2]
  have b: "\<exists>named c'. delete_records two_offsets None None ?v = (Inl (BrokerResponseError named), c') \<and>
      (\<lambda>(topic, p, e). (topic, p)) ` set named = {(''t'', 0), (''t'', 1)}"
    unfolding f2 by blast
  from t0[THEN conjunct2, THEN conjunct2, THEN conjunct2, THEN conjunct2, rule_format, OF c0]
  have c: "\<exists>results c'. delete_records two_offsets None None ?u = (Inr results, c') \<and>
      fst ` set results = {(''t'', 0), (''t'', 1)}"
    unfolding k0 by blast
  have whole: "snd (delete_records two_offsets None None ?w) =
      snd (delete_records_responses two_offsets (validate_timeout ?w None) None ?w)"
    by (simp add: delete_records_def Let_def split: prod.splits sum.splits)
  have d: "delete_records_replies ?w (snd (delete_records two_offsets None None ?w)) =
      [Inr (DeleteRecordsResp [(''t'', [(0, 100, 0)])]), Inr (DeleteRecordsResp [(''t'', [(1, - 1, 3)])])]"
    unfolding whole using t1[THEN conjunct2, THEN conjunct1] by simp
  have e1: "fst (delete_records two_offsets None None ?w) =
      Inl (DeleteRecordsError (OtherError 3) ''t'' 1)"
    by code_simp
  have e2: "fst (delete_records two_offsets None None ?v) =
      Inl (BrokerResponseError [(''t'', 0, OtherError 3), (''t'', 1, OtherError 5)])" by code_simp
  have e0: "fst (delete_records two_offsets None None ?u) =
      Inr [((''t'', 0), (0, 100, 0)), ((''t'', 1), (1, 200, 0))]" by code_simp
  have tg: "delete_records_targets two_offsets (validate_timeout ?w None) None ?w = [1, 2]"
    by code_simp
  have g: "map (\<lambda>(i, node_id, request). node_id)
      (delete_records_sent ?w (snd (delete_records two_offsets None None ?w))) = [1, 2]"
    unfolding whole using t1[THEN conjunct1] tg by simp
  from a b c d g e1 e2 e0 show ?thesis by (intro conjI)
qed

section \<open>Leaders of the partitions\<close>














end
